(* ===== verification/Prelude.thy ===== *)
theory Prelude
  imports Complex_Main "HOL-Library.Signed_Division"
begin

text \<open>
  Shared vocabulary of the viewer development.

  \<^item> The types that stand for JavaScript values: \<open>number\<close> (a JavaScript Number read as a
    real; the components prove that the values they compute stay on a grid where the
    arithmetic of doubles is exact, or take the rounding function as a parameter),
    \<open>vec3\<close> (a three-element array literal) and \<open>js_error\<close> (the exceptions the
    source can raise).
  \<^item> \<open>js_index\<close>: an array read \<open>xs[i]\<close>, which yields \<open>undefined\<close> (here \<open>None\<close>)
    outside \<open>0 \<le> i < xs.length\<close> instead of failing.
  \<^item> Facts about the remainder operator \<open>%\<close> of JavaScript, which truncates towards
    zero and is therefore \<open>smod\<close> of \<open>HOL-Library.Signed_Division\<close>, not \<open>mod\<close>.
  \<^item> Facts about half-integers, the grid on which zoom levels live.
  \<^item> \<open>Math_PI\<close>: the constant \<^verbatim>\<open>Math.PI\<close>, which is a double and not the real number
    \<open>pi\<close>. Decimal literals of the source (\<^verbatim>\<open>0.3\<close>, \<^verbatim>\<open>-1.1\<close>) denote their decimal
    value; the program hands those that are not exact doubles to the rendering
    library without computing with them.
  \<^item> \<open>deps_changed\<close>: when React runs an effect again (after the first commit, and
    after a commit in which a dependency differs from its last value).
  \<^item> \<open>rounding\<close>: what the frame callback assumes of the rounding of a floating
    point operation (monotone, exact on zero, idempotent).
  \<^item> The collections \<open>viewer_defs\<close> and \<open>viewer_inv\<close> that the component theories
    fill and hand to \<open>simp\<close> and \<open>auto\<close>.
\<close>

section \<open>Collections and types\<close>

named_theorems viewer_defs "definitions of operations, unfolded in component proofs"
named_theorems viewer_inv "an operation keeps an invariant"

type_synonym number = real
type_synonym vec3 = "number \<times> number \<times> number"

datatype js_error = TypeError

definition Math_PI :: number where
  "Math_PI = 884279719003555 / 281474976710656"

lemma Math_PI_bounds: "3.141592653589793 < Math_PI" "Math_PI < 3.141592653589794"
  by (simp_all add: Math_PI_def)

lemma Math_PI_is_double: "Math_PI = 7074237752028440 / 2 ^ 51" "(7074237752028440::int) < 2 ^ 53"
  by (simp_all add: Math_PI_def)

section \<open>Effects and their dependencies\<close>

definition deps_changed :: "'a option \<Rightarrow> 'a \<Rightarrow> bool" where
  "deps_changed prev cur \<longleftrightarrow> prev \<noteq> Some cur"

lemma deps_changed_simps [simp]:
  "deps_changed None cur"
  "deps_changed (Some x) cur \<longleftrightarrow> x \<noteq> cur"
  by (auto simp: deps_changed_def)

section \<open>Rounding of floating point results\<close>

definition rounding :: "(number \<Rightarrow> number) \<Rightarrow> bool" where
  "rounding rnd \<longleftrightarrow> mono rnd \<and> rnd 0 = 0 \<and> (\<forall>x. rnd (rnd x) = rnd x)"

lemma rounding_exact [simp]: "rounding (\<lambda>x. x)"
  by (simp add: rounding_def mono_def)

lemma rounding_mono: "rounding rnd \<Longrightarrow> x \<le> y \<Longrightarrow> rnd x \<le> rnd y"
  by (simp add: rounding_def monoD)

lemma rounding_nonneg:
  assumes "rounding rnd" and "0 \<le> x"
  shows "0 \<le> rnd x"
proof -
  from assms have "rnd 0 \<le> rnd x" by (rule rounding_mono)
  with assms(1) show ?thesis by (simp add: rounding_def)
qed

lemma rounding_idem: "rounding rnd \<Longrightarrow> rnd (rnd x) = rnd x"
  by (simp add: rounding_def)

section \<open>Array reads\<close>

definition js_index :: "'a list \<Rightarrow> int \<Rightarrow> 'a option" where
  "js_index xs i = (if 0 \<le> i \<and> i < int (length xs) then Some (xs ! nat i) else None)"

lemma js_index_Some_iff:
  "js_index xs i = Some x \<longleftrightarrow> 0 \<le> i \<and> i < int (length xs) \<and> xs ! nat i = x"
  by (auto simp: js_index_def)

lemma js_index_None_iff:
  "js_index xs i = None \<longleftrightarrow> i < 0 \<or> int (length xs) \<le> i"
  by (auto simp: js_index_def)

lemma js_index_in_range [simp]:
  "0 \<le> i \<Longrightarrow> i < int (length xs) \<Longrightarrow> js_index xs i = Some (xs ! nat i)"
  by (simp add: js_index_def)

lemma js_index_in_set: "js_index xs i = Some x \<Longrightarrow> x \<in> set xs"
  by (auto simp: js_index_Some_iff)

lemma js_index_int [simp]: "js_index xs (int n) = (if n < length xs then Some (xs ! n) else None)"
  by (simp add: js_index_def)

section \<open>The remainder operator on a cyclic counter\<close>

lemma smod_succ_cycle:
  fixes i n :: int
  assumes "0 \<le> i" and "i < n"
  shows "(i + 1) smod n = (if i + 1 = n then 0 else i + 1)"
  using assms by (simp add: smod_mod_positive)

lemma smod_succ_range:
  fixes i n :: int
  assumes "0 \<le> i" and "i < n"
  shows "0 \<le> (i + 1) smod n \<and> (i + 1) smod n < n"
  using assms by (simp add: smod_succ_cycle)

lemma smod_succ_eq_mod:
  fixes i n :: int
  assumes "0 \<le> i" and "0 < n"
  shows "(i + 1) smod n = (i + 1) mod n"
  using assms by (simp add: smod_mod_positive)

text \<open>
  Iterating the successor \<open>k\<close> times from a counter in range adds \<open>k\<close> modulo \<open>n\<close>: the
  closed form of any number of timer ticks.
\<close>

lemma funpow_succ_smod:
  fixes i n :: int
  assumes "0 \<le> i" and "i < n"
  shows "((\<lambda>j. (j + 1) smod n) ^^ k) i = (i + int k) mod n"
proof (induction k)
  case 0
  from assms show ?case by simp
next
  case (Suc k)
  have n: "0 < n" using assms by simp
  have "((\<lambda>j. (j + 1) smod n) ^^ Suc k) i = ((i + int k) mod n + 1) smod n"
    by (simp add: Suc.IH)
  also have "\<dots> = ((i + int k) mod n + 1) mod n"
    using n by (intro smod_succ_eq_mod) simp_all
  also have "\<dots> = (i + int (Suc k)) mod n"
    by (simp add: mod_simps ac_simps)
  finally show ?case .
qed

lemma smod_one_numeral [simp]: "(1::int) smod numeral n = 1 mod numeral n"
  by (simp add: smod_mod_positive)

lemma negative_smod_stays_negative:
  fixes i n :: int
  assumes "i < - 1" and "0 < n"
  shows "(i + 1) smod n \<le> 0"
  using assms by (simp add: signed_modulo_int_def sgn_if)

section \<open>Half-integers\<close>

definition half_integer :: "number \<Rightarrow> bool" where
  "half_integer x \<longleftrightarrow> of_int \<lfloor>2 * x\<rfloor> = 2 * x"

lemma half_integer_iff: "half_integer x \<longleftrightarrow> (\<exists>k::int. x = of_int k / 2)"
proof
  assume "half_integer x"
  then have "x = of_int \<lfloor>2 * x\<rfloor> / 2"
    unfolding half_integer_def by linarith
  then show "\<exists>k::int. x = of_int k / 2" ..
next
  assume "\<exists>k::int. x = of_int k / 2"
  then obtain k :: int where "x = of_int k / 2" ..
  then have "2 * x = of_int k" by simp
  then show "half_integer x"
    unfolding half_integer_def by (simp only: floor_of_int)
qed

lemma half_integer_of_int_div2 [simp]: "half_integer (of_int k / 2)"
  unfolding half_integer_iff by blast

lemma half_integerE:
  assumes "half_integer x"
  obtains k :: int where "x = of_int k / 2"
  using assms unfolding half_integer_iff by blast

lemma half_integer_add_int [simp]:
  assumes "half_integer x"
  shows "half_integer (x + of_int m)"
proof -
  from assms obtain k :: int where "x = of_int k / 2" by (rule half_integerE)
  then have "x + of_int m = of_int (k + 2 * m) / 2" by simp
  then show ?thesis by (simp only: half_integer_of_int_div2)
qed

lemma half_integer_succ [simp]: "half_integer x \<Longrightarrow> half_integer (x + 1)"
  using half_integer_add_int [of x 1] by simp

lemma half_integer_pred [simp]: "half_integer x \<Longrightarrow> half_integer (x - 1)"
  using half_integer_add_int [of x "- 1"] by simp

lemma half_integer_numeral [simp]: "half_integer (numeral w)"
  by (simp add: half_integer_def)

lemma half_integer_numeral_div2 [simp]: "half_integer (numeral w / 2)"
  using half_integer_of_int_div2 [of "numeral w"] by (simp only: of_int_numeral)

lemma half_integer_max [simp]:
  "half_integer x \<Longrightarrow> half_integer y \<Longrightarrow> half_integer (max x y)"
  by (simp add: max_def)

lemma half_integer_min [simp]:
  "half_integer x \<Longrightarrow> half_integer y \<Longrightarrow> half_integer (min x y)"
  by (simp add: min_def)

text \<open>The half-integers of a closed interval with numeral ends can be listed.\<close>

lemma half_integer_between:
  assumes "half_integer x" and "of_int a / 2 \<le> x" and "x \<le> of_int b / 2"
  shows "\<exists>k. a \<le> k \<and> k \<le> b \<and> x = of_int k / 2"
proof -
  from assms(1) obtain k :: int where x: "x = of_int k / 2" by (rule half_integerE)
  with assms(2,3) have "a \<le> k" and "k \<le> b" by simp_all
  with x show ?thesis by blast
qed

text \<open>
  Between two half-integers that are less than one apart lies exactly a half step: the
  fact that bounds the zoom grid from both ends.
\<close>

lemma half_integer_gap:
  assumes "half_integer x" and "half_integer y" and "x < y"
  shows "x + 1 / 2 \<le> y"
proof -
  from assms(1) obtain k :: int where x: "x = of_int k / 2" by (rule half_integerE)
  from assms(2) obtain l :: int where y: "y = of_int l / 2" by (rule half_integerE)
  from assms(3) have "k < l" by (simp add: x y)
  then have "k + 1 \<le> l" by simp
  then have "(of_int (k + 1) :: real) \<le> of_int l" by (simp only: of_int_le_iff)
  then show ?thesis by (simp add: x y)
qed

section \<open>Runs\<close>

text \<open>An invariant kept by every step is kept by a fold over any list of inputs.\<close>

lemma fold_invariant:
  assumes "\<And>x s. I s \<Longrightarrow> I (f x s)" and "I s"
  shows "I (fold f xs s)"
  using assms(2) by (induction xs arbitrary: s) (simp_all add: assms(1))

lemma fold_filter_irrelevant:
  assumes "\<And>x s. \<not> P x \<Longrightarrow> g (f x s) = g s"
    and "\<And>x s t. P x \<Longrightarrow> g s = g t \<Longrightarrow> g (f x s) = g (f x t)"
  shows "g s = g t \<Longrightarrow> g (fold f xs s) = g (fold f (filter P xs) t)"
proof (induction xs arbitrary: s t)
  case Nil
  then show ?case by simp
next
  case (Cons x xs)
  show ?case
  proof (cases "P x")
    case True
    from True Cons.prems have "g (f x s) = g (f x t)" by (rule assms(2))
    then have "g (fold f xs (f x s)) = g (fold f (filter P xs) (f x t))" by (rule Cons.IH)
    with True show ?thesis by simp
  next
    case False
    from False have "g (f x s) = g s" by (rule assms(1))
    with Cons.prems have "g (f x s) = g t" by simp
    then have "g (fold f xs (f x s)) = g (fold f (filter P xs) t)" by (rule Cons.IH)
    with False show ?thesis by simp
  qed
qed

lemma fold_unchanged:
  assumes "\<And>x s. g (f x s) = g s"
  shows "g (fold f xs s) = g s"
  by (induction xs arbitrary: s) (simp_all add: assms)

end
