(* ===== verification/Presets.thy ===== *)
theory Presets
  imports Prelude
begin

text \<open>
  The table of environment presets of \<^verbatim>\<open>src/src/component/Experience.jsx\<close>
  (\<^verbatim>\<open>environmentPresets\<close>, lines 10 to 21): ten object literals with the four fields
  \<^verbatim>\<open>preset\<close>, \<^verbatim>\<open>lightColor\<close>, \<^verbatim>\<open>lightIntensity\<close> and \<^verbatim>\<open>bgColor\<close>, in the order of
  the source. The lemmas say what the rest of the development needs of the table: its
  length, that a read at an index in range yields an entry, that the names are
  pairwise distinct (so an index and a preset name determine each other), and that
  every entry is well formed (a background that is a \<^verbatim>\<open>#rrggbb\<close> colour, an
  intensity between the least and the greatest written in the table).
\<close>

section \<open>The table\<close>

record environment =
  preset :: string
  lightColor :: string
  lightIntensity :: number
  bgColor :: string

definition environmentPresets :: "environment list" where
  "environmentPresets =
    [\<lparr>preset = ''sunset'', lightColor = ''orange'', lightIntensity = 0.3, bgColor = ''#ffcc99''\<rparr>,
     \<lparr>preset = ''dawn'', lightColor = ''lightblue'', lightIntensity = 0.4, bgColor = ''#ccffff''\<rparr>,
     \<lparr>preset = ''night'', lightColor = ''darkblue'', lightIntensity = 0.2, bgColor = ''#001f3f''\<rparr>,
     \<lparr>preset = ''forest'', lightColor = ''green'', lightIntensity = 0.3, bgColor = ''#ccffcc''\<rparr>,
     \<lparr>preset = ''city'', lightColor = ''yellow'', lightIntensity = 0.35, bgColor = ''#ffff99''\<rparr>,
     \<lparr>preset = ''park'', lightColor = ''lightgreen'', lightIntensity = 0.25, bgColor = ''#b3ffb3''\<rparr>,
     \<lparr>preset = ''studio'', lightColor = ''white'', lightIntensity = 0.5, bgColor = ''#f2f2f2''\<rparr>,
     \<lparr>preset = ''warehouse'', lightColor = ''gray'', lightIntensity = 0.3, bgColor = ''#e6e6e6''\<rparr>,
     \<lparr>preset = ''apartment'', lightColor = ''lightyellow'', lightIntensity = 0.4, bgColor = ''#ffffcc''\<rparr>,
     \<lparr>preset = ''lobby'', lightColor = ''gold'', lightIntensity = 0.35, bgColor = ''#ffdb4d''\<rparr>]"

text \<open>Reading the table at an index, as \<^verbatim>\<open>environmentPresets[i]\<close> does.\<close>

definition preset_at :: "int \<Rightarrow> environment option" where
  "preset_at i = js_index environmentPresets i"

section \<open>Well-formedness of an entry\<close>

definition hex_digit :: "char \<Rightarrow> bool" where
  "hex_digit c \<longleftrightarrow> c \<in> set ''0123456789abcdefABCDEF''"

definition hex_color :: "string \<Rightarrow> bool" where
  "hex_color s \<longleftrightarrow> length s = 7 \<and> take 1 s = ''#'' \<and> list_all hex_digit (drop 1 s)"

definition valid_environment :: "environment \<Rightarrow> bool" where
  "valid_environment e \<longleftrightarrow>
     preset e \<noteq> [] \<and> lightColor e \<noteq> [] \<and>
     0.2 \<le> lightIntensity e \<and> lightIntensity e \<le> 0.5 \<and> hex_color (bgColor e)"

section \<open>Facts about the table\<close>

lemma length_environmentPresets [simp]: "length environmentPresets = 10"
  by (simp add: environmentPresets_def)

lemma environmentPresets_nonempty [simp]: "environmentPresets \<noteq> []"
  by (simp add: environmentPresets_def)

lemma preset_at_Some_iff: "(\<exists>e. preset_at i = Some e) \<longleftrightarrow> 0 \<le> i \<and> i < 10"
  by (auto simp: preset_at_def js_index_def)

lemma preset_at_None_iff: "preset_at i = None \<longleftrightarrow> i < 0 \<or> 10 \<le> i"
  by (simp add: preset_at_def js_index_None_iff)

lemma preset_at_SomeD: "preset_at i = Some e \<Longrightarrow> 0 \<le> i \<and> i < 10 \<and> e = environmentPresets ! nat i"
  by (auto simp: preset_at_def js_index_Some_iff)

lemma preset_at_in_range: "0 \<le> i \<Longrightarrow> i < 10 \<Longrightarrow> preset_at i = Some (environmentPresets ! nat i)"
  by (simp add: preset_at_def)

lemma preset_at_in_table: "preset_at i = Some e \<Longrightarrow> e \<in> set environmentPresets"
  unfolding preset_at_def by (rule js_index_in_set)

lemma preset_names:
  "map preset environmentPresets =
     [''sunset'', ''dawn'', ''night'', ''forest'', ''city'',
      ''park'', ''studio'', ''warehouse'', ''apartment'', ''lobby'']"
  by (simp add: environmentPresets_def)

lemma all_valid_environment: "list_all valid_environment environmentPresets"
  by (simp add: environmentPresets_def valid_environment_def hex_color_def hex_digit_def)

lemma preset_names_distinct: "distinct (map preset environmentPresets)"
  by (simp add: preset_names)

text \<open>
  Every entry that a read of the table can return is well formed: its names are
  not empty, its light intensity lies between 0.2 and 0.5, and its background is a
  seven-character \<^verbatim>\<open>#rrggbb\<close> colour.
\<close>

lemma preset_at_valid: "preset_at i = Some e \<Longrightarrow> valid_environment e"
  using all_valid_environment preset_at_in_table [of i e]
  by (simp add: list_all_iff)

lemma preset_at_valid_witness:
  "preset_at 2 = Some \<lparr>preset = ''night'', lightColor = ''darkblue'',
                       lightIntensity = 0.2, bgColor = ''#001f3f''\<rparr>
   \<and> valid_environment \<lparr>preset = ''night'', lightColor = ''darkblue'',
                       lightIntensity = 0.2, bgColor = ''#001f3f''\<rparr>"
proof -
  have h: "preset_at 2 = Some \<lparr>preset = ''night'', lightColor = ''darkblue'',
                                lightIntensity = 0.2, bgColor = ''#001f3f''\<rparr>"
    by (simp add: preset_at_def js_index_def environmentPresets_def)
  from h preset_at_valid [OF h] show ?thesis by simp
qed

text \<open>
  An index and a preset name determine each other: two reads of
  \<^verbatim>\<open>environmentPresets\<close> that return entries with the same \<^verbatim>\<open>preset\<close> name were
  reads at the same index, so no environment map is shown under two indices.
\<close>

lemma preset_at_inj:
  assumes "preset_at i = Some e" and "preset_at j = Some e'" and "preset e = preset e'"
  shows "i = j"
proof -
  let ?names = "map preset environmentPresets"
  from assms(1) have i: "0 \<le> i" "nat i < length ?names" "?names ! nat i = preset e"
    by (auto simp: preset_at_def js_index_Some_iff)
  from assms(2) have j: "0 \<le> j" "nat j < length ?names" "?names ! nat j = preset e'"
    by (auto simp: preset_at_def js_index_Some_iff)
  from i(3) j(3) assms(3) have "?names ! nat i = ?names ! nat j" by simp
  with preset_names_distinct i(2) j(2) have "nat i = nat j"
    by (simp only: nth_eq_iff_index_eq)
  with i(1) j(1) show ?thesis by simp
qed

lemma preset_at_inj_witness:
  "preset_at 4 = Some (environmentPresets ! 4) \<and> preset_at 4 = Some (environmentPresets ! 4)
   \<and> preset (environmentPresets ! 4) = ''city'' \<and> (4::int) = 4"
proof -
  have h: "preset_at 4 = Some (environmentPresets ! 4)"
    by (simp add: preset_at_def js_index_def)
  from h preset_at_inj [OF h h refl] show ?thesis
    by (simp add: environmentPresets_def)
qed

end
