(* ===== verification/Timers.thy ===== *)
theory Timers
  imports Prelude
begin

text \<open>
  The interval timers of the browser, as far as the source relies on them: the effect
  of \<^verbatim>\<open>Experience\<close> calls \<^verbatim>\<open>setInterval(callback, 2000)\<close> and its cleanup calls
  \<^verbatim>\<open>clearInterval(interval)\<close> (lines 30 to 34 of \<^verbatim>\<open>Experience.jsx\<close>). The timers
  themselves are not code of the repository; they are modelled from the contract the
  specification states (section 5: a callback that fires every 2000 ms and is
  cancelled on teardown).

  \<^item> \<open>'cb timers\<close> is the table of active intervals in registration order, each with
    its handle, its callback (a value of the client's type \<open>'cb\<close>), its period and the
    milliseconds left until it fires next, and the next fresh handle.
  \<^item> \<open>setInterval\<close> registers an interval under a fresh handle; \<open>clearInterval\<close>
    removes the interval with a handle and ignores a handle that is not active.
  \<^item> \<open>elapse n\<close> lets \<open>n\<close> milliseconds pass, one at a time (\<open>tick_ms\<close>), and
    returns the callbacks that fired, in the order of their firing.

  This is the schedule without lateness; the theory \<open>Late_Timers\<close> lets the browser
  run a firing late or drop it.

  The lemmas: handles are fresh and the table stays well formed (\<open>timers_wf\<close>);
  clearing the handle that \<open>setInterval\<close> returned restores the table of intervals;
  and the number of firings of an interval within \<open>n\<close> milliseconds has the closed
  form \<open>fires n i\<close>, which is \<open>n div period\<close> for an interval just registered.
\<close>

section \<open>The table of intervals\<close>

record 'cb interval =
  callback :: 'cb
  period :: nat
  due :: nat

record 'cb timers =
  next_handle :: nat
  intervals :: "(nat \<times> 'cb interval) list"

definition no_timers :: "'cb timers" where
  "no_timers = \<lparr>next_handle = 1, intervals = []\<rparr>"

definition setInterval :: "'cb \<Rightarrow> nat \<Rightarrow> 'cb timers \<Rightarrow> nat \<times> 'cb timers" where
  "setInterval cb ms t =
     (let h = next_handle t; p = max 1 ms in
      (h, t\<lparr>next_handle := h + 1,
            intervals := intervals t @ [(h, \<lparr>callback = cb, period = p, due = p\<rparr>)]\<rparr>))"

definition clearInterval :: "nat \<Rightarrow> 'cb timers \<Rightarrow> 'cb timers" where
  "clearInterval h t = t\<lparr>intervals := filter (\<lambda>e. fst e \<noteq> h) (intervals t)\<rparr>"

definition active :: "'cb timers \<Rightarrow> nat \<Rightarrow> bool" where
  "active t h \<longleftrightarrow> h \<in> fst ` set (intervals t)"

section \<open>The passing of time\<close>

definition fires_now :: "'cb interval \<Rightarrow> bool" where
  "fires_now i \<longleftrightarrow> due i \<le> 1"

definition tick_interval :: "'cb interval \<Rightarrow> 'cb interval" where
  "tick_interval i = (if due i \<le> 1 then i\<lparr>due := period i\<rparr> else i\<lparr>due := due i - 1\<rparr>)"

definition tick_ms :: "'cb timers \<Rightarrow> 'cb list \<times> 'cb timers" where
  "tick_ms t =
     (map (callback \<circ> snd) (filter (fires_now \<circ> snd) (intervals t)),
      t\<lparr>intervals := map (apsnd tick_interval) (intervals t)\<rparr>)"

primrec elapse :: "nat \<Rightarrow> 'cb timers \<Rightarrow> 'cb list \<times> 'cb timers" where
  "elapse 0 t = ([], t)"
| "elapse (Suc n) t =
     (case tick_ms t of (fired, t') \<Rightarrow>
        case elapse n t' of (fired', t'') \<Rightarrow> (fired @ fired', t''))"

text \<open>The closed form of the number of firings of one interval within \<open>n\<close> ms.\<close>

definition fires :: "nat \<Rightarrow> 'cb interval \<Rightarrow> nat" where
  "fires n i = (n + period i - due i) div period i"

section \<open>Well-formedness\<close>

definition interval_wf :: "'cb interval \<Rightarrow> bool" where
  "interval_wf i \<longleftrightarrow> 1 \<le> due i \<and> due i \<le> period i"

definition timers_wf :: "'cb timers \<Rightarrow> bool" where
  "timers_wf t \<longleftrightarrow>
     distinct (map fst (intervals t))
     \<and> list_all (\<lambda>e. fst e < next_handle t \<and> interval_wf (snd e)) (intervals t)"

lemmas timers_defs = setInterval_def clearInterval_def tick_ms_def active_def

lemma timers_wf_no_timers [simp]: "timers_wf no_timers"
  by (simp add: timers_wf_def no_timers_def)

lemma setInterval_simps [simp]:
  "fst (setInterval cb ms t) = next_handle t"
  "next_handle (snd (setInterval cb ms t)) = next_handle t + 1"
  "intervals (snd (setInterval cb ms t)) =
     intervals t @ [(next_handle t, \<lparr>callback = cb, period = max 1 ms, due = max 1 ms\<rparr>)]"
  by (simp_all add: setInterval_def Let_def)

lemma clearInterval_simps [simp]:
  "next_handle (clearInterval h t) = next_handle t"
  "intervals (clearInterval h t) = filter (\<lambda>e. fst e \<noteq> h) (intervals t)"
  by (simp_all add: clearInterval_def)

lemma tick_ms_simps [simp]:
  "fst (tick_ms t) = map (callback \<circ> snd) (filter (fires_now \<circ> snd) (intervals t))"
  "next_handle (snd (tick_ms t)) = next_handle t"
  "intervals (snd (tick_ms t)) = map (apsnd tick_interval) (intervals t)"
  by (simp_all add: tick_ms_def)

lemma handle_fresh: "timers_wf t \<Longrightarrow> \<not> active t (next_handle t)"
  by (auto simp: timers_wf_def active_def list_all_iff)

lemma timers_wf_setInterval [viewer_inv]:
  assumes "timers_wf t"
  shows "timers_wf (snd (setInterval cb ms t))"
proof -
  from assms have "next_handle t \<notin> fst ` set (intervals t)"
    using handle_fresh [of t] by (simp add: active_def)
  with assms show ?thesis
    by (auto simp: timers_wf_def list_all_iff interval_wf_def)
qed

lemma timers_wf_clearInterval [viewer_inv]: "timers_wf t \<Longrightarrow> timers_wf (clearInterval h t)"
  by (auto simp: timers_wf_def list_all_iff distinct_map_filter)

lemma interval_wf_tick_interval: "interval_wf i \<Longrightarrow> interval_wf (tick_interval i)"
  by (auto simp: interval_wf_def tick_interval_def)

lemma timers_wf_tick_ms [viewer_inv]: "timers_wf t \<Longrightarrow> timers_wf (snd (tick_ms t))"
  by (auto simp: timers_wf_def list_all_iff interval_wf_tick_interval comp_def)

lemma elapse_Suc_simps [simp]:
  "fst (elapse (Suc n) t) = fst (tick_ms t) @ fst (elapse n (snd (tick_ms t)))"
  "snd (elapse (Suc n) t) = snd (elapse n (snd (tick_ms t)))"
  by (simp_all add: split_beta)

declare elapse.simps(2) [simp del]

lemma timers_wf_elapse [viewer_inv]: "timers_wf t \<Longrightarrow> timers_wf (snd (elapse n t))"
  by (induction n arbitrary: t) (simp_all add: timers_wf_tick_ms)

lemma handles_elapse [simp]: "map fst (intervals (snd (elapse n t))) = map fst (intervals t)"
  by (induction n arbitrary: t) (simp_all add: comp_def)

lemma active_elapse [simp]: "active (snd (elapse n t)) h = active t h"
  by (simp only: active_def flip: set_map) (simp only: handles_elapse)

lemma elapse_add:
  "fst (elapse (m + n) t) = fst (elapse m t) @ fst (elapse n (snd (elapse m t)))"
  "snd (elapse (m + n) t) = snd (elapse n (snd (elapse m t)))"
  by (induction m arbitrary: t) simp_all

section \<open>Registering and clearing\<close>

lemma active_setInterval:
  "active (snd (setInterval cb ms t)) h \<longleftrightarrow> h = next_handle t \<or> active t h"
  by (auto simp: active_def)

lemma active_clearInterval: "active (clearInterval h t) h' \<longleftrightarrow> h' \<noteq> h \<and> active t h'"
  by (auto simp: active_def)

lemma clearInterval_inactive: "\<not> active t h \<Longrightarrow> clearInterval h t = t"
proof -
  assume "\<not> active t h"
  then have "filter (\<lambda>e. fst e \<noteq> h) (intervals t) = intervals t"
    by (auto simp: active_def filter_id_conv image_iff)
  then show ?thesis by (simp add: clearInterval_def)
qed

lemma clearInterval_setInterval:
  assumes "timers_wf t"
  shows "intervals (clearInterval (fst (setInterval cb ms t)) (snd (setInterval cb ms t)))
         = intervals t"
proof -
  from assms have "\<not> active t (next_handle t)" by (rule handle_fresh)
  then have "filter (\<lambda>e. fst e \<noteq> next_handle t) (intervals t) = intervals t"
    by (auto simp: active_def filter_id_conv image_iff)
  then show ?thesis by simp
qed

section \<open>The closed form of the firings\<close>

lemma fires_Suc:
  assumes "interval_wf i"
  shows "fires (Suc n) i = (if fires_now i then 1 else 0) + fires n (tick_interval i)"
proof (cases "due i \<le> 1")
  case True
  with assms have d: "due i = 1" and p: "0 < period i" by (simp_all add: interval_wf_def)
  have "fires (Suc n) i = (n + period i) div period i" by (simp add: fires_def d)
  also have "\<dots> = 1 + n div period i" using p by simp
  finally show ?thesis using True by (simp add: fires_def fires_now_def tick_interval_def)
next
  case False
  with assms have "Suc n + period i - due i = n + period i - (due i - 1)"
    by (simp add: interval_wf_def)
  with False show ?thesis by (simp add: fires_def fires_now_def tick_interval_def)
qed

lemma fires_0: "interval_wf i \<Longrightarrow> fires 0 i = 0"
  by (simp add: fires_def interval_wf_def)

lemma fires_fresh: "0 < p \<Longrightarrow> fires n \<lparr>callback = cb, period = p, due = p\<rparr> = n div p"
  by (simp add: fires_def)

lemma tick_interval_callback [simp]: "callback (tick_interval i) = callback i"
  by (simp add: tick_interval_def)

lemma count_fired_now:
  "count_list (map (callback \<circ> snd) (filter (fires_now \<circ> snd) xs)) cb =
     (\<Sum>e\<leftarrow>xs. if callback (snd e) = cb \<and> fires_now (snd e) then 1 else 0)"
  by (induction xs) simp_all

text \<open>
  How often a callback fires within \<open>n\<close> milliseconds: the sum of the closed forms of
  the intervals registered with it.
\<close>

lemma count_fired:
  assumes "timers_wf t"
  shows "count_list (fst (elapse n t)) cb =
         (\<Sum>e\<leftarrow>intervals t. if callback (snd e) = cb then fires n (snd e) else 0)"
  using assms
proof (induction n arbitrary: t)
  case 0
  then have "\<forall>e \<in> set (intervals t). interval_wf (snd e)"
    by (simp add: timers_wf_def list_all_iff)
  then have "map (\<lambda>e. if callback (snd e) = cb then fires 0 (snd e) else 0) (intervals t)
      = map (\<lambda>e. 0) (intervals t)"
    by (intro map_cong refl) (simp add: fires_0)
  then show ?case by simp
next
  case (Suc n)
  have wf: "\<forall>e \<in> set (intervals t). interval_wf (snd e)"
    using Suc.prems by (simp add: timers_wf_def list_all_iff)
  have later: "count_list (fst (elapse n (snd (tick_ms t)))) cb =
      (\<Sum>e\<leftarrow>intervals t. if callback (snd e) = cb then fires n (tick_interval (snd e)) else 0)"
    using Suc.IH [OF timers_wf_tick_ms [OF Suc.prems]] by (simp add: comp_def cong: if_cong)
  have "count_list (fst (elapse (Suc n) t)) cb =
      (\<Sum>e\<leftarrow>intervals t. (if callback (snd e) = cb \<and> fires_now (snd e) then 1 else 0)
         + (if callback (snd e) = cb then fires n (tick_interval (snd e)) else 0))"
    by (simp add: count_list_append count_fired_now later sum_list_addf)
  also have "\<dots> = (\<Sum>e\<leftarrow>intervals t. if callback (snd e) = cb then fires (Suc n) (snd e) else 0)"
    using wf by (intro arg_cong [where f = sum_list] map_cong refl) (simp add: fires_Suc)
  finally show ?case .
qed

end
