(* ===== verification/Experience.thy ===== *)
theory Experience
  imports Presets Timers
begin

text \<open>
  The component \<^verbatim>\<open>Experience\<close> of \<^verbatim>\<open>src/src/component/Experience.jsx\<close> (lines 8 to 87).

  \<^item> \<open>experience_state\<close> holds its four \<^verbatim>\<open>useState\<close> cells; \<open>initial_state\<close> their
    initial values.
  \<^item> A setter called with an updater function, \<^verbatim>\<open>setX((prev) => e)\<close>, replaces the cell
    by the updater applied to its latest value; \<open>setCurrentPresetIndex\<close>,
    \<open>setIsAnimating\<close>, \<open>setIsRotating\<close> and \<open>setZoomLevel\<close> are these setters, and
    the handlers and the interval callback are the setters applied to the updaters
    written in the source.
  \<^item> \<open>useEffect_interval\<close> and \<open>useEffect_cleanup\<close> are the effect that registers
    the interval with a period of 2000 ms and the cleanup that clears it (lines 28 to
    35); \<open>run_callback\<close> is what a fired timer callback does to the state.
  \<^item> \<open>render\<close> is the function body after the hooks: it reads the current preset and
    builds the view, or raises \<open>TypeError\<close> when the table read is \<^verbatim>\<open>undefined\<close>.
  \<^item> \<open>ui_step\<close> dispatches one event (a click on one of the four buttons, or the
    interval firing) to its handler; \<open>ui_run\<close> is a sequence of events.
  \<^item> \<open>button\<close> is an instance of the class \<open>enum\<close>: the four buttons in the order in
    which the source renders them.

  The invariant \<open>experience_inv\<close> says that the preset index is an index of the table
  and that the zoom level is a half-integer between 2.5 and 7. The lemmas show that
  every operation keeps it, what each operation computes, and that \<open>render\<close> cannot
  fail in a state that satisfies it.
\<close>

section \<open>State\<close>

record experience_state =
  currentPresetIndex :: int
  isAnimating :: bool
  isRotating :: bool
  zoomLevel :: number

definition initial_state :: experience_state where
  "initial_state =
     \<lparr>currentPresetIndex = 0, isAnimating = True, isRotating = True, zoomLevel = 5\<rparr>"

definition setCurrentPresetIndex :: "(int \<Rightarrow> int) \<Rightarrow> experience_state \<Rightarrow> experience_state" where
  "setCurrentPresetIndex f s = s\<lparr>currentPresetIndex := f (currentPresetIndex s)\<rparr>"

definition setIsAnimating :: "(bool \<Rightarrow> bool) \<Rightarrow> experience_state \<Rightarrow> experience_state" where
  "setIsAnimating f s = s\<lparr>isAnimating := f (isAnimating s)\<rparr>"

definition setIsRotating :: "(bool \<Rightarrow> bool) \<Rightarrow> experience_state \<Rightarrow> experience_state" where
  "setIsRotating f s = s\<lparr>isRotating := f (isRotating s)\<rparr>"

definition setZoomLevel :: "(number \<Rightarrow> number) \<Rightarrow> experience_state \<Rightarrow> experience_state" where
  "setZoomLevel f s = s\<lparr>zoomLevel := f (zoomLevel s)\<rparr>"

section \<open>The interval callback and the event handlers\<close>

definition interval_callback :: "experience_state \<Rightarrow> experience_state" where
  "interval_callback =
     setCurrentPresetIndex (\<lambda>prevIndex. (prevIndex + 1) smod int (length environmentPresets))"

text \<open>
  The effect and its cleanup. The browser's table holds the callbacks of every script
  of the page; \<open>CyclePreset\<close> is the callback of this component and \<open>Foreign\<close> stands
  for the callbacks of others, which do not touch its state.
\<close>

datatype timer_callback = CyclePreset | Foreign nat

definition useEffect_interval :: "timer_callback timers \<Rightarrow> nat \<times> timer_callback timers" where
  "useEffect_interval = setInterval CyclePreset 2000"

definition useEffect_cleanup :: "nat \<Rightarrow> timer_callback timers \<Rightarrow> timer_callback timers" where
  "useEffect_cleanup interval = clearInterval interval"

fun run_callback :: "timer_callback \<Rightarrow> experience_state \<Rightarrow> experience_state" where
  "run_callback CyclePreset = interval_callback"
| "run_callback (Foreign n) = (\<lambda>s. s)"

definition currentEnvironment :: "experience_state \<Rightarrow> environment option" where
  "currentEnvironment s = preset_at (currentPresetIndex s)"

definition handleAnimationToggle :: "experience_state \<Rightarrow> experience_state" where
  "handleAnimationToggle = setIsAnimating (\<lambda>prev. \<not> prev)"

definition handleRotationToggle :: "experience_state \<Rightarrow> experience_state" where
  "handleRotationToggle = setIsRotating (\<lambda>prev. \<not> prev)"

definition handleZoomIn :: "experience_state \<Rightarrow> experience_state" where
  "handleZoomIn = setZoomLevel (\<lambda>prev. max (prev - 1) 2.5)"

definition handleZoomOut :: "experience_state \<Rightarrow> experience_state" where
  "handleZoomOut = setZoomLevel (\<lambda>prev. min (prev + 1) 7)"

section \<open>The rendered view\<close>

datatype button = AnimationButton | RotationButton | ZoomInButton | ZoomOutButton

text \<open>
  The buttons are finitely many, in the order in which the source renders them; the
  instance lets a statement about every button be checked button by button.
\<close>

lemma UNIV_button: "UNIV = {AnimationButton, RotationButton, ZoomInButton, ZoomOutButton}"
  by (auto intro: button.exhaust)

instantiation button :: enum
begin

definition enum_button :: "button list" where
  "enum_button = [AnimationButton, RotationButton, ZoomInButton, ZoomOutButton]"

definition enum_all_button :: "(button \<Rightarrow> bool) \<Rightarrow> bool" where
  "enum_all_button P \<longleftrightarrow> P AnimationButton \<and> P RotationButton \<and> P ZoomInButton \<and> P ZoomOutButton"

definition enum_ex_button :: "(button \<Rightarrow> bool) \<Rightarrow> bool" where
  "enum_ex_button P \<longleftrightarrow> P AnimationButton \<or> P RotationButton \<or> P ZoomInButton \<or> P ZoomOutButton"

instance
proof
  show "UNIV = set (enum_class.enum :: button list)"
    by (simp add: UNIV_button enum_button_def)
  show "distinct (enum_class.enum :: button list)"
    by (simp add: enum_button_def)
  show "enum_class.enum_all P = Ball (UNIV :: button set) P" for P
    by (simp add: UNIV_button enum_all_button_def)
  show "enum_class.enum_ex P = Bex (UNIV :: button set) P" for P
    by (simp add: UNIV_button enum_ex_button_def)
qed

end

fun onClick :: "button \<Rightarrow> experience_state \<Rightarrow> experience_state" where
  "onClick AnimationButton = handleAnimationToggle"
| "onClick RotationButton = handleRotationToggle"
| "onClick ZoomInButton = handleZoomIn"
| "onClick ZoomOutButton = handleZoomOut"

fun button_label :: "experience_state \<Rightarrow> button \<Rightarrow> string" where
  "button_label s AnimationButton = (if isAnimating s then ''Stop Animation'' else ''Start Animation'')"
| "button_label s RotationButton = (if isRotating s then ''Stop Rotation'' else ''Start Rotation'')"
| "button_label s ZoomInButton = ''Zoom In''"
| "button_label s ZoomOutButton = ''Zoom Out''"

record canvas_view =
  camera_position :: vec3
  camera_fov :: number
  cameraManager_isRotating :: bool
  environment_preset :: string
  ambientLight_intensity :: number
  ambientLight_color :: string
  animatedModel_isAnimating :: bool
  plane_args :: "number \<times> number"
  plane_position :: vec3
  plane_rotation :: vec3
  plane_material_color :: string

record experience_view =
  backgroundColor :: string
  controls :: "(button \<times> string) list"
  canvas :: canvas_view

definition render :: "experience_state \<Rightarrow> js_error + experience_view" where
  "render s =
     (case currentEnvironment s of
        None \<Rightarrow> Inl TypeError
      | Some env \<Rightarrow>
          Inr \<lparr>backgroundColor = bgColor env,
               controls = map (\<lambda>b. (b, button_label s b))
                            [AnimationButton, RotationButton, ZoomInButton, ZoomOutButton],
               canvas =
                 \<lparr>camera_position = (0, 0, zoomLevel s),
                  camera_fov = 50,
                  cameraManager_isRotating = isRotating s,
                  environment_preset = preset env,
                  ambientLight_intensity = lightIntensity env,
                  ambientLight_color = lightColor env,
                  animatedModel_isAnimating = isAnimating s,
                  plane_args = (100, 100),
                  plane_position = (0, - 1.1, 0),
                  plane_rotation = (- Math_PI / 2, 0, 0),
                  plane_material_color = ''gray''\<rparr>\<rparr>)"

section \<open>Events\<close>

datatype ui_event = Click button | Tick

fun ui_step :: "ui_event \<Rightarrow> experience_state \<Rightarrow> experience_state" where
  "ui_step (Click b) = onClick b"
| "ui_step Tick = interval_callback"

definition ui_run :: "ui_event list \<Rightarrow> experience_state \<Rightarrow> experience_state" where
  "ui_run = fold ui_step"

section \<open>The invariant\<close>

definition preset_index_ok :: "experience_state \<Rightarrow> bool" where
  "preset_index_ok s \<longleftrightarrow>
     0 \<le> currentPresetIndex s \<and> currentPresetIndex s < int (length environmentPresets)"

definition zoom_ok :: "experience_state \<Rightarrow> bool" where
  "zoom_ok s \<longleftrightarrow> 2.5 \<le> zoomLevel s \<and> zoomLevel s \<le> 7 \<and> half_integer (zoomLevel s)"

definition experience_inv :: "experience_state \<Rightarrow> bool" where
  "experience_inv s \<longleftrightarrow> preset_index_ok s \<and> zoom_ok s"

section \<open>What each operation computes\<close>

lemmas setter_defs =
  setCurrentPresetIndex_def setIsAnimating_def setIsRotating_def setZoomLevel_def

lemmas handler_defs =
  interval_callback_def handleAnimationToggle_def handleRotationToggle_def
  handleZoomIn_def handleZoomOut_def

declare setter_defs [viewer_defs] and handler_defs [viewer_defs]

lemma interval_callback_simps [simp]:
  "currentPresetIndex (interval_callback s) = (currentPresetIndex s + 1) smod 10"
  "isAnimating (interval_callback s) = isAnimating s"
  "isRotating (interval_callback s) = isRotating s"
  "zoomLevel (interval_callback s) = zoomLevel s"
  by (simp_all add: viewer_defs)

lemma handleAnimationToggle_simps [simp]:
  "currentPresetIndex (handleAnimationToggle s) = currentPresetIndex s"
  "isAnimating (handleAnimationToggle s) = (\<not> isAnimating s)"
  "isRotating (handleAnimationToggle s) = isRotating s"
  "zoomLevel (handleAnimationToggle s) = zoomLevel s"
  by (simp_all add: viewer_defs)

lemma handleRotationToggle_simps [simp]:
  "currentPresetIndex (handleRotationToggle s) = currentPresetIndex s"
  "isAnimating (handleRotationToggle s) = isAnimating s"
  "isRotating (handleRotationToggle s) = (\<not> isRotating s)"
  "zoomLevel (handleRotationToggle s) = zoomLevel s"
  by (simp_all add: viewer_defs)

lemma handleZoomIn_simps [simp]:
  "currentPresetIndex (handleZoomIn s) = currentPresetIndex s"
  "isAnimating (handleZoomIn s) = isAnimating s"
  "isRotating (handleZoomIn s) = isRotating s"
  "zoomLevel (handleZoomIn s) = max (zoomLevel s - 1) 2.5"
  by (simp_all add: viewer_defs)

lemma handleZoomOut_simps [simp]:
  "currentPresetIndex (handleZoomOut s) = currentPresetIndex s"
  "isAnimating (handleZoomOut s) = isAnimating s"
  "isRotating (handleZoomOut s) = isRotating s"
  "zoomLevel (handleZoomOut s) = min (zoomLevel s + 1) 7"
  by (simp_all add: viewer_defs)

lemma initial_state_simps [simp]:
  "currentPresetIndex initial_state = 0"
  "isAnimating initial_state"
  "isRotating initial_state"
  "zoomLevel initial_state = 5"
  by (simp_all add: initial_state_def)

lemma experience_state_eqI:
  fixes s t :: experience_state
  assumes "currentPresetIndex s = currentPresetIndex t" and "isAnimating s = isAnimating t"
    and "isRotating s = isRotating t" and "zoomLevel s = zoomLevel t"
  shows "s = t"
  using assms by simp

lemma ui_run_simps [simp]:
  "ui_run [] s = s"
  "ui_run (e # es) s = ui_run es (ui_step e s)"
  "ui_run (es @ es') s = ui_run es' (ui_run es s)"
  by (simp_all add: ui_run_def)


lemma experience_state_eq_iff:
  fixes s t :: experience_state
  shows "s = t \<longleftrightarrow>
    currentPresetIndex s = currentPresetIndex t \<and> isAnimating s = isAnimating t
    \<and> isRotating s = isRotating t \<and> zoomLevel s = zoomLevel t"
  by (auto intro: experience_state_eqI)

section \<open>Preservation of the invariant\<close>

lemma preset_index_ok_interval_callback [viewer_inv]:
  "preset_index_ok s \<Longrightarrow> preset_index_ok (interval_callback s)"
  using smod_succ_range [of "currentPresetIndex s" 10] by (simp add: preset_index_ok_def)

lemma preset_index_ok_onClick [viewer_inv]: "preset_index_ok (onClick b s) = preset_index_ok s"
  by (cases b) (simp_all add: preset_index_ok_def)

lemma zoom_ok_interval_callback [viewer_inv]: "zoom_ok (interval_callback s) = zoom_ok s"
  by (simp add: zoom_ok_def)

lemma zoom_ok_handleZoomIn [viewer_inv]: "zoom_ok s \<Longrightarrow> zoom_ok (handleZoomIn s)"
  by (auto simp: zoom_ok_def)

lemma zoom_ok_handleZoomOut [viewer_inv]: "zoom_ok s \<Longrightarrow> zoom_ok (handleZoomOut s)"
  by (auto simp: zoom_ok_def)

lemma zoom_ok_toggles [viewer_inv]:
  "zoom_ok (handleAnimationToggle s) = zoom_ok s"
  "zoom_ok (handleRotationToggle s) = zoom_ok s"
  by (simp_all add: zoom_ok_def)

lemma zoom_ok_onClick [viewer_inv]: "zoom_ok s \<Longrightarrow> zoom_ok (onClick b s)"
  by (cases b) (simp_all add: viewer_inv)

lemma experience_inv_initial: "experience_inv initial_state"
  by (simp add: experience_inv_def preset_index_ok_def zoom_ok_def)

lemma experience_inv_ui_step: "experience_inv s \<Longrightarrow> experience_inv (ui_step e s)"
  by (cases e) (simp_all add: experience_inv_def viewer_inv)

lemma experience_inv_ui_run:
  assumes "experience_inv s"
  shows "experience_inv (ui_run es s)"
  unfolding ui_run_def using experience_inv_ui_step assms by (rule fold_invariant)

lemma experience_invD:
  assumes "experience_inv s"
  shows "0 \<le> currentPresetIndex s" and "currentPresetIndex s < 10"
    and "2.5 \<le> zoomLevel s" and "zoomLevel s \<le> 7" and "half_integer (zoomLevel s)"
  using assms by (simp_all add: experience_inv_def preset_index_ok_def zoom_ok_def)

text \<open>
  C1. In every state that clicks and interval ticks can reach from the initial state,
  the preset index is an index of the ten-entry table and the zoom level is a
  half-integer between 2.5 and 7.
\<close>

theorem reachable_state_bounds:
  "0 \<le> currentPresetIndex (ui_run es initial_state)
   \<and> currentPresetIndex (ui_run es initial_state) < 10
   \<and> 2.5 \<le> zoomLevel (ui_run es initial_state)
   \<and> zoomLevel (ui_run es initial_state) \<le> 7
   \<and> half_integer (zoomLevel (ui_run es initial_state))"
  using experience_invD [OF experience_inv_ui_run [OF experience_inv_initial, of es]]
  by simp

section \<open>The preset index under ticks\<close>

lemma funpow_interval_callback_index:
  "currentPresetIndex ((interval_callback ^^ k) s) =
     ((\<lambda>j. (j + 1) smod 10) ^^ k) (currentPresetIndex s)"
  by (induction k) simp_all

lemma funpow_interval_callback_frame [simp]:
  "isAnimating ((interval_callback ^^ k) s) = isAnimating s"
  "isRotating ((interval_callback ^^ k) s) = isRotating s"
  "zoomLevel ((interval_callback ^^ k) s) = zoomLevel s"
  by (induction k) simp_all

lemma ui_run_replicate_Tick: "ui_run (replicate k Tick) s = (interval_callback ^^ k) s"
  by (induction k arbitrary: s) (simp_all add: funpow_swap1)

text \<open>
  C28. From a state whose preset index is in range, \<open>k\<close> firings of the interval leave
  the index at the start index plus \<open>k\<close>, modulo ten: the index cycles
  0, 1, \<dots>, 9, 0 and the truncating remainder \<^verbatim>\<open>%\<close> never yields a negative index.
\<close>

theorem ticks_closed_form:
  assumes "preset_index_ok s"
  shows "currentPresetIndex ((interval_callback ^^ k) s) = (currentPresetIndex s + int k) mod 10"
  using assms funpow_succ_smod [of "currentPresetIndex s" 10 k]
  by (simp add: funpow_interval_callback_index preset_index_ok_def)

theorem ticks_closed_form_witness:
  "preset_index_ok initial_state
   \<and> currentPresetIndex ((interval_callback ^^ 13) initial_state) = 3"
proof -
  have h: "preset_index_ok initial_state" by (simp add: preset_index_ok_def)
  from h ticks_closed_form [OF h, of 13] show ?thesis by simp
qed

text \<open>
  C30. From a state whose preset index is in range, every preset of the table is
  reached within fewer than ten firings of the interval: no preset is skipped by the
  cycle.
\<close>

theorem every_preset_within_ten_ticks:
  assumes "preset_index_ok s" and "0 \<le> j" and "j < 10"
  shows "\<exists>k<10. currentPresetIndex ((interval_callback ^^ k) s) = j"
proof -
  let ?i = "currentPresetIndex s"
  let ?k = "nat ((j - ?i) mod 10)"
  have k: "?k < 10" by simp
  have "currentPresetIndex ((interval_callback ^^ ?k) s) = (?i + (j - ?i) mod 10) mod 10"
    using assms(1) funpow_succ_smod [of ?i 10 ?k]
    by (simp add: funpow_interval_callback_index preset_index_ok_def)
  also have "\<dots> = j mod 10" by (simp add: mod_simps)
  also have "\<dots> = j" using assms(2,3) by simp
  finally show ?thesis using k by blast
qed

theorem every_preset_within_ten_ticks_witness:
  "preset_index_ok (ui_run [Tick, Tick, Tick, Tick, Tick, Tick, Tick] initial_state)
   \<and> (0::int) \<le> 2 \<and> (2::int) < 10
   \<and> (\<exists>k<10. currentPresetIndex
         ((interval_callback ^^ k) (ui_run [Tick, Tick, Tick, Tick, Tick, Tick, Tick] initial_state)) = 2)"
proof -
  let ?s = "ui_run [Tick, Tick, Tick, Tick, Tick, Tick, Tick] initial_state"
  have h: "preset_index_ok ?s" by (simp add: preset_index_ok_def)
  from h every_preset_within_ten_ticks [OF h, of 2] show ?thesis by simp
qed

text \<open>The index after any run depends only on how many of its events are ticks.\<close>

lemma index_after_run:
  assumes "preset_index_ok s"
  shows "currentPresetIndex (ui_run es s) = (currentPresetIndex s + int (count_list es Tick)) mod 10"
  using assms
proof (induction es arbitrary: s)
  case Nil
  then show ?case by (simp add: preset_index_ok_def)
next
  case (Cons e es)
  show ?case
  proof (cases e)
    case (Click b)
    with Cons.prems have "preset_index_ok (ui_step e s)" by (simp add: viewer_inv)
    from Cons.IH [OF this] Click show ?thesis by (cases b) simp_all
  next
    case Tick
    with Cons.prems have ok: "preset_index_ok (ui_step e s)" by (simp add: viewer_inv)
    from Cons.prems have "(currentPresetIndex s + 1) smod 10 = (currentPresetIndex s + 1) mod 10"
      by (intro smod_succ_eq_mod) (simp_all add: preset_index_ok_def)
    with Cons.IH [OF ok] Tick show ?thesis by (simp add: mod_simps ac_simps)
  qed
qed


section \<open>The zoom level\<close>

lemma funpow_handleZoomIn:
  assumes "2.5 \<le> zoomLevel s"
  shows "zoomLevel ((handleZoomIn ^^ k) s) = max (zoomLevel s - real k) 2.5"
  using assms by (induction k) (auto simp: max_def)

lemma funpow_handleZoomOut:
  assumes "zoomLevel s \<le> 7"
  shows "zoomLevel ((handleZoomOut ^^ k) s) = min (zoomLevel s + real k) 7"
  using assms by (induction k) (auto simp: min_def)

lemma ui_run_replicate_Click: "ui_run (replicate k (Click b)) s = (onClick b ^^ k) s"
  by (induction k arbitrary: s) (simp_all add: funpow_swap1)

text \<open>
  C31. Repeated zooming saturates: from a zoom level between 2.5 and 7, \<open>k\<close> clicks on
  Zoom In give the level minus \<open>k\<close> but not less than 2.5, and \<open>k\<close> clicks on Zoom Out
  give the level plus \<open>k\<close> but not more than 7.
\<close>

theorem zoom_saturates:
  assumes "2.5 \<le> zoomLevel s" and "zoomLevel s \<le> 7"
  shows "zoomLevel (ui_run (replicate k (Click ZoomInButton)) s) = max (zoomLevel s - real k) 2.5
       \<and> zoomLevel (ui_run (replicate k (Click ZoomOutButton)) s) = min (zoomLevel s + real k) 7"
  using assms by (simp add: ui_run_replicate_Click funpow_handleZoomIn funpow_handleZoomOut)

theorem zoom_saturates_witness:
  "2.5 \<le> zoomLevel initial_state \<and> zoomLevel initial_state \<le> 7
   \<and> zoomLevel (ui_run (replicate 4 (Click ZoomInButton)) initial_state) = 2.5
   \<and> zoomLevel (ui_run (replicate 4 (Click ZoomOutButton)) initial_state) = 7"
  using zoom_saturates [of initial_state 4] by simp

text \<open>The half-integers between 2.5 and 7.\<close>

definition zoom_levels :: "number list" where
  "zoom_levels = [2.5, 3, 3.5, 4, 4.5, 5, 5.5, 6, 6.5, 7]"

lemma zoom_levels_ok: "list_all (\<lambda>z. 2.5 \<le> z \<and> z \<le> 7 \<and> half_integer z) zoom_levels"
  by (simp add: zoom_levels_def half_integer_def)

lemma zoom_ok_iff: "zoom_ok s \<longleftrightarrow> zoomLevel s \<in> set zoom_levels"
proof
  assume "zoom_ok s"
  then have "half_integer (zoomLevel s)" "of_int 5 / 2 \<le> zoomLevel s" "zoomLevel s \<le> of_int 14 / 2"
    by (simp_all add: zoom_ok_def)
  then obtain k :: int where k: "5 \<le> k" "k \<le> 14" "zoomLevel s = of_int k / 2"
    using half_integer_between by blast
  from k(1,2) have "k = 5 \<or> k = 6 \<or> k = 7 \<or> k = 8 \<or> k = 9 \<or> k = 10 \<or> k = 11 \<or> k = 12 \<or> k = 13 \<or> k = 14"
    by arith
  then show "zoomLevel s \<in> set zoom_levels"
    unfolding k(3) zoom_levels_def by auto
next
  assume "zoomLevel s \<in> set zoom_levels"
  with zoom_levels_ok show "zoom_ok s"
    by (simp add: list_all_iff zoom_ok_def)
qed

text \<open>A run of clicks that reaches a given level of the grid from the initial state.\<close>

definition zoom_path :: "number \<Rightarrow> ui_event list" where
  "zoom_path z =
     (let k = \<lfloor>2 * z\<rfloor> in
      if even k
      then (if k \<le> 10 then replicate (nat ((10 - k) div 2)) (Click ZoomInButton)
            else replicate (nat ((k - 10) div 2)) (Click ZoomOutButton))
      else replicate 3 (Click ZoomInButton) @ replicate (nat ((k - 5) div 2)) (Click ZoomOutButton))"

lemma zoom_path_reaches_all:
  "list_all (\<lambda>z. zoomLevel (ui_run (zoom_path z) initial_state) = z) zoom_levels"
  by (simp add: zoom_levels_def zoom_path_def ui_run_replicate_Click
        funpow_handleZoomIn funpow_handleZoomOut)

lemma zoom_path_reaches:
  assumes "z \<in> set zoom_levels"
  shows "zoomLevel (ui_run (zoom_path z) initial_state) = z"
  using assms zoom_path_reaches_all by (simp add: list_all_iff)

text \<open>
  C32. The zoom levels that clicks and ticks can reach from the initial state are
  exactly the ten half-integers 2.5, 3, \<dots>, 7: the level never leaves the range of
  the camera distances, and every level of the grid is reached by some clicks.
\<close>

theorem zoom_reachable_iff:
  "(\<exists>es. zoomLevel (ui_run es initial_state) = z) \<longleftrightarrow> z \<in> set zoom_levels"
proof
  assume "\<exists>es. zoomLevel (ui_run es initial_state) = z"
  then obtain es where z: "zoomLevel (ui_run es initial_state) = z" ..
  have "experience_inv (ui_run es initial_state)"
    using experience_inv_initial by (rule experience_inv_ui_run)
  then have "zoom_ok (ui_run es initial_state)" by (simp add: experience_inv_def)
  with z show "z \<in> set zoom_levels" by (simp add: zoom_ok_iff)
next
  assume "z \<in> set zoom_levels"
  then have "zoomLevel (ui_run (zoom_path z) initial_state) = z" by (rule zoom_path_reaches)
  then show "\<exists>es. zoomLevel (ui_run es initial_state) = z" ..
qed

text \<open>
  C39. Zoom In followed by Zoom Out restores the state exactly when the level was at
  least 3.5, and Zoom Out followed by Zoom In exactly when it was at most 6: next to a
  limit the pair of clicks moves the level by half a unit.
\<close>

theorem zoom_roundtrip_iff:
  assumes "2.5 \<le> zoomLevel s" and "zoomLevel s \<le> 7"
  shows "(handleZoomOut (handleZoomIn s) = s \<longleftrightarrow> 3.5 \<le> zoomLevel s)
       \<and> (handleZoomIn (handleZoomOut s) = s \<longleftrightarrow> zoomLevel s \<le> 6)"
  using assms by (auto simp: experience_state_eq_iff max_def min_def)

theorem zoom_roundtrip_iff_witness:
  "2.5 \<le> zoomLevel (handleZoomIn (handleZoomIn initial_state))
   \<and> zoomLevel (handleZoomIn (handleZoomIn initial_state)) \<le> 7
   \<and> handleZoomOut (handleZoomIn (handleZoomIn (handleZoomIn initial_state)))
       \<noteq> handleZoomIn (handleZoomIn initial_state)
   \<and> handleZoomIn (handleZoomOut (handleZoomIn (handleZoomIn initial_state)))
       = handleZoomIn (handleZoomIn initial_state)"
  using zoom_roundtrip_iff [of "handleZoomIn (handleZoomIn initial_state)"] by simp

section \<open>The flags\<close>

lemma isAnimating_after_run:
  "isAnimating (ui_run es s) = (isAnimating s = even (count_list es (Click AnimationButton)))"
proof (induction es arbitrary: s)
  case Nil
  show ?case by simp
next
  case (Cons e es)
  show ?case
  proof (cases e)
    case (Click b)
    then show ?thesis by (cases b) (auto simp: Cons.IH)
  next
    case Tick
    then show ?thesis by (simp add: Cons.IH)
  qed
qed

lemma isRotating_after_run:
  "isRotating (ui_run es s) = (isRotating s = even (count_list es (Click RotationButton)))"
proof (induction es arbitrary: s)
  case Nil
  show ?case by simp
next
  case (Cons e es)
  show ?case
  proof (cases e)
    case (Click b)
    then show ?thesis by (cases b) (auto simp: Cons.IH)
  next
    case Tick
    then show ?thesis by (simp add: Cons.IH)
  qed
qed

text \<open>
  After any run of events from the initial state, the animation flag is set
  exactly when the Animation button was clicked an even number of times, and the
  rotation flag exactly when the Rotation button was; ticks, zoom clicks and clicks
  on the other toggle do not touch a flag.
\<close>

lemma flags_after_run:
  "isAnimating (ui_run es initial_state) = even (count_list es (Click AnimationButton))
   \<and> isRotating (ui_run es initial_state) = even (count_list es (Click RotationButton))"
  by (simp add: isAnimating_after_run isRotating_after_run)

text \<open>
  A click on a toggle button inverts its flag and exchanges its label between
  the Stop and the Start text, and a second click restores the state.
\<close>

lemma toggle_click:
  "button_label (onClick AnimationButton s) AnimationButton =
     (if isAnimating s then ''Start Animation'' else ''Stop Animation'')
   \<and> button_label (onClick RotationButton s) RotationButton =
     (if isRotating s then ''Start Rotation'' else ''Stop Rotation'')
   \<and> onClick AnimationButton (onClick AnimationButton s) = s
   \<and> onClick RotationButton (onClick RotationButton s) = s"
  by (simp add: experience_state_eq_iff)

section \<open>Independence of the zoom level\<close>

fun is_zoom_click :: "ui_event \<Rightarrow> bool" where
  "is_zoom_click (Click ZoomInButton) = True"
| "is_zoom_click (Click ZoomOutButton) = True"
| "is_zoom_click _ = False"

lemma zoomLevel_ui_step_other: "\<not> is_zoom_click e \<Longrightarrow> zoomLevel (ui_step e s) = zoomLevel s"
  by (cases e rule: is_zoom_click.cases) simp_all

lemma zoomLevel_ui_step_cong:
  "zoomLevel s = zoomLevel t \<Longrightarrow> zoomLevel (ui_step e s) = zoomLevel (ui_step e t)"
  by (cases e rule: is_zoom_click.cases) simp_all

text \<open>
  The zoom level after a run of events is the zoom level after the zoom clicks
  of the run alone, in their order: ticks of the interval and clicks on the toggles,
  however interleaved, do not change it.
\<close>

lemma zoom_ignores_other_events:
  "zoomLevel (ui_run es s) = zoomLevel (ui_run (filter is_zoom_click es) s)"
  unfolding ui_run_def
proof (rule fold_filter_irrelevant [where g = zoomLevel and P = is_zoom_click and f = ui_step])
  show "zoomLevel (ui_step e u) = zoomLevel u" if "\<not> is_zoom_click e" for e u
    using that by (rule zoomLevel_ui_step_other)
  show "zoomLevel (ui_step e u) = zoomLevel (ui_step e u')"
    if "is_zoom_click e" and "zoomLevel u = zoomLevel u'" for e u u'
    using that(2) by (rule zoomLevel_ui_step_cong)
  show "zoomLevel s = zoomLevel s" ..
qed

section \<open>The view\<close>

lemma render_Inl_iff: "render s = Inl e \<longleftrightarrow> currentEnvironment s = None"
  by (cases e) (simp add: render_def split: option.splits)

lemma controls_complete:
  assumes "render s = Inr v"
  shows "map fst (controls v) = enum_class.enum"
    and "map snd (controls v) = map (button_label s) enum_class.enum"
  using assms by (auto simp: render_def enum_button_def split: option.splits)

lemma render_ok:
  assumes "preset_index_ok s"
  obtains v where "render s = Inr v"
    and "backgroundColor v = bgColor (environmentPresets ! nat (currentPresetIndex s))"
    and "environment_preset (canvas v) = preset (environmentPresets ! nat (currentPresetIndex s))"
    and "ambientLight_intensity (canvas v) = lightIntensity (environmentPresets ! nat (currentPresetIndex s))"
    and "ambientLight_color (canvas v) = lightColor (environmentPresets ! nat (currentPresetIndex s))"
    and "camera_position (canvas v) = (0, 0, zoomLevel s)"
    and "cameraManager_isRotating (canvas v) = isRotating s"
    and "animatedModel_isAnimating (canvas v) = isAnimating s"
    and "map_of (controls v) = (\<lambda>b. Some (button_label s b))"
proof -
  from assms have "currentEnvironment s = Some (environmentPresets ! nat (currentPresetIndex s))"
    by (simp add: currentEnvironment_def preset_at_in_range preset_index_ok_def)
  moreover have "map_of (map (\<lambda>b. (b, button_label s b))
      [AnimationButton, RotationButton, ZoomInButton, ZoomOutButton]) = (\<lambda>b. Some (button_label s b))"
  proof
    fix b show "map_of (map (\<lambda>b. (b, button_label s b))
      [AnimationButton, RotationButton, ZoomInButton, ZoomOutButton]) b = Some (button_label s b)"
      by (cases b) simp_all
  qed
  ultimately show ?thesis by (intro that [of "projr (render s)"]) (simp_all add: render_def)
qed

text \<open>
  C25. \<open>render\<close> raises \<open>TypeError\<close> exactly when the preset index is not an index
  of the table: the read \<^verbatim>\<open>environmentPresets[currentPresetIndex]\<close> is then
  \<^verbatim>\<open>undefined\<close> and the first property access on it fails.
\<close>

theorem render_TypeError_iff:
  "render s = Inl TypeError \<longleftrightarrow> currentPresetIndex s < 0 \<or> 10 \<le> currentPresetIndex s"
  by (simp add: render_Inl_iff currentEnvironment_def preset_at_None_iff)

text \<open>
  C2. In every state that clicks and interval ticks can reach from the initial state,
  \<open>render\<close> returns a view, and its background colour, environment preset, light
  intensity and light colour are those of the table entry whose index is the number
  of ticks modulo ten.
\<close>

theorem render_reachable:
  "\<exists>v. render (ui_run es initial_state) = Inr v
     \<and> backgroundColor v = bgColor (environmentPresets ! (count_list es Tick mod 10))
     \<and> environment_preset (canvas v) = preset (environmentPresets ! (count_list es Tick mod 10))
     \<and> ambientLight_intensity (canvas v) = lightIntensity (environmentPresets ! (count_list es Tick mod 10))
     \<and> ambientLight_color (canvas v) = lightColor (environmentPresets ! (count_list es Tick mod 10))"
proof -
  let ?s = "ui_run es initial_state"
  have ok0: "preset_index_ok initial_state" by (simp add: preset_index_ok_def)
  have "experience_inv ?s" using experience_inv_initial by (rule experience_inv_ui_run)
  then have ok: "preset_index_ok ?s" by (simp add: experience_inv_def)
  have "currentPresetIndex ?s = int (count_list es Tick) mod 10"
    using index_after_run [OF ok0, of es] by simp
  then have idx: "nat (currentPresetIndex ?s) = count_list es Tick mod 10"
    by (simp add: nat_mod_distrib flip: zmod_int)
  from ok show ?thesis
    by (rule render_ok) (use idx in auto)
qed

end
