(* ===== verification/CameraManager.thy ===== *)
theory CameraManager
  imports Prelude
begin

text \<open>
  The component \<^verbatim>\<open>CameraManager\<close> of \<^verbatim>\<open>src/src/component/Experience.jsx\<close> (lines 89
  to 114).

  \<^item> \<open>orbitControls_props\<close> are the properties it passes to \<^verbatim>\<open>OrbitControls\<close> (lines
    99 to 112), all constants of the source.
  \<^item> \<open>orbit_controls\<close> is the controls object behind \<^verbatim>\<open>orbitControlsRef.current\<close>:
    the properties it was given and the field \<^verbatim>\<open>enabled\<close> that the effect writes.
  \<^item> \<open>cameraManager_effect\<close> is the body of the effect (lines 93 to 95), with its
    guard on a ref that is still \<^verbatim>\<open>null\<close>; \<open>cameraManager_commit\<close> runs it when React
    does: after the first commit and after a commit in which \<^verbatim>\<open>isRotating\<close> differs
    from its value at the last run (the dependency list of line 96).

  The lemmas: what the effect writes and what it leaves alone; that the controls stay
  in step with the flag (\<open>camera_synced\<close>); that running the effect only when the
  dependency changed is the same as running it after every commit; and the ranges that
  the constants of the configuration describe.
\<close>

section \<open>The configuration of the orbit controls\<close>

record orbit_controls_props =
  enableZoom :: bool
  maxDistance :: number
  minDistance :: number
  enableRotate :: bool
  enablePan :: bool
  maxPolarAngle :: number
  minPolarAngle :: number
  enableDamping :: bool
  dampingFactor :: number
  autoRotate :: bool
  rotateSpeed :: number

definition orbitControls_props :: orbit_controls_props where
  "orbitControls_props =
     \<lparr>enableZoom = True, maxDistance = 7, minDistance = 2.5, enableRotate = True,
      enablePan = False, maxPolarAngle = Math_PI / 2, minPolarAngle = 0,
      enableDamping = True, dampingFactor = 0.1, autoRotate = False, rotateSpeed = 0.5\<rparr>"

section \<open>The controls object and the effect\<close>

record orbit_controls =
  props :: orbit_controls_props
  enabled :: bool

record camera_manager =
  orbitControlsRef :: "orbit_controls option"
  effect_deps :: "bool option"

definition cameraManager_effect :: "bool \<Rightarrow> orbit_controls option \<Rightarrow> orbit_controls option" where
  "cameraManager_effect isRotating ref =
     (case ref of None \<Rightarrow> None | Some c \<Rightarrow> Some (c\<lparr>enabled := isRotating\<rparr>))"

definition cameraManager_commit :: "bool \<Rightarrow> camera_manager \<Rightarrow> camera_manager" where
  "cameraManager_commit isRotating cm =
     (if deps_changed (effect_deps cm) isRotating
      then cm\<lparr>orbitControlsRef := cameraManager_effect isRotating (orbitControlsRef cm),
              effect_deps := Some isRotating\<rparr>
      else cm)"

text \<open>
  The first commit: the ref is attached to the controls object that the renderer made
  (or stays \<^verbatim>\<open>null\<close>), and the effect runs for the first time.
\<close>

definition cameraManager_mount :: "bool \<Rightarrow> orbit_controls option \<Rightarrow> camera_manager" where
  "cameraManager_mount isRotating ref =
     cameraManager_commit isRotating \<lparr>orbitControlsRef = ref, effect_deps = None\<rparr>"

definition cameraManager_unmounted :: camera_manager where
  "cameraManager_unmounted = \<lparr>orbitControlsRef = None, effect_deps = None\<rparr>"

section \<open>The invariant\<close>

definition camera_synced :: "bool \<Rightarrow> camera_manager \<Rightarrow> bool" where
  "camera_synced isRotating cm \<longleftrightarrow>
     effect_deps cm = Some isRotating
     \<and> (case orbitControlsRef cm of None \<Rightarrow> True | Some c \<Rightarrow> enabled c = isRotating)"

definition controls_configured :: "camera_manager \<Rightarrow> bool" where
  "controls_configured cm \<longleftrightarrow>
     (case orbitControlsRef cm of None \<Rightarrow> True | Some c \<Rightarrow> props c = orbitControls_props)"

lemmas camera_defs =
  cameraManager_effect_def cameraManager_commit_def cameraManager_mount_def
  cameraManager_unmounted_def

declare camera_defs [viewer_defs]

lemma cameraManager_effect_simps [simp]:
  "cameraManager_effect r None = None"
  "cameraManager_effect r (Some c) = Some (c\<lparr>enabled := r\<rparr>)"
  by (simp_all add: cameraManager_effect_def)

lemma cameraManager_effect_idem [simp]:
  "cameraManager_effect r (cameraManager_effect r ref) = cameraManager_effect r ref"
  by (cases ref) simp_all

lemma camera_synced_mount [viewer_inv]: "camera_synced r (cameraManager_mount r ref)"
  by (cases ref) (simp_all add: camera_synced_def viewer_defs)

lemma camera_synced_commit [viewer_inv]:
  "camera_synced r0 cm \<Longrightarrow> camera_synced r (cameraManager_commit r cm)"
  by (cases "orbitControlsRef cm") (auto simp: camera_synced_def viewer_defs)

lemma cameraManager_commit_same:
  "camera_synced r cm \<Longrightarrow> cameraManager_commit r cm = cm"
  by (simp add: camera_synced_def cameraManager_commit_def)

lemma props_commit:
  "map_option props (orbitControlsRef (cameraManager_commit r cm)) = map_option props (orbitControlsRef cm)"
  by (cases "orbitControlsRef cm") (simp_all add: cameraManager_commit_def)

lemma controls_configured_commit [viewer_inv]:
  "controls_configured cm \<Longrightarrow> controls_configured (cameraManager_commit r cm)"
  by (cases "orbitControlsRef cm") (simp_all add: controls_configured_def viewer_defs)

lemma controls_configured_mount [viewer_inv]:
  "controls_configured \<lparr>orbitControlsRef = ref, effect_deps = None\<rparr>
   \<Longrightarrow> controls_configured (cameraManager_mount r ref)"
  unfolding cameraManager_mount_def by (rule controls_configured_commit)

lemma controls_configured_unmounted [simp]: "controls_configured cameraManager_unmounted"
  by (simp add: controls_configured_def cameraManager_unmounted_def)

text \<open>
  The effect writes the rotation flag to the field \<^verbatim>\<open>enabled\<close> of the controls object
  when the ref is attached, changes nothing else of the object, and does nothing while
  the ref is \<^verbatim>\<open>null\<close>.
\<close>

lemma cameraManager_effect_writes_enabled:
  "cameraManager_effect r None = None
   \<and> (\<exists>c'. cameraManager_effect r (Some c) = Some c' \<and> enabled c' = r \<and> props c' = props c)"
  by simp

text \<open>
  C36. Running the effect only when \<^verbatim>\<open>isRotating\<close> differs from its value at the last
  run leaves the same controls object as running the effect after every commit: in a
  state where the controls agree with the last value of the flag, the commit gated by
  the dependency list and the ungated effect compute the same ref.
\<close>

theorem deps_gating_sound:
  assumes "camera_synced r0 cm"
  shows "orbitControlsRef (cameraManager_commit r cm)
         = cameraManager_effect r (orbitControlsRef cm)"
proof (cases "r = r0")
  case True
  with assms show ?thesis
    by (cases "orbitControlsRef cm") (auto simp: camera_synced_def cameraManager_commit_def)
next
  case False
  with assms show ?thesis
    by (simp add: camera_synced_def cameraManager_commit_def)
qed

theorem deps_gating_sound_witness:
  "camera_synced True (cameraManager_mount True (Some \<lparr>props = orbitControls_props, enabled = False\<rparr>))
   \<and> orbitControlsRef (cameraManager_commit False
        (cameraManager_mount True (Some \<lparr>props = orbitControls_props, enabled = False\<rparr>)))
     = Some \<lparr>props = orbitControls_props, enabled = False\<rparr>"
proof -
  let ?cm = "cameraManager_mount True (Some \<lparr>props = orbitControls_props, enabled = False\<rparr>)"
  have h: "camera_synced True ?cm" by (rule camera_synced_mount)
  from h deps_gating_sound [OF h, of False] show ?thesis
    by (simp add: viewer_defs)
qed

section \<open>The ranges of the configuration\<close>

text \<open>
  The constants passed to the orbit controls describe non-empty ranges: the
  least camera distance is below the greatest, the polar angle runs from 0 to half of
  \<^verbatim>\<open>Math.PI\<close>, which is positive, and the damping factor and the rotation speed lie
  strictly between 0 and 1.
\<close>

lemma orbitControls_props_ranges:
  "0 < minDistance orbitControls_props
   \<and> minDistance orbitControls_props < maxDistance orbitControls_props
   \<and> minPolarAngle orbitControls_props = 0
   \<and> minPolarAngle orbitControls_props < maxPolarAngle orbitControls_props
   \<and> maxPolarAngle orbitControls_props < 1.5708
   \<and> 0 < dampingFactor orbitControls_props \<and> dampingFactor orbitControls_props < 1
   \<and> 0 < rotateSpeed orbitControls_props \<and> rotateSpeed orbitControls_props < 1"
  by (simp add: orbitControls_props_def Math_PI_def)

end
