(* ===== verification/AnimatedModel.thy ===== *)
theory AnimatedModel
  imports Prelude
begin

text \<open>
  The component \<^verbatim>\<open>AnimatedModel\<close> of \<^verbatim>\<open>src/src/component/Experience.jsx\<close> (lines 116
  to 133).

  \<^item> \<open>gltf_props\<close> are the properties it passes to \<^verbatim>\<open>Gltf\<close> (lines 127 to 131).
  \<^item> \<open>model_object\<close> is the scene object behind \<^verbatim>\<open>modelRef.current\<close>: its Euler
    rotation and its position. The ref is \<open>None\<close> until the renderer attaches it.
  \<^item> \<open>useFrame_callback\<close> is the callback registered with \<^verbatim>\<open>useFrame\<close> (lines 119 to
    124): with the ref attached and the flag set it adds \<^verbatim>\<open>delta * 0.5\<close> to
    \<^verbatim>\<open>rotation.y\<close>. The product and the sum are floating point operations; the model
    takes their rounding as the parameter \<open>rnd\<close>, so that a lemma holds either for
    every rounding (\<open>rounding rnd\<close>) or, where it says so, for exact arithmetic.
  \<^item> \<open>frames\<close> runs the callback over the deltas of successive frames.

  The lemmas: the guard (no change without a ref or with the flag cleared), the frame
  property (only \<^verbatim>\<open>rotation.y\<close> changes), the closed form of the rotation under exact
  arithmetic (half the elapsed time, whatever the frame rate; \<open>frames_exact\<close>), and that the rotation
  never decreases under any rounding when the deltas are not negative.
\<close>

section \<open>The model and its properties\<close>

record gltf_props =
  src :: string
  position :: vec3

definition animatedModel_props :: gltf_props where
  "animatedModel_props = \<lparr>src = ''/models/toyta_supra_2020.glb'', position = (0, - 1, 0)\<rparr>"

record model_object =
  rotation_x :: number
  rotation_y :: number
  rotation_z :: number
  object_position :: vec3

section \<open>The frame callback\<close>

definition useFrame_callback ::
    "(number \<Rightarrow> number) \<Rightarrow> bool \<Rightarrow> model_object option \<Rightarrow> number \<Rightarrow> model_object option" where
  "useFrame_callback rnd isAnimating modelRef delta =
     (case modelRef of
        None \<Rightarrow> None
      | Some m \<Rightarrow>
          if isAnimating
          then Some (m\<lparr>rotation_y := rnd (rotation_y m + rnd (delta * 0.5))\<rparr>)
          else Some m)"

definition frames ::
    "(number \<Rightarrow> number) \<Rightarrow> bool \<Rightarrow> number list \<Rightarrow> model_object option \<Rightarrow> model_object option" where
  "frames rnd isAnimating deltas modelRef =
     fold (\<lambda>delta r. useFrame_callback rnd isAnimating r delta) deltas modelRef"

declare useFrame_callback_def [viewer_defs]

lemma useFrame_callback_simps [simp]:
  "useFrame_callback rnd a None d = None"
  "useFrame_callback rnd False r d = r"
  "useFrame_callback rnd True (Some m) d = Some (m\<lparr>rotation_y := rnd (rotation_y m + rnd (d * 0.5))\<rparr>)"
  by (simp_all add: useFrame_callback_def split: option.splits)

lemma frames_simps [simp]:
  "frames rnd a [] r = r"
  "frames rnd a (d # ds) r = frames rnd a ds (useFrame_callback rnd a r d)"
  "frames rnd a (ds @ ds') r = frames rnd a ds' (frames rnd a ds r)"
  by (simp_all add: frames_def)

lemma frames_None [simp]: "frames rnd a ds None = None"
  by (induction ds) simp_all

lemma frames_not_animating [simp]: "frames rnd False ds r = r"
  by (induction ds) simp_all

lemma frames_Some: "\<exists>m'. frames rnd a ds (Some m) = Some m'"
proof (cases a)
  case True
  have "\<exists>m'. frames rnd True ds (Some m) = Some m'"
    by (induction ds arbitrary: m) simp_all
  with True show ?thesis by simp
next
  case False
  then show ?thesis by simp
qed

text \<open>
  C35. Without a model behind the ref, or with the animation flag cleared, the frame
  callback changes nothing, whatever the time since the last frame.
\<close>

theorem useFrame_guard:
  assumes "modelRef = None \<or> \<not> isAnimating"
  shows "useFrame_callback rnd isAnimating modelRef delta = modelRef"
  using assms by auto

theorem useFrame_guard_witness:
  "(Some \<lparr>rotation_x = 0, rotation_y = 1, rotation_z = 0, object_position = (0, - 1, 0)\<rparr> = None
      \<or> \<not> False)
   \<and> useFrame_callback (\<lambda>x. x) False
        (Some \<lparr>rotation_x = 0, rotation_y = 1, rotation_z = 0, object_position = (0, - 1, 0)\<rparr>) 0.016
     = Some \<lparr>rotation_x = 0, rotation_y = 1, rotation_z = 0, object_position = (0, - 1, 0)\<rparr>"
  using useFrame_guard [of "Some \<lparr>rotation_x = 0, rotation_y = 1, rotation_z = 0,
      object_position = (0, - 1, 0)\<rparr>" False "\<lambda>x. x" "0.016"]
  by simp

section \<open>The rotation under exact arithmetic\<close>

text \<open>
  Under exact arithmetic the rotation after frames with the deltas \<open>ds\<close> is the
  rotation at the start plus half the sum of \<open>ds\<close>: it depends on the elapsed time
  only, not on the number of frames.
\<close>

lemma frames_exact:
  "frames (\<lambda>x. x) True ds (Some m) = Some (m\<lparr>rotation_y := rotation_y m + sum_list ds / 2\<rparr>)"
  by (induction ds arbitrary: m) (simp_all add: algebra_simps)

section \<open>The rotation under any rounding\<close>

lemma useFrame_callback_frame:
  assumes "useFrame_callback rnd a (Some m) d = Some m'"
  shows "m'\<lparr>rotation_y := rotation_y m\<rparr> = m"
  using assms by (cases a) auto

lemma useFrame_callback_mono:
  assumes "rounding rnd" and "rnd (rotation_y m) = rotation_y m" and "0 \<le> d"
    and "useFrame_callback rnd a (Some m) d = Some m'"
  shows "rotation_y m \<le> rotation_y m' \<and> rnd (rotation_y m') = rotation_y m'"
proof (cases a)
  case True
  from assms(3) have "0 \<le> d * 0.5" by simp
  with assms(1) have "0 \<le> rnd (d * 0.5)" by (rule rounding_nonneg)
  then have "rotation_y m \<le> rotation_y m + rnd (d * 0.5)" by simp
  with assms(1) have "rnd (rotation_y m) \<le> rnd (rotation_y m + rnd (d * 0.5))"
    by (rule rounding_mono)
  with assms(1,2,4) True show ?thesis by (auto simp: rounding_idem)
next
  case False
  with assms(2,4) show ?thesis by simp
qed

text \<open>
  C38. Under every rounding of the floating point operations (monotone, exact on
  zero, idempotent), from a rotation that is a floating point value and with deltas
  that are not negative, the rotation about the Y axis never decreases over any number
  of frames.
\<close>

theorem rotation_never_decreases:
  assumes "rounding rnd" and "rnd (rotation_y m) = rotation_y m"
    and "\<forall>d \<in> set ds. 0 \<le> d" and "frames rnd a ds (Some m) = Some m'"
  shows "rotation_y m \<le> rotation_y m'"
  using assms(2-)
proof (induction ds arbitrary: m)
  case Nil
  then show ?case by simp
next
  case (Cons d ds)
  obtain m1 where m1: "useFrame_callback rnd a (Some m) d = Some m1"
    by (cases a) simp_all
  with Cons.prems have step: "rotation_y m \<le> rotation_y m1" "rnd (rotation_y m1) = rotation_y m1"
    using useFrame_callback_mono [OF assms(1), of m d a m1] by simp_all
  from Cons.prems m1 have "frames rnd a ds (Some m1) = Some m'" by simp
  moreover from Cons.prems(2) have "\<forall>d \<in> set ds. 0 \<le> d" by simp
  ultimately have "rotation_y m1 \<le> rotation_y m'"
    using step(2) by (intro Cons.IH)
  with step(1) show ?case by simp
qed

theorem rotation_never_decreases_witness:
  "rounding (\<lambda>x. x)
   \<and> list_all (\<lambda>d. (0::real) \<le> d) [0.016, 0.017]
   \<and> frames (\<lambda>x. x) True [0.016, 0.017]
        (Some \<lparr>rotation_x = 0, rotation_y = 0, rotation_z = 0, object_position = (0, - 1, 0)\<rparr>)
     = Some \<lparr>rotation_x = 0, rotation_y = 0.0165, rotation_z = 0, object_position = (0, - 1, 0)\<rparr>
   \<and> (0::real) \<le> 0.0165"
proof -
  let ?m = "\<lparr>rotation_x = 0, rotation_y = 0, rotation_z = 0, object_position = (0, - 1, 0)\<rparr>"
  let ?m' = "\<lparr>rotation_x = 0, rotation_y = 0.0165, rotation_z = 0, object_position = (0, - 1, 0)\<rparr>"
  have f: "frames (\<lambda>x. x) True [0.016, 0.017] (Some ?m) = Some ?m'" by simp
  have d: "\<forall>d \<in> set [0.016, 0.017]. (0::real) \<le> d" by simp
  from rotation_never_decreases [OF rounding_exact _ d f] f d show ?thesis by simp
qed

end
