(* ===== verification/Viewer.thy ===== *)
theory Viewer
  imports Experience CameraManager AnimatedModel
begin

text \<open>
  The three components of \<^verbatim>\<open>src/src/component/Experience.jsx\<close> composed as one event
  system, the way React and the rendering loop drive them.

  \<^item> \<open>viewer\<close> is the state of a mounted or unmounted \<^verbatim>\<open>Experience\<close>: its state cells
    (\<open>ui\<close>), the handle that the cleanup of the interval effect holds (\<open>interval\<close>),
    the browser's table of intervals (\<open>browser\<close>), the ref and effect state of
    \<^verbatim>\<open>CameraManager\<close> (\<open>camera\<close>) and the ref of \<^verbatim>\<open>AnimatedModel\<close> (\<open>modelRef\<close>).
  \<^item> \<open>event\<close> lists what can happen: the component is mounted (the renderer hands
    over the controls object, or none) or unmounted, a button is clicked, time passes,
    a frame is rendered, the model finishes loading.
  \<^item> One definition per event (\<open>mount\<close>, \<open>unmount\<close>, \<open>click\<close>, \<open>elapse_ms\<close>,
    \<open>frame\<close>, \<open>model_loaded\<close>) composes the operations of the components in the
    order of a React commit: the state update, then the effects of the children whose
    dependencies changed. \<open>step\<close> dispatches an event, \<open>run\<close> a list of them, and
    \<open>reachable\<close> are the states that any events can produce from an unmounted viewer.

  The invariant \<open>viewer_ok\<close> ties the parts together: the state cells satisfy
  \<open>experience_inv\<close>; the table of intervals is well formed; while mounted, exactly one
  interval of this component is active, with the handle the cleanup holds and a period
  of 2000 ms, and the controls agree with the rotation flag; while unmounted no
  interval of this component is active.

  The sections after the invariant: the interval over the life of the component (one
  while mounted, none after unmounting, the table restored by a mount and an unmount);
  the controls (they follow the rotation flag and keep their configuration); the preset
  index as a function of the elapsed time; the intervals of other scripts; the model
  under frames (it turns by half the elapsed time while the animation runs and stands
  still after Stop Animation).
\<close>

section \<open>State and events\<close>

record viewer =
  mounted :: bool
  ui :: experience_state
  interval :: "nat option"
  browser :: "timer_callback timers"
  camera :: camera_manager
  modelRef :: "model_object option"

datatype event =
    Mount "orbit_controls option"
  | Unmount
  | UI button
  | Elapse nat
  | Frame number
  | ModelLoaded model_object

definition unmounted :: "timer_callback timers \<Rightarrow> viewer" where
  "unmounted b =
     \<lparr>mounted = False, ui = initial_state, interval = None, browser = b,
      camera = cameraManager_unmounted, modelRef = None\<rparr>"

section \<open>One operation per event\<close>

definition mount :: "orbit_controls option \<Rightarrow> viewer \<Rightarrow> viewer" where
  "mount ref s =
     (case useEffect_interval (browser s) of (h, b) \<Rightarrow>
        s\<lparr>mounted := True, ui := initial_state, interval := Some h, browser := b,
          camera := cameraManager_mount (isRotating initial_state) ref, modelRef := None\<rparr>)"

definition unmount :: "viewer \<Rightarrow> viewer" where
  "unmount s =
     s\<lparr>mounted := False, interval := None,
       browser := (case interval s of None \<Rightarrow> browser s
                   | Some h \<Rightarrow> useEffect_cleanup h (browser s)),
       camera := cameraManager_unmounted, modelRef := None\<rparr>"

definition rerender :: "experience_state \<Rightarrow> viewer \<Rightarrow> viewer" where
  "rerender u s = s\<lparr>ui := u, camera := cameraManager_commit (isRotating u) (camera s)\<rparr>"

definition click :: "button \<Rightarrow> viewer \<Rightarrow> viewer" where
  "click b s = rerender (onClick b (ui s)) s"

definition run_callbacks :: "timer_callback list \<Rightarrow> experience_state \<Rightarrow> experience_state" where
  "run_callbacks = fold run_callback"

definition elapse_ms :: "nat \<Rightarrow> viewer \<Rightarrow> viewer" where
  "elapse_ms n s =
     (case elapse n (browser s) of (fired, b) \<Rightarrow>
        if mounted s then rerender (run_callbacks fired (ui s)) (s\<lparr>browser := b\<rparr>)
        else s\<lparr>browser := b\<rparr>)"

definition frame :: "(number \<Rightarrow> number) \<Rightarrow> number \<Rightarrow> viewer \<Rightarrow> viewer" where
  "frame rnd delta s =
     s\<lparr>modelRef := useFrame_callback rnd (isAnimating (ui s)) (modelRef s) delta\<rparr>"

definition model_loaded :: "model_object \<Rightarrow> viewer \<Rightarrow> viewer" where
  "model_loaded m s = s\<lparr>modelRef := Some m\<rparr>"

fun step :: "(number \<Rightarrow> number) \<Rightarrow> event \<Rightarrow> viewer \<Rightarrow> viewer" where
  "step rnd (Mount ref) s = (if mounted s then s else mount ref s)"
| "step rnd Unmount s = (if mounted s then unmount s else s)"
| "step rnd (UI b) s = (if mounted s then click b s else s)"
| "step rnd (Elapse n) s = elapse_ms n s"
| "step rnd (Frame delta) s = (if mounted s then frame rnd delta s else s)"
| "step rnd (ModelLoaded m) s = (if mounted s then model_loaded m s else s)"

definition run :: "(number \<Rightarrow> number) \<Rightarrow> event list \<Rightarrow> viewer \<Rightarrow> viewer" where
  "run rnd = fold (step rnd)"

inductive reachable :: "(number \<Rightarrow> number) \<Rightarrow> timer_callback timers \<Rightarrow> viewer \<Rightarrow> bool"
  for rnd :: "number \<Rightarrow> number" and b0 :: "timer_callback timers" where
  init: "reachable rnd b0 (unmounted b0)"
| step: "reachable rnd b0 s \<Longrightarrow> reachable rnd b0 (step rnd e s)"

section \<open>The invariant\<close>

definition cycle_intervals :: "timer_callback timers \<Rightarrow> (nat \<times> nat) list" where
  "cycle_intervals t =
     map (\<lambda>e. (fst e, period (snd e))) (filter (\<lambda>e. callback (snd e) = CyclePreset) (intervals t))"

fun expected_intervals :: "nat option \<Rightarrow> (nat \<times> nat) list" where
  "expected_intervals None = []"
| "expected_intervals (Some h) = [(h, 2000)]"

definition viewer_ok :: "viewer \<Rightarrow> bool" where
  "viewer_ok s \<longleftrightarrow>
     experience_inv (ui s) \<and> timers_wf (browser s)
     \<and> cycle_intervals (browser s) = expected_intervals (interval s)
     \<and> mounted s = (interval s \<noteq> None)
     \<and> (if mounted s then camera_synced (isRotating (ui s)) (camera s)
        else camera s = cameraManager_unmounted \<and> modelRef s = None)"

lemmas viewer_op_defs =
  mount_def unmount_def rerender_def click_def elapse_ms_def frame_def model_loaded_def
  useEffect_interval_def useEffect_cleanup_def

lemma run_simps [simp]:
  "run rnd [] s = s"
  "run rnd (e # es) s = run rnd es (step rnd e s)"
  "run rnd (es @ es') s = run rnd es' (run rnd es s)"
  by (simp_all add: run_def)

lemma reachable_run: "reachable rnd b0 s \<Longrightarrow> reachable rnd b0 (run rnd es s)"
  by (induction es arbitrary: s) (simp_all add: reachable.step)

lemma reachable_iff_run: "reachable rnd b0 s \<longleftrightarrow> (\<exists>es. s = run rnd es (unmounted b0))"
proof
  assume "reachable rnd b0 s"
  then show "\<exists>es. s = run rnd es (unmounted b0)"
  proof (induction rule: reachable.induct)
    case init
    have "unmounted b0 = run rnd [] (unmounted b0)" by simp
    then show ?case ..
  next
    case (step s e)
    from step.IH obtain es where "s = run rnd es (unmounted b0)" ..
    then have "step rnd e s = run rnd (es @ [e]) (unmounted b0)" by simp
    then show ?case ..
  qed
next
  assume "\<exists>es. s = run rnd es (unmounted b0)"
  then show "reachable rnd b0 s" by (auto intro: reachable_run reachable.init)
qed


section \<open>The intervals of the component in the table\<close>

lemma cycle_intervals_setInterval [simp]:
  "cycle_intervals (snd (setInterval CyclePreset ms t)) = cycle_intervals t @ [(next_handle t, max 1 ms)]"
  by (simp add: cycle_intervals_def)

lemma cycle_intervals_clearInterval [simp]:
  "cycle_intervals (clearInterval h t) = filter (\<lambda>p. fst p \<noteq> h) (cycle_intervals t)"
  by (simp add: cycle_intervals_def filter_map comp_def conj_commute)

lemma period_tick_interval [simp]: "period (tick_interval i) = period i"
  by (simp add: tick_interval_def)

lemma cycle_intervals_tick_ms [simp]: "cycle_intervals (snd (tick_ms t)) = cycle_intervals t"
  by (simp add: cycle_intervals_def filter_map comp_def)

lemma cycle_intervals_elapse [simp]: "cycle_intervals (snd (elapse n t)) = cycle_intervals t"
  by (induction n arbitrary: t) simp_all

lemma fired_callbacks: "set (fst (elapse n t)) \<subseteq> callback ` snd ` set (intervals t)"
proof (induction n arbitrary: t)
  case 0
  show ?case by simp
next
  case (Suc n)
  have "callback ` snd ` set (intervals (snd (tick_ms t))) = callback ` snd ` set (intervals t)"
    by (simp add: image_image)
  with Suc.IH [of "snd (tick_ms t)"] show ?case by auto
qed

lemma no_cycle_interval_no_firing:
  assumes "cycle_intervals t = []"
  shows "CyclePreset \<notin> set (fst (elapse n t))"
proof
  assume "CyclePreset \<in> set (fst (elapse n t))"
  with fired_callbacks [of n t] obtain e where "e \<in> set (intervals t)" "callback (snd e) = CyclePreset"
    by auto
  then have "filter (\<lambda>e. callback (snd e) = CyclePreset) (intervals t) \<noteq> []"
    by (auto simp: filter_empty_conv)
  with assms show False by (simp add: cycle_intervals_def)
qed

section \<open>Timer callbacks and the state cells\<close>

lemma run_callbacks_simps [simp]:
  "run_callbacks [] u = u"
  "run_callbacks (cb # cbs) u = run_callbacks cbs (run_callback cb u)"
  "run_callbacks (cbs @ cbs') u = run_callbacks cbs' (run_callbacks cbs u)"
  by (simp_all add: run_callbacks_def)

lemma run_callback_frame [simp]:
  "isAnimating (run_callback cb u) = isAnimating u"
  "isRotating (run_callback cb u) = isRotating u"
  "zoomLevel (run_callback cb u) = zoomLevel u"
  by (cases cb; simp)+

lemma run_callbacks_frame [simp]:
  "isAnimating (run_callbacks cbs u) = isAnimating u"
  "isRotating (run_callbacks cbs u) = isRotating u"
  "zoomLevel (run_callbacks cbs u) = zoomLevel u"
  by (induction cbs arbitrary: u; simp)+

lemma experience_inv_run_callback: "experience_inv u \<Longrightarrow> experience_inv (run_callback cb u)"
  using experience_inv_ui_step [of u Tick] by (cases cb) simp_all

lemma experience_inv_run_callbacks [viewer_inv]:
  "experience_inv u \<Longrightarrow> experience_inv (run_callbacks cbs u)"
  by (induction cbs arbitrary: u) (simp_all add: experience_inv_run_callback)

lemma index_after_callbacks:
  assumes "preset_index_ok u"
  shows "currentPresetIndex (run_callbacks cbs u)
         = (currentPresetIndex u + int (count_list cbs CyclePreset)) mod 10"
  using assms
proof (induction cbs arbitrary: u)
  case Nil
  then show ?case by (simp add: preset_index_ok_def)
next
  case (Cons cb cbs)
  show ?case
  proof (cases cb)
    case CyclePreset
    from Cons.prems have ok: "preset_index_ok (interval_callback u)" by (simp add: viewer_inv)
    from Cons.prems have "(currentPresetIndex u + 1) smod 10 = (currentPresetIndex u + 1) mod 10"
      by (intro smod_succ_eq_mod) (simp_all add: preset_index_ok_def)
    with Cons.IH [OF ok] CyclePreset show ?thesis by (simp add: mod_simps ac_simps)
  next
    case (Foreign n)
    with Cons.IH [OF Cons.prems] show ?thesis by simp
  qed
qed

section \<open>Every event keeps the invariant\<close>

lemma viewer_ok_unmounted:
  "timers_wf b \<Longrightarrow> cycle_intervals b = [] \<Longrightarrow> viewer_ok (unmounted b)"
  by (simp add: viewer_ok_def unmounted_def experience_inv_initial)

lemma cycle_intervals_no_timers [simp]: "cycle_intervals no_timers = []"
  by (simp add: cycle_intervals_def no_timers_def)

lemma viewer_ok_start: "viewer_ok (unmounted no_timers)"
  by (rule viewer_ok_unmounted) simp_all

lemma viewer_ok_mount:
  assumes "viewer_ok s" and "\<not> mounted s"
  shows "viewer_ok (mount ref s)"
  using assms
  by (simp add: viewer_ok_def mount_def useEffect_interval_def split_beta
      experience_inv_initial timers_wf_setInterval camera_synced_mount)

lemma viewer_ok_unmount:
  assumes "viewer_ok s" and "mounted s"
  shows "viewer_ok (unmount s)"
  using assms
  by (auto simp: viewer_ok_def unmount_def useEffect_cleanup_def timers_wf_clearInterval
     )

lemma viewer_ok_rerender:
  assumes "viewer_ok s" and "mounted s" and "experience_inv u"
  shows "viewer_ok (rerender u s)"
  using assms
  by (auto simp: viewer_ok_def rerender_def intro: camera_synced_commit)

lemma viewer_ok_click:
  assumes "viewer_ok s" and "mounted s"
  shows "viewer_ok (click b s)"
  unfolding click_def using assms
  by (intro viewer_ok_rerender) (use experience_inv_ui_step [of "ui s" "Click b"] in \<open>simp_all add: viewer_ok_def\<close>)

lemma viewer_ok_browser:
  assumes "viewer_ok s" and "timers_wf b" and "cycle_intervals b = cycle_intervals (browser s)"
  shows "viewer_ok (s\<lparr>browser := b\<rparr>)"
  using assms by (simp add: viewer_ok_def)

lemma viewer_ok_elapse_ms:
  assumes "viewer_ok s"
  shows "viewer_ok (elapse_ms n s)"
proof -
  let ?b = "snd (elapse n (browser s))"
  from assms have "timers_wf ?b" by (simp add: viewer_ok_def timers_wf_elapse)
  with assms have ok: "viewer_ok (s\<lparr>browser := ?b\<rparr>)" by (intro viewer_ok_browser) simp_all
  show ?thesis
  proof (cases "mounted s")
    case True
    from assms have "experience_inv (run_callbacks (fst (elapse n (browser s))) (ui s))"
      by (simp add: viewer_ok_def viewer_inv)
    with ok True have "viewer_ok (rerender (run_callbacks (fst (elapse n (browser s))) (ui s))
        (s\<lparr>browser := ?b\<rparr>))"
      by (intro viewer_ok_rerender) simp_all
    with True show ?thesis by (simp add: elapse_ms_def split_beta)
  next
    case False
    with ok show ?thesis by (simp add: elapse_ms_def split_beta)
  qed
qed

lemma viewer_ok_frame: "viewer_ok s \<Longrightarrow> mounted s \<Longrightarrow> viewer_ok (frame rnd d s)"
  by (simp add: viewer_ok_def frame_def)

lemma viewer_ok_model_loaded: "viewer_ok s \<Longrightarrow> mounted s \<Longrightarrow> viewer_ok (model_loaded m s)"
  by (simp add: viewer_ok_def model_loaded_def)

lemmas viewer_ok_ops =
  viewer_ok_mount viewer_ok_unmount viewer_ok_click viewer_ok_elapse_ms
  viewer_ok_frame viewer_ok_model_loaded

lemma viewer_ok_step: "viewer_ok s \<Longrightarrow> viewer_ok (step rnd e s)"
  by (cases e) (simp_all add: viewer_ok_ops)

lemma viewer_ok_run: "viewer_ok s \<Longrightarrow> viewer_ok (run rnd es s)"
  by (induction es arbitrary: s) (simp_all add: viewer_ok_step)

lemma reachable_viewer_ok:
  assumes "timers_wf b0" and "cycle_intervals b0 = []" and "reachable rnd b0 s"
  shows "viewer_ok s"
  using assms(3)
proof (induction rule: reachable.induct)
  case init
  from assms(1,2) show ?case by (rule viewer_ok_unmounted)
next
  case (step s e)
  then show ?case by (simp add: viewer_ok_step)
qed

section \<open>The interval over the life of the component\<close>

text \<open>
  C4. However often the component is mounted and unmounted, the browser holds exactly
  one interval of the component while it is mounted, under the handle that the cleanup
  holds and with a period of 2000 ms, and none while it is unmounted.
\<close>

theorem one_interval_while_mounted:
  assumes "timers_wf b0" and "cycle_intervals b0 = []" and "reachable rnd b0 s"
  shows "cycle_intervals (browser s) = expected_intervals (interval s)
       \<and> length (cycle_intervals (browser s)) = (if mounted s then 1 else 0)"
proof -
  from assms have "viewer_ok s" by (rule reachable_viewer_ok)
  then show ?thesis by (cases "interval s") (simp_all add: viewer_ok_def)
qed

theorem one_interval_while_mounted_witness:
  "timers_wf (no_timers :: timer_callback timers)
   \<and> cycle_intervals no_timers = []
   \<and> reachable (\<lambda>x. x) no_timers (run (\<lambda>x. x) [Mount None, Unmount, Mount None] (unmounted no_timers))
   \<and> cycle_intervals (browser (run (\<lambda>x. x) [Mount None, Unmount, Mount None] (unmounted no_timers)))
       = [(2, 2000)]"
proof -
  let ?s = "run (\<lambda>x. x) [Mount None, Unmount, Mount None] (unmounted no_timers)"
  have wf: "timers_wf (no_timers :: timer_callback timers)" by simp
  have c: "cycle_intervals no_timers = []" by (simp add: cycle_intervals_def no_timers_def)
  have r: "reachable (\<lambda>x. x) no_timers ?s" by (intro reachable_run reachable.init)
  have i: "interval ?s = Some 2"
    by (simp add: viewer_op_defs unmounted_def no_timers_def split_beta)
  from one_interval_while_mounted [OF wf c r] wf c r i show ?thesis by simp
qed

text \<open>
  C5. After the component is unmounted its callback never fires again: whatever time
  passes in a reachable unmounted state, the callbacks that fire are not the one that
  advances the preset index.
\<close>

theorem no_tick_after_unmount:
  assumes "timers_wf b0" and "cycle_intervals b0 = []" and "reachable rnd b0 s"
    and "\<not> mounted s"
  shows "CyclePreset \<notin> set (fst (elapse n (browser s)))"
proof -
  from assms(1-3) have "viewer_ok s" by (rule reachable_viewer_ok)
  with assms(4) have "cycle_intervals (browser s) = []" by (simp add: viewer_ok_def)
  then show ?thesis by (rule no_cycle_interval_no_firing)
qed

theorem no_tick_after_unmount_witness:
  "timers_wf (no_timers :: timer_callback timers)
   \<and> cycle_intervals no_timers = []
   \<and> reachable (\<lambda>x. x) no_timers (run (\<lambda>x. x) [Mount None, Elapse 3, Unmount] (unmounted no_timers))
   \<and> \<not> mounted (run (\<lambda>x. x) [Mount None, Elapse 3, Unmount] (unmounted no_timers))
   \<and> CyclePreset \<notin> set (fst (elapse 5000
        (browser (run (\<lambda>x. x) [Mount None, Elapse 3, Unmount] (unmounted no_timers)))))"
proof -
  let ?s = "run (\<lambda>x. x) [Mount None, Elapse 3, Unmount] (unmounted no_timers)"
  have wf: "timers_wf (no_timers :: timer_callback timers)" by simp
  have c: "cycle_intervals no_timers = []" by (simp add: cycle_intervals_def no_timers_def)
  have r: "reachable (\<lambda>x. x) no_timers ?s" by (intro reachable_run reachable.init)
  have m: "\<not> mounted ?s" by (simp add: viewer_op_defs unmounted_def split_beta)
  from no_tick_after_unmount [OF wf c r m, of 5000] wf c r m show ?thesis by simp
qed

text \<open>
  C33. Mounting the component and unmounting it again leaves the browser's table of
  intervals as it was: the cleanup clears the interval that the effect registered and
  no other.
\<close>

theorem mount_unmount_restores_timers:
  assumes "viewer_ok s" and "\<not> mounted s"
  shows "intervals (browser (run rnd [Mount ref, Unmount] s)) = intervals (browser s)"
proof -
  from assms(1) have "timers_wf (browser s)" by (simp add: viewer_ok_def)
  then have "intervals (clearInterval (fst (setInterval CyclePreset 2000 (browser s)))
      (snd (setInterval CyclePreset 2000 (browser s)))) = intervals (browser s)"
    by (rule clearInterval_setInterval)
  with assms(2) show ?thesis
    by (simp add: viewer_op_defs split_beta)
qed

theorem mount_unmount_restores_timers_witness:
  "viewer_ok (unmounted \<lparr>next_handle = 8, intervals = [(3, \<lparr>callback = Foreign 1, period = 50, due = 20\<rparr>)]\<rparr>)
   \<and> \<not> mounted (unmounted \<lparr>next_handle = 8, intervals = [(3, \<lparr>callback = Foreign 1, period = 50, due = 20\<rparr>)]\<rparr>)
   \<and> intervals (browser (run (\<lambda>x. x) [Mount None, Unmount]
        (unmounted \<lparr>next_handle = 8, intervals = [(3, \<lparr>callback = Foreign 1, period = 50, due = 20\<rparr>)]\<rparr>)))
     = [(3, \<lparr>callback = Foreign 1, period = 50, due = 20\<rparr>)]"
proof -
  let ?b = "\<lparr>next_handle = 8, intervals = [(3, \<lparr>callback = Foreign 1, period = 50, due = 20\<rparr>)]\<rparr>"
  have ok: "viewer_ok (unmounted ?b)"
    by (intro viewer_ok_unmounted) (simp_all add: timers_wf_def interval_wf_def cycle_intervals_def)
  have m: "\<not> mounted (unmounted ?b)" by (simp add: unmounted_def)
  from mount_unmount_restores_timers [OF ok m, of "\<lambda>x. x" None] ok m show ?thesis
    by (simp add: unmounted_def)
qed

section \<open>The controls and the rotation flag\<close>

text \<open>
  C6. In every reachable state in which the ref of the orbit controls is attached,
  the field \<^verbatim>\<open>enabled\<close> of the controls equals the rotation flag: the effect has run
  after every change of the flag.
\<close>

theorem controls_follow_flag:
  assumes "timers_wf b0" and "cycle_intervals b0 = []" and "reachable rnd b0 s"
    and "orbitControlsRef (camera s) = Some c"
  shows "enabled c = isRotating (ui s)"
proof -
  from assms(1-3) have ok: "viewer_ok s" by (rule reachable_viewer_ok)
  show ?thesis
  proof (cases "mounted s")
    case True
    with ok have "camera_synced (isRotating (ui s)) (camera s)" by (simp add: viewer_ok_def)
    with assms(4) show ?thesis by (simp add: camera_synced_def)
  next
    case False
    with ok assms(4) show ?thesis by (simp add: viewer_ok_def cameraManager_unmounted_def)
  qed
qed

theorem controls_follow_flag_witness:
  "timers_wf (no_timers :: timer_callback timers)
   \<and> cycle_intervals no_timers = []
   \<and> reachable (\<lambda>x. x) no_timers
       (run (\<lambda>x. x) [Mount (Some \<lparr>props = orbitControls_props, enabled = True\<rparr>), UI RotationButton]
          (unmounted no_timers))
   \<and> orbitControlsRef (camera
       (run (\<lambda>x. x) [Mount (Some \<lparr>props = orbitControls_props, enabled = True\<rparr>), UI RotationButton]
          (unmounted no_timers)))
     = Some \<lparr>props = orbitControls_props, enabled = False\<rparr>
   \<and> \<not> isRotating (ui
       (run (\<lambda>x. x) [Mount (Some \<lparr>props = orbitControls_props, enabled = True\<rparr>), UI RotationButton]
          (unmounted no_timers)))"
proof -
  let ?s = "run (\<lambda>x. x) [Mount (Some \<lparr>props = orbitControls_props, enabled = True\<rparr>), UI RotationButton]
      (unmounted no_timers)"
  have wf: "timers_wf (no_timers :: timer_callback timers)" by simp
  have c: "cycle_intervals no_timers = []" by (simp add: cycle_intervals_def no_timers_def)
  have r: "reachable (\<lambda>x. x) no_timers ?s" by (intro reachable_run reachable.init)
  have o: "orbitControlsRef (camera ?s) = Some \<lparr>props = orbitControls_props, enabled = False\<rparr>"
    by (simp add: viewer_op_defs unmounted_def split_beta viewer_defs)
  from controls_follow_flag [OF wf c r o] wf c r o show ?thesis by simp
qed

text \<open>
  The configuration of the controls. \<open>configured_mount\<close> holds of the events in which
  the renderer hands over a controls object built from the properties that
  \<^verbatim>\<open>CameraManager\<close> passes, which is what it does for the element of lines 99 to 112.
\<close>

fun configured_mount :: "event \<Rightarrow> bool" where
  "configured_mount (Mount (Some c)) = (props c = orbitControls_props)"
| "configured_mount e = True"

lemma controls_configured_start [simp]: "controls_configured (camera (unmounted b))"
  by (simp add: unmounted_def)

lemma controls_configured_step:
  assumes "controls_configured (camera s)" and "configured_mount e"
  shows "controls_configured (camera (step rnd e s))"
proof (cases e)
  case (Mount ref)
  with assms(2) have "controls_configured \<lparr>orbitControlsRef = ref, effect_deps = None\<rparr>"
    by (cases ref) (simp_all add: controls_configured_def)
  with Mount assms(1) show ?thesis
    by (simp add: mount_def split_beta controls_configured_mount)
qed (use assms(1) in \<open>simp_all add: viewer_op_defs split_beta controls_configured_commit\<close>)

lemma controls_configured_run:
  assumes "controls_configured (camera s)" and "list_all configured_mount es"
  shows "controls_configured (camera (run rnd es s))"
  using assms by (induction es arbitrary: s) (simp_all add: controls_configured_step)



section \<open>The preset index as a function of elapsed time\<close>

fun no_lifecycle :: "event \<Rightarrow> bool" where
  "no_lifecycle (Mount ref) = False"
| "no_lifecycle Unmount = False"
| "no_lifecycle e = True"

fun elapsed_of :: "event \<Rightarrow> nat" where
  "elapsed_of (Elapse n) = n"
| "elapsed_of e = 0"

definition total_elapsed :: "event list \<Rightarrow> nat" where
  "total_elapsed es = sum_list (map elapsed_of es)"

lemma total_elapsed_simps [simp]:
  "total_elapsed [] = 0"
  "total_elapsed (e # es) = elapsed_of e + total_elapsed es"
  by (simp_all add: total_elapsed_def)

lemma preset_index_ok_run_callbacks:
  "preset_index_ok u \<Longrightarrow> preset_index_ok (run_callbacks cbs u)"
proof (induction cbs arbitrary: u)
  case Nil
  then show ?case by simp
next
  case (Cons cb cbs)
  from Cons.prems have "preset_index_ok (run_callback cb u)"
    by (cases cb) (simp_all add: viewer_inv)
  then show ?case by (simp add: Cons.IH)
qed

text \<open>One event other than mounting and unmounting, in a mounted state.\<close>

lemma step_no_lifecycle:
  assumes "mounted s" and "no_lifecycle e" and "preset_index_ok (ui s)"
  shows "mounted (step rnd e s)" and "preset_index_ok (ui (step rnd e s))"
    and "browser (step rnd e s) = snd (elapse (elapsed_of e) (browser s))"
    and "currentPresetIndex (ui (step rnd e s)) =
         (currentPresetIndex (ui s)
            + int (count_list (fst (elapse (elapsed_of e) (browser s))) CyclePreset)) mod 10"
proof -
  have i: "currentPresetIndex (ui s) mod 10 = currentPresetIndex (ui s)"
    using assms(3) by (simp add: preset_index_ok_def)
  show "mounted (step rnd e s)"
    using assms(1,2) by (cases e) (simp_all add: viewer_op_defs split_beta)
  show "preset_index_ok (ui (step rnd e s))"
    using assms by (cases e)
      (simp_all add: viewer_op_defs split_beta viewer_inv preset_index_ok_run_callbacks)
  show "browser (step rnd e s) = snd (elapse (elapsed_of e) (browser s))"
    using assms(1,2) by (cases e) (simp_all add: viewer_op_defs split_beta)
  show "currentPresetIndex (ui (step rnd e s)) =
         (currentPresetIndex (ui s)
            + int (count_list (fst (elapse (elapsed_of e) (browser s))) CyclePreset)) mod 10"
    using assms i
  proof (cases e)
    case (UI b)
    with assms(1) i show ?thesis by (cases b) (simp_all add: viewer_op_defs)
  next
    case (Elapse n)
    with assms(1,3) show ?thesis
      by (simp add: viewer_op_defs split_beta index_after_callbacks)
  qed (simp_all add: viewer_op_defs)
qed

lemma run_no_lifecycle:
  assumes "mounted s" and "list_all no_lifecycle es" and "preset_index_ok (ui s)"
  shows "browser (run rnd es s) = snd (elapse (total_elapsed es) (browser s))
       \<and> currentPresetIndex (ui (run rnd es s)) =
         (currentPresetIndex (ui s)
            + int (count_list (fst (elapse (total_elapsed es) (browser s))) CyclePreset)) mod 10"
  using assms
proof (induction es arbitrary: s)
  case Nil
  then show ?case by (simp add: preset_index_ok_def)
next
  case (Cons e es)
  from Cons.prems have e: "no_lifecycle e" and es: "list_all no_lifecycle es" by simp_all
  note st = step_no_lifecycle [OF Cons.prems(1) e Cons.prems(3), of rnd]
  from Cons.IH [OF st(1) es st(2)] st(3,4) show ?case
    by (simp add: elapse_add count_list_append mod_simps ac_simps)
qed

lemma no_cycle_sum:
  assumes "cycle_intervals t = []"
  shows "(\<Sum>e\<leftarrow>intervals t. if callback (snd e) = CyclePreset then f e else 0) = (0::nat)"
proof -
  from assms have "\<forall>e \<in> set (intervals t). callback (snd e) \<noteq> CyclePreset"
    by (simp add: cycle_intervals_def filter_empty_conv)
  then have "map (\<lambda>e. if callback (snd e) = CyclePreset then f e else 0) (intervals t)
      = map (\<lambda>e. 0) (intervals t)"
    by (intro map_cong refl) simp
  then show ?thesis by simp
qed

lemma ticks_after_mount:
  assumes "timers_wf t" and "cycle_intervals t = []"
  shows "count_list (fst (elapse n (snd (useEffect_interval t)))) CyclePreset = n div 2000"
proof -
  have "timers_wf (snd (useEffect_interval t))"
    using assms(1) by (simp add: useEffect_interval_def timers_wf_setInterval)
  then show ?thesis
    by (simp add: count_fired useEffect_interval_def no_cycle_sum [OF assms(2)] fires_fresh)
qed

text \<open>
  C3. The preset index follows the clock. When the component is mounted in a
  reachable unmounted state and any clicks, frames and passages of time follow, the
  preset index is the number of whole periods of 2000 ms that have passed since the
  mount, modulo ten, whatever else happened in between and however the time was cut
  into pieces.
\<close>

theorem preset_after_elapsed:
  assumes "viewer_ok s" and "\<not> mounted s" and "list_all no_lifecycle es"
  shows "currentPresetIndex (ui (run rnd (Mount ref # es) s)) = int (total_elapsed es div 2000) mod 10"
proof -
  let ?s1 = "mount ref s"
  from assms(1,2) have wf: "timers_wf (browser s)" and c: "cycle_intervals (browser s) = []"
    by (simp_all add: viewer_ok_def)
  have s1: "mounted ?s1" "ui ?s1 = initial_state" "browser ?s1 = snd (useEffect_interval (browser s))"
    by (simp_all add: mount_def split_beta)
  then have ok: "preset_index_ok (ui ?s1)" by (simp add: preset_index_ok_def)
  from run_no_lifecycle [OF s1(1) assms(3) ok, of rnd] s1(2,3) assms(2)
  show ?thesis by (simp add: ticks_after_mount [OF wf c])
qed

theorem preset_after_elapsed_witness:
  "viewer_ok (unmounted no_timers) \<and> \<not> mounted (unmounted no_timers)
   \<and> list_all no_lifecycle [Elapse 1500, UI ZoomInButton, Elapse 2600, Frame 0.016, Elapse 100]
   \<and> currentPresetIndex (ui (run (\<lambda>x. x)
        (Mount None # [Elapse 1500, UI ZoomInButton, Elapse 2600, Frame 0.016, Elapse 100])
        (unmounted no_timers))) = 2"
proof -
  have ok: "viewer_ok (unmounted no_timers)" by (rule viewer_ok_start)
  have m: "\<not> mounted (unmounted no_timers)" by (simp add: unmounted_def)
  have l: "list_all no_lifecycle [Elapse 1500, UI ZoomInButton, Elapse 2600, Frame 0.016, Elapse 100]"
    by simp
  from preset_after_elapsed [OF ok m l, of "\<lambda>x. x" None] ok m l show ?thesis by simp
qed

section \<open>The intervals of other scripts\<close>

definition foreign_intervals :: "timer_callback timers \<Rightarrow> (nat \<times> timer_callback \<times> nat) list" where
  "foreign_intervals t =
     map (\<lambda>e. (fst e, callback (snd e), period (snd e)))
       (filter (\<lambda>e. callback (snd e) \<noteq> CyclePreset) (intervals t))"

lemma foreign_intervals_elapse [simp]: "foreign_intervals (snd (elapse n t)) = foreign_intervals t"
  by (induction n arbitrary: t) (simp_all add: foreign_intervals_def filter_map comp_def)

lemma foreign_intervals_setInterval [simp]:
  "foreign_intervals (snd (setInterval CyclePreset ms t)) = foreign_intervals t"
  by (simp add: foreign_intervals_def)

lemma foreign_intervals_clear_own:
  assumes "timers_wf t" and "cycle_intervals t = [(h, p)]"
  shows "foreign_intervals (clearInterval h t) = foreign_intervals t"
proof -
  from assms(2) have "(h, p) \<in> set (cycle_intervals t)" by simp
  then obtain i where i: "(h, i) \<in> set (intervals t)" "callback i = CyclePreset"
    by (auto simp: cycle_intervals_def)
  have "fst e \<noteq> h" if "e \<in> set (intervals t)" "callback (snd e) \<noteq> CyclePreset" for e
  proof
    assume "fst e = h"
    with that(1) have "(h, snd e) \<in> set (intervals t)" by (metis prod.collapse)
    with i(1) assms(1) have "snd e = i"
      by (auto simp: timers_wf_def dest: eq_key_imp_eq_value)
    with that(2) i(2) show False by simp
  qed
  then have "filter (\<lambda>e. callback (snd e) \<noteq> CyclePreset) (filter (\<lambda>e. fst e \<noteq> h) (intervals t))
      = filter (\<lambda>e. callback (snd e) \<noteq> CyclePreset) (intervals t)"
    by (auto simp: filter_filter intro!: filter_cong)
  then show ?thesis by (simp add: foreign_intervals_def)
qed

lemma foreign_intervals_step:
  assumes "viewer_ok s"
  shows "foreign_intervals (browser (step rnd e s)) = foreign_intervals (browser s)"
proof (cases e)
  case Unmount
  show ?thesis
  proof (cases "interval s")
    case None
    with Unmount show ?thesis by (simp add: viewer_op_defs)
  next
    case (Some h)
    with assms have "foreign_intervals (clearInterval h (browser s)) = foreign_intervals (browser s)"
      by (intro foreign_intervals_clear_own [where p = 2000]) (simp_all add: viewer_ok_def)
    with Unmount Some show ?thesis by (simp add: viewer_op_defs)
  qed
qed (simp_all add: viewer_op_defs split_beta)

text \<open>
  C34. The component leaves the intervals of other scripts alone: in every reachable
  state the intervals of the table that are not its own are those of the start, with
  their handles, callbacks and periods, in their order.
\<close>

theorem foreign_intervals_untouched:
  assumes "timers_wf b0" and "cycle_intervals b0 = []" and "reachable rnd b0 s"
  shows "foreign_intervals (browser s) = foreign_intervals b0"
  using assms(3)
proof (induction rule: reachable.induct)
  case init
  show ?case by (simp add: unmounted_def)
next
  case (step s e)
  from assms(1,2) step.hyps have "viewer_ok s" by (rule reachable_viewer_ok)
  then show ?case by (simp add: foreign_intervals_step step.IH)
qed

theorem foreign_intervals_untouched_witness:
  "timers_wf \<lparr>next_handle = 8, intervals = [(3, \<lparr>callback = Foreign 1, period = 50, due = 20\<rparr>)]\<rparr>
   \<and> cycle_intervals \<lparr>next_handle = 8, intervals = [(3, \<lparr>callback = Foreign 1, period = 50, due = 20\<rparr>)]\<rparr> = []
   \<and> reachable (\<lambda>x. x) \<lparr>next_handle = 8, intervals = [(3, \<lparr>callback = Foreign 1, period = 50, due = 20\<rparr>)]\<rparr>
       (run (\<lambda>x. x) [Mount None, Elapse 2, Unmount]
          (unmounted \<lparr>next_handle = 8, intervals = [(3, \<lparr>callback = Foreign 1, period = 50, due = 20\<rparr>)]\<rparr>))
   \<and> foreign_intervals (browser (run (\<lambda>x. x) [Mount None, Elapse 2, Unmount]
          (unmounted \<lparr>next_handle = 8, intervals = [(3, \<lparr>callback = Foreign 1, period = 50, due = 20\<rparr>)]\<rparr>)))
     = [(3, Foreign 1, 50)]"
proof -
  let ?b = "\<lparr>next_handle = 8, intervals = [(3, \<lparr>callback = Foreign 1, period = 50, due = 20\<rparr>)]\<rparr>"
  have wf: "timers_wf ?b" by (simp add: timers_wf_def interval_wf_def)
  have c: "cycle_intervals ?b = []" by (simp add: cycle_intervals_def)
  have r: "reachable (\<lambda>x. x) ?b (run (\<lambda>x. x) [Mount None, Elapse 2, Unmount] (unmounted ?b))"
    by (intro reachable_run reachable.init)
  from foreign_intervals_untouched [OF wf c r] wf c r show ?thesis
    by (simp add: foreign_intervals_def)
qed

section \<open>The model in the system\<close>

lemma run_frames:
  assumes "mounted s"
  shows "run rnd (map Frame ds) s = s\<lparr>modelRef := frames rnd (isAnimating (ui s)) ds (modelRef s)\<rparr>"
  using assms by (induction ds arbitrary: s) (simp_all add: frame_def)

text \<open>
  C8. The Stop Animation button stops the model: after a click on the animation
  button in a mounted state whose animation flag is set, no number of rendered frames
  changes the model.
\<close>

theorem stop_animation_stops_model:
  assumes "mounted s" and "isAnimating (ui s)"
  shows "modelRef (run rnd (UI AnimationButton # map Frame ds) s) = modelRef s"
proof -
  from assms have "mounted (click AnimationButton s)" "\<not> isAnimating (ui (click AnimationButton s))"
    "modelRef (click AnimationButton s) = modelRef s"
    by (simp_all add: click_def rerender_def)
  with assms(1) show ?thesis by (simp add: run_frames)
qed

theorem stop_animation_stops_model_witness:
  "mounted (run (\<lambda>x. x) [Mount None, ModelLoaded
       \<lparr>rotation_x = 0, rotation_y = 0, rotation_z = 0, object_position = (0, - 1, 0)\<rparr>, Frame 2]
       (unmounted no_timers))
   \<and> isAnimating (ui (run (\<lambda>x. x) [Mount None, ModelLoaded
       \<lparr>rotation_x = 0, rotation_y = 0, rotation_z = 0, object_position = (0, - 1, 0)\<rparr>, Frame 2]
       (unmounted no_timers)))
   \<and> modelRef (run (\<lambda>x. x) (UI AnimationButton # map Frame [1, 3])
       (run (\<lambda>x. x) [Mount None, ModelLoaded
         \<lparr>rotation_x = 0, rotation_y = 0, rotation_z = 0, object_position = (0, - 1, 0)\<rparr>, Frame 2]
         (unmounted no_timers)))
     = Some \<lparr>rotation_x = 0, rotation_y = 1, rotation_z = 0, object_position = (0, - 1, 0)\<rparr>"
proof -
  let ?s = "run (\<lambda>x. x) [Mount None, ModelLoaded
       \<lparr>rotation_x = 0, rotation_y = 0, rotation_z = 0, object_position = (0, - 1, 0)\<rparr>, Frame 2]
       (unmounted no_timers)"
  have m: "mounted ?s" by (simp add: viewer_op_defs unmounted_def split_beta)
  have a: "isAnimating (ui ?s)" by (simp add: viewer_op_defs unmounted_def split_beta)
  have r: "modelRef ?s = Some \<lparr>rotation_x = 0, rotation_y = 1, rotation_z = 0, object_position = (0, - 1, 0)\<rparr>"
    by (simp add: viewer_op_defs unmounted_def split_beta)
  from stop_animation_stops_model [OF m a, of "\<lambda>x. x" "[1, 3]"] m a r show ?thesis
    by (simp only: simp_thms)
qed

text \<open>
  The model turns with the time. In a mounted state with the animation flag set
  and the model loaded, after frames with the deltas \<open>ds\<close> and under exact arithmetic,
  the rotation of the model about the Y axis has grown by half the sum of \<open>ds\<close> and
  nothing else of the model has changed: the angle depends on the elapsed time only, not
  on the frame rate.
\<close>

lemma model_turns_with_time:
  assumes "mounted s" and "isAnimating (ui s)" and "modelRef s = Some m"
  shows "modelRef (run (\<lambda>x. x) (map Frame ds) s)
       = Some (m\<lparr>rotation_y := rotation_y m + sum_list ds / 2\<rparr>)"
  using assms by (simp add: run_frames frames_exact)

lemma model_turns_with_time_witness:
  "mounted (run (\<lambda>x. x) [Mount None, ModelLoaded
       \<lparr>rotation_x = 0, rotation_y = 0, rotation_z = 0, object_position = (0, - 1, 0)\<rparr>]
       (unmounted no_timers))
   \<and> isAnimating (ui (run (\<lambda>x. x) [Mount None, ModelLoaded
       \<lparr>rotation_x = 0, rotation_y = 0, rotation_z = 0, object_position = (0, - 1, 0)\<rparr>]
       (unmounted no_timers)))
   \<and> modelRef (run (\<lambda>x. x) (map Frame [0.016, 0.017, 0.033])
       (run (\<lambda>x. x) [Mount None, ModelLoaded
         \<lparr>rotation_x = 0, rotation_y = 0, rotation_z = 0, object_position = (0, - 1, 0)\<rparr>]
         (unmounted no_timers)))
     = Some \<lparr>rotation_x = 0, rotation_y = 0.033, rotation_z = 0, object_position = (0, - 1, 0)\<rparr>"
proof -
  let ?m = "\<lparr>rotation_x = 0, rotation_y = 0, rotation_z = 0, object_position = (0, - 1, 0)\<rparr>"
  let ?s = "run (\<lambda>x. x) [Mount None, ModelLoaded ?m] (unmounted no_timers)"
  have s: "mounted ?s" "isAnimating (ui ?s)" "modelRef ?s = Some ?m"
    by (simp_all add: viewer_op_defs unmounted_def initial_state_def split_beta)
  have e: "?m\<lparr>rotation_y := rotation_y ?m + sum_list [0.016, 0.017, 0.033] / 2\<rparr>
      = \<lparr>rotation_x = 0, rotation_y = 0.033, rotation_z = 0, object_position = (0, - 1, 0)\<rparr>"
    by simp
  from model_turns_with_time [OF s, of "[0.016, 0.017, 0.033]"]
  have "modelRef (run (\<lambda>x. x) (map Frame [0.016, 0.017, 0.033]) ?s)
      = Some \<lparr>rotation_x = 0, rotation_y = 0.033, rotation_z = 0, object_position = (0, - 1, 0)\<rparr>"
    by (simp only: e)
  with s(1,2) show ?thesis by (simp only: simp_thms)
qed

end
