(* ===== verification/Strict_Mode.thy ===== *)
theory Strict_Mode
  imports Viewer
begin

text \<open>
  Mounting under React's strict mode, in which the effects of a component that has just
  been mounted are run a second time: every cleanup is called and every effect is set up
  again, with the state cells and the refs kept. The source does not switch strict mode on
  or off; the application that mounts \<^verbatim>\<open>Experience\<close> does, and the cleanup of line 34 is what
  makes the component safe under it.

  \<^item> \<open>effects_cleanup\<close> calls the cleanup of the interval effect (line 34); the effect
    of \<^verbatim>\<open>CameraManager\<close> returns no cleanup.
  \<^item> \<open>effects_setup\<close> runs the two effects again: the interval is registered anew
    (lines 30 to 32) and the rotation flag is written to the controls (lines 93 to 95).
  \<^item> \<open>strict_mount\<close> is a mount followed by the two.
  \<^item> \<open>observation\<close> is what a user or another script can observe of a viewer: all of
    it but the handles of the intervals, which are names that only the cleanup holds.

  The lemmas: time and the cleanup act on the table of intervals through the intervals
  alone, not through their handles; every event maps viewers with equal observations to
  viewers with equal observations; a strict mount leaves one interval of the component
  and cannot be told from a plain mount, now or after any events.
\<close>

section \<open>The second run of the effects\<close>

definition effects_cleanup :: "viewer \<Rightarrow> viewer" where
  "effects_cleanup s =
     s\<lparr>interval := None,
       browser := (case interval s of None \<Rightarrow> browser s
                   | Some h \<Rightarrow> useEffect_cleanup h (browser s))\<rparr>"

definition effects_setup :: "viewer \<Rightarrow> viewer" where
  "effects_setup s =
     (case useEffect_interval (browser s) of (h, b) \<Rightarrow>
        s\<lparr>interval := Some h, browser := b,
          camera := (camera s)
            \<lparr>orbitControlsRef := cameraManager_effect (isRotating (ui s)) (orbitControlsRef (camera s)),
             effect_deps := Some (isRotating (ui s))\<rparr>\<rparr>)"

definition strict_mount :: "orbit_controls option \<Rightarrow> viewer \<Rightarrow> viewer" where
  "strict_mount ref s = effects_setup (effects_cleanup (mount ref s))"

definition observation ::
    "viewer \<Rightarrow> bool \<times> experience_state \<times> camera_manager \<times> model_object option
      \<times> timer_callback interval list" where
  "observation s = (mounted s, ui s, camera s, modelRef s, map snd (intervals (browser s)))"

section \<open>The table of intervals without its handles\<close>

lemma tick_ms_anonymous:
  "fst (tick_ms t) = map callback (filter fires_now (map snd (intervals t)))"
  "map snd (intervals (snd (tick_ms t))) = map tick_interval (map snd (intervals t))"
  by (simp_all add: tick_ms_def filter_map comp_def)

lemma elapse_anonymous:
  assumes "map snd (intervals t) = map snd (intervals t')"
  shows "fst (elapse n t) = fst (elapse n t') \<and>
         map snd (intervals (snd (elapse n t))) = map snd (intervals (snd (elapse n t')))"
  using assms
proof (induction n arbitrary: t t')
  case 0
  then show ?case by simp
next
  case (Suc n)
  from Suc.prems have now: "fst (tick_ms t) = fst (tick_ms t')"
    by (simp only: tick_ms_anonymous)
  from Suc.prems
  have "map snd (intervals (snd (tick_ms t))) = map snd (intervals (snd (tick_ms t')))"
    by (simp only: tick_ms_anonymous)
  from Suc.IH [OF this] now show ?case by (simp only: elapse_Suc_simps)
qed

lemma own_handle:
  assumes "timers_wf t" and "cycle_intervals t = [(h, p)]" and "e \<in> set (intervals t)"
  shows "fst e \<noteq> h \<longleftrightarrow> callback (snd e) \<noteq> CyclePreset"
proof
  assume "fst e \<noteq> h"
  show "callback (snd e) \<noteq> CyclePreset"
  proof
    assume "callback (snd e) = CyclePreset"
    with assms(3) have "(fst e, period (snd e)) \<in> set (cycle_intervals t)"
      by (auto simp: cycle_intervals_def)
    with assms(2) \<open>fst e \<noteq> h\<close> show False by simp
  qed
next
  assume c: "callback (snd e) \<noteq> CyclePreset"
  from assms(2) have "(h, p) \<in> set (cycle_intervals t)" by simp
  then obtain i where i: "(h, i) \<in> set (intervals t)" "callback i = CyclePreset"
    by (auto simp: cycle_intervals_def)
  show "fst e \<noteq> h"
  proof
    assume "fst e = h"
    with assms(3) have "(h, snd e) \<in> set (intervals t)" by (metis prod.collapse)
    with i(1) assms(1) have "snd e = i"
      by (auto simp: timers_wf_def dest: eq_key_imp_eq_value)
    with c i(2) show False by simp
  qed
qed

lemma cleanup_anonymous:
  assumes "timers_wf t" and "cycle_intervals t = [(h, p)]"
  shows "map snd (intervals (clearInterval h t))
       = filter (\<lambda>i. callback i \<noteq> CyclePreset) (map snd (intervals t))"
proof -
  have "filter (\<lambda>e. fst e \<noteq> h) (intervals t)
      = filter (\<lambda>e. callback (snd e) \<noteq> CyclePreset) (intervals t)"
    by (rule filter_cong [OF refl]) (rule own_handle [OF assms])
  then show ?thesis by (simp add: filter_map comp_def)
qed

section \<open>Events respect the observation\<close>

lemma observation_simps [simp]:
  "observation s = observation s' \<longleftrightarrow>
     mounted s = mounted s' \<and> ui s = ui s' \<and> camera s = camera s' \<and> modelRef s = modelRef s'
     \<and> map snd (intervals (browser s)) = map snd (intervals (browser s'))"
  by (simp add: observation_def)

lemma observation_mount:
  "map snd (intervals (browser s)) = map snd (intervals (browser s'))
    \<Longrightarrow> observation (mount ref s) = observation (mount ref s')"
  by (simp add: mount_def useEffect_interval_def split_beta)

lemma observation_unmount:
  assumes "viewer_ok s" and "viewer_ok s'" and "mounted s" and "observation s = observation s'"
  shows "observation (unmount s) = observation (unmount s')"
proof -
  from assms(1,3) obtain h where h: "interval s = Some h" "cycle_intervals (browser s) = [(h, 2000)]"
    by (auto simp: viewer_ok_def)
  from assms(2-4) obtain h' where h': "interval s' = Some h'" "cycle_intervals (browser s') = [(h', 2000)]"
    by (auto simp: viewer_ok_def)
  from assms(1,2) have wf: "timers_wf (browser s)" "timers_wf (browser s')"
    by (simp_all add: viewer_ok_def)
  have "map snd (intervals (browser (unmount s)))
      = filter (\<lambda>i. callback i \<noteq> CyclePreset) (map snd (intervals (browser s)))"
    using cleanup_anonymous [OF wf(1) h(2)] by (simp add: unmount_def useEffect_cleanup_def h)
  moreover have "map snd (intervals (browser (unmount s')))
      = filter (\<lambda>i. callback i \<noteq> CyclePreset) (map snd (intervals (browser s')))"
    using cleanup_anonymous [OF wf(2) h'(2)] by (simp add: unmount_def useEffect_cleanup_def h')
  ultimately show ?thesis using assms(4) by (simp add: unmount_def)
qed

lemma observation_elapse_ms:
  assumes "observation s = observation s'"
  shows "observation (elapse_ms n s) = observation (elapse_ms n s')"
proof -
  from assms have "map snd (intervals (browser s)) = map snd (intervals (browser s'))" by simp
  from elapse_anonymous [OF this, of n] assms show ?thesis
    by (simp add: elapse_ms_def rerender_def split_beta)
qed

lemma observation_step:
  assumes "viewer_ok s" and "viewer_ok s'" and "observation s = observation s'"
  shows "observation (step rnd e s) = observation (step rnd e s')"
proof (cases e)
  case (Mount ref)
  with assms(3) observation_mount [of s s' ref] show ?thesis by simp
next
  case Unmount
  with assms observation_unmount [of s s'] show ?thesis by simp
next
  case (Elapse n)
  with observation_elapse_ms [OF assms(3)] show ?thesis by simp
qed (use assms(3) in \<open>simp_all add: click_def rerender_def frame_def model_loaded_def\<close>)

lemma observation_run:
  assumes "viewer_ok s" and "viewer_ok s'" and "observation s = observation s'"
  shows "observation (run rnd es s) = observation (run rnd es s')"
  using assms
proof (induction es arbitrary: s s')
  case Nil
  then show ?case by simp
next
  case (Cons e es)
  from Cons.prems have "observation (step rnd e s) = observation (step rnd e s')"
    by (rule observation_step)
  with Cons.prems(1,2) have "observation (run rnd es (step rnd e s)) = observation (run rnd es (step rnd e s'))"
    by (intro Cons.IH viewer_ok_step)
  then show ?case by (simp only: run_simps)
qed

section \<open>A strict mount\<close>

lemma cameraManager_effect_again:
  "(cameraManager_mount r ref)
     \<lparr>orbitControlsRef := cameraManager_effect r (orbitControlsRef (cameraManager_mount r ref)),
      effect_deps := Some r\<rparr> = cameraManager_mount r ref"
  by (simp add: cameraManager_mount_def cameraManager_commit_def deps_changed_def)

lemma strict_mount_simps:
  "mounted (strict_mount ref s) = True"
  "ui (strict_mount ref s) = initial_state"
  "modelRef (strict_mount ref s) = None"
  "interval (strict_mount ref s) = Some (Suc (next_handle (browser s)))"
  "camera (strict_mount ref s) = cameraManager_mount (isRotating initial_state) ref"
  by (simp_all add: strict_mount_def effects_setup_def effects_cleanup_def mount_def
      useEffect_interval_def useEffect_cleanup_def split_beta cameraManager_effect_again)

lemma browser_strict_mount:
  assumes "timers_wf t" and "browser s = t"
  shows "intervals (browser (strict_mount ref s))
       = intervals t @ [(Suc (next_handle t), \<lparr>callback = CyclePreset, period = 2000, due = 2000\<rparr>)]"
    and "next_handle (browser (strict_mount ref s)) = Suc (Suc (next_handle t))"
  using clearInterval_setInterval [OF assms(1), of CyclePreset 2000] assms(2)
  by (simp_all add: strict_mount_def effects_setup_def effects_cleanup_def mount_def
      useEffect_interval_def useEffect_cleanup_def split_beta)

lemma viewer_ok_strict_mount:
  assumes "viewer_ok s" and "\<not> mounted s"
  shows "viewer_ok (strict_mount ref s)"
proof -
  from assms have wf: "timers_wf (browser s)" and none: "cycle_intervals (browser s) = []"
    by (simp_all add: viewer_ok_def)
  from wf have "timers_wf (browser (strict_mount ref s))"
    by (simp add: strict_mount_def effects_setup_def effects_cleanup_def mount_def
        useEffect_interval_def useEffect_cleanup_def split_beta
        timers_wf_setInterval timers_wf_clearInterval)
  moreover have "cycle_intervals (browser (strict_mount ref s)) = [(Suc (next_handle (browser s)), 2000)]"
    using none by (simp add: cycle_intervals_def browser_strict_mount [OF wf refl])
  ultimately show ?thesis
    by (simp add: viewer_ok_def strict_mount_simps experience_inv_initial camera_synced_mount)
qed

lemma observation_strict_mount:
  assumes "timers_wf (browser s)"
  shows "observation (strict_mount ref s) = observation (mount ref s)"
  by (simp add: strict_mount_simps browser_strict_mount [OF assms refl])
     (simp add: mount_def useEffect_interval_def split_beta)

section \<open>Strict mode cannot be observed\<close>

text \<open>
  C17. A mount under strict mode, where the interval effect is set up, cleaned up and set
  up again, leaves a well-formed viewer with one interval of the component, and no
  sequence of later events (clicks, time, frames, unmounts and mounts) tells it from a plain
  mount: the states, the controls, the model and the intervals of the table are the same,
  up to the handle of the interval.
\<close>

theorem strict_mode_unobservable:
  assumes "viewer_ok s" and "\<not> mounted s"
  shows "viewer_ok (strict_mount ref s)
       \<and> cycle_intervals (browser (strict_mount ref s)) = [(Suc (next_handle (browser s)), 2000)]
       \<and> observation (run rnd es (strict_mount ref s)) = observation (run rnd es (mount ref s))"
proof (intro conjI)
  from assms show ok: "viewer_ok (strict_mount ref s)" by (rule viewer_ok_strict_mount)
  then show "cycle_intervals (browser (strict_mount ref s)) = [(Suc (next_handle (browser s)), 2000)]"
    by (simp add: viewer_ok_def strict_mount_simps)
  from assms(1) have "timers_wf (browser s)" by (simp add: viewer_ok_def)
  then have "observation (strict_mount ref s) = observation (mount ref s)"
    by (rule observation_strict_mount)
  with ok viewer_ok_mount [OF assms]
  show "observation (run rnd es (strict_mount ref s)) = observation (run rnd es (mount ref s))"
    by (rule observation_run)
qed

theorem strict_mode_unobservable_witness:
  "viewer_ok (unmounted no_timers) \<and> \<not> mounted (unmounted no_timers)
   \<and> cycle_intervals (browser (strict_mount None (unmounted no_timers))) = [(2, 2000)]
   \<and> observation (run (\<lambda>x. x) [Elapse 2000, UI ZoomInButton, Unmount, Mount None]
          (strict_mount None (unmounted no_timers)))
     = observation (run (\<lambda>x. x) [Elapse 2000, UI ZoomInButton, Unmount, Mount None]
          (mount None (unmounted no_timers)))"
proof -
  have s: "viewer_ok (unmounted no_timers)" "\<not> mounted (unmounted no_timers)"
    by (rule viewer_ok_start) (simp add: unmounted_def)
  have n: "Suc (next_handle (browser (unmounted no_timers))) = 2"
    by (simp add: unmounted_def no_timers_def)
  from strict_mode_unobservable [OF s, of None "\<lambda>x. x" "[Elapse 2000, UI ZoomInButton, Unmount, Mount None]"]
  have "cycle_intervals (browser (strict_mount None (unmounted no_timers))) = [(2, 2000)]"
    and "observation (run (\<lambda>x. x) [Elapse 2000, UI ZoomInButton, Unmount, Mount None]
          (strict_mount None (unmounted no_timers)))
     = observation (run (\<lambda>x. x) [Elapse 2000, UI ZoomInButton, Unmount, Mount None]
          (mount None (unmounted no_timers)))"
    unfolding n by blast+
  with s show ?thesis by (intro conjI)
qed

end
