(* ===== verification/Interleaving.thy ===== *)
theory Interleaving
  imports Viewer
begin

text \<open>
  The order of events. Clicks, timer ticks, frames and the arrival of the model reach the
  component in an order that the browser decides. This theory says which of them may be
  swapped without a change of the final state.

  \<^item> \<open>zoom_button\<close> and \<open>independent\<close> name the pairs of events that act on different
    state cells, or on the same cell in a way that does not depend on the order.
  \<^item> One lemma per pair of operations of \<open>Viewer\<close> (\<open>frame\<close>, \<open>click\<close>, \<open>elapse_ms\<close>,
    \<open>model_loaded\<close>) shows that they commute; time adds up (\<open>elapse_ms_add\<close>).
  \<^item> The theorem lifts this to runs: two adjacent independent events of a run may be
    swapped. The pairs left out need not commute: Zoom In and Zoom Out at a limit
    (\<open>zoom_buttons_order_matters\<close>), a frame and the animation button, a frame and the
    arrival of the model, two frames under an addition that rounds.
\<close>

section \<open>Independent events\<close>

fun zoom_button :: "button \<Rightarrow> bool" where
  "zoom_button ZoomInButton = True"
| "zoom_button ZoomOutButton = True"
| "zoom_button b = False"

fun independent :: "event \<Rightarrow> event \<Rightarrow> bool" where
  "independent (Frame d) (Elapse n) = True"
| "independent (Elapse n) (Frame d) = True"
| "independent (Frame d) (UI b) = (b \<noteq> AnimationButton)"
| "independent (UI b) (Frame d) = (b \<noteq> AnimationButton)"
| "independent (Elapse m) (Elapse n) = True"
| "independent (Elapse n) (UI b) = True"
| "independent (UI b) (Elapse n) = True"
| "independent (UI b) (UI b') = (b = b' \<or> \<not> (zoom_button b \<and> zoom_button b'))"
| "independent (ModelLoaded m) (Elapse n) = True"
| "independent (Elapse n) (ModelLoaded m) = True"
| "independent (ModelLoaded m) (UI b) = True"
| "independent (UI b) (ModelLoaded m) = True"
| "independent e e' = False"

section \<open>The handlers among themselves\<close>

lemma onClick_run_callback:
  "onClick b (run_callback cb u) = run_callback cb (onClick b u)"
  by (cases b; cases cb) (simp_all add: viewer_defs)

lemma onClick_run_callbacks:
  "onClick b (run_callbacks cbs u) = run_callbacks cbs (onClick b u)"
  by (induction cbs arbitrary: u) (simp_all add: onClick_run_callback)

lemma onClick_commute:
  assumes "b = b' \<or> \<not> (zoom_button b \<and> zoom_button b')"
  shows "onClick b (onClick b' u) = onClick b' (onClick b u)"
  using assms by (cases b; cases b') (simp_all add: viewer_defs)

lemma isAnimating_onClick:
  "b \<noteq> AnimationButton \<Longrightarrow> isAnimating (onClick b u) = isAnimating u"
  by (cases b) simp_all

lemma isRotating_onClick:
  "isRotating (onClick b (onClick b' u)) = isRotating (onClick b' (onClick b u))"
  by (cases b; cases b') simp_all

section \<open>The commits of the camera\<close>

lemma cameraManager_commit_idem [simp]:
  "cameraManager_commit r (cameraManager_commit r cm) = cameraManager_commit r cm"
  by (simp add: cameraManager_commit_def)

lemma cameraManager_commit_absorb:
  assumes "camera_synced r0 cm" and "r1 = r0 \<or> r1 = r2"
  shows "cameraManager_commit r2 (cameraManager_commit r1 cm) = cameraManager_commit r2 cm"
  using assms cameraManager_commit_same [OF assms(1)] by auto

section \<open>The operations of the viewer\<close>

lemma elapse_ms_add: "elapse_ms n (elapse_ms m s) = elapse_ms (m + n) s"
  by (simp add: elapse_ms_def rerender_def split_beta elapse_add)

lemma frame_elapse_ms: "frame rnd d (elapse_ms n s) = elapse_ms n (frame rnd d s)"
  by (simp add: elapse_ms_def rerender_def frame_def split_beta)

lemma frame_click:
  "b \<noteq> AnimationButton \<Longrightarrow> frame rnd d (click b s) = click b (frame rnd d s)"
  by (simp add: click_def rerender_def frame_def isAnimating_onClick)

lemma model_loaded_elapse_ms: "model_loaded m (elapse_ms n s) = elapse_ms n (model_loaded m s)"
  by (simp add: elapse_ms_def rerender_def model_loaded_def split_beta)

lemma model_loaded_click: "model_loaded m (click b s) = click b (model_loaded m s)"
  by (simp add: click_def rerender_def model_loaded_def)

lemma click_elapse_ms:
  assumes "camera_synced (isRotating (ui s)) (camera s)" and "mounted s"
  shows "click b (elapse_ms n s) = elapse_ms n (click b s)"
  using assms(2) cameraManager_commit_same [OF assms(1)]
  by (simp add: elapse_ms_def click_def rerender_def split_beta onClick_run_callbacks)

lemma click_click:
  assumes "camera_synced (isRotating (ui s)) (camera s)"
    and "b = b' \<or> \<not> (zoom_button b \<and> zoom_button b')"
  shows "click b (click b' s) = click b' (click b s)"
proof (cases "b = b'")
  case True
  then show ?thesis by simp
next
  case False
  then have r: "isRotating (onClick b (ui s)) = isRotating (ui s)
         \<or> isRotating (onClick b (ui s)) = isRotating (onClick b' (onClick b (ui s)))"
    and r': "isRotating (onClick b' (ui s)) = isRotating (ui s)
         \<or> isRotating (onClick b' (ui s)) = isRotating (onClick b (onClick b' (ui s)))"
    by (cases b; cases b'; simp)+
  from cameraManager_commit_absorb [OF assms(1) r] cameraManager_commit_absorb [OF assms(1) r']
  show ?thesis
    by (simp add: click_def rerender_def onClick_commute [OF assms(2)])
qed

section \<open>Steps and runs\<close>

lemma mounted_ops [simp]:
  "mounted (elapse_ms n s) = mounted s"
  "mounted (click b s) = mounted s"
  "mounted (frame rnd d s) = mounted s"
  "mounted (model_loaded m s) = mounted s"
  by (simp_all add: elapse_ms_def click_def rerender_def frame_def model_loaded_def split_beta)

lemma elapse_ms_unmounted:
  "\<not> mounted s \<Longrightarrow> elapse_ms n s = s\<lparr>browser := snd (elapse n (browser s))\<rparr>"
  by (simp add: elapse_ms_def split_beta)

lemma step_unmounted:
  "\<not> mounted s \<Longrightarrow> no_lifecycle e \<Longrightarrow>
     step rnd e s = s\<lparr>browser := snd (elapse (elapsed_of e) (browser s))\<rparr>"
  by (cases e) (simp_all add: elapse_ms_unmounted)

lemma independent_no_lifecycle:
  "independent e e' \<Longrightarrow> no_lifecycle e \<and> no_lifecycle e'"
  by (cases e; cases e') simp_all

lemma step_commute:
  assumes "viewer_ok s" and "independent e e'"
  shows "step rnd e (step rnd e' s) = step rnd e' (step rnd e s)"
proof (cases "mounted s")
  case False
  from assms(2) have l: "no_lifecycle e" "no_lifecycle e'"
    by (simp_all add: independent_no_lifecycle)
  from False l show ?thesis
    by (simp add: step_unmounted flip: elapse_add) (simp add: add.commute)
next
  case True
  with assms(1) have c: "camera_synced (isRotating (ui s)) (camera s)"
    by (simp add: viewer_ok_def)
  note facts = frame_elapse_ms frame_click model_loaded_elapse_ms model_loaded_click
    click_elapse_ms [OF c True] elapse_ms_add
  from assms(2) True show ?thesis
    by (cases e; cases e') (auto simp: facts add.commute intro: click_click [OF c])
qed

text \<open>
  The pairs that \<open>independent\<close> leaves out are left out for a reason. At the lower limit
  the two zoom buttons do not commute: from 2.5, Zoom In and then Zoom Out ends at 3.5 and
  the other order at 2.5.
\<close>

lemma zoom_buttons_order_matters:
  "zoomLevel (ui (run rnd (Mount None # replicate 3 (UI ZoomInButton) @ [UI ZoomInButton, UI ZoomOutButton])
      (unmounted no_timers))) = 7 / 2"
  "zoomLevel (ui (run rnd (Mount None # replicate 3 (UI ZoomInButton) @ [UI ZoomOutButton, UI ZoomInButton])
      (unmounted no_timers))) = 5 / 2"
  by (simp_all add: numeral_3_eq_3 viewer_op_defs unmounted_def split_beta viewer_defs initial_state_def)

text \<open>
  C18. In a run of the viewer that starts in a well-formed state, two adjacent independent
  events may be swapped: a frame and a timer tick, a frame and a click on any button but
  the animation button, a click and a tick, two ticks, two clicks that are not Zoom In and
  Zoom Out, the arrival of the model and a tick or a click. The final state is the same,
  whatever the events before and after them.
\<close>

theorem independent_events_commute:
  assumes "viewer_ok s" and "independent e e'"
  shows "run rnd (es @ e # e' # es') s = run rnd (es @ e' # e # es') s"
proof -
  from assms(1) have "viewer_ok (run rnd es s)" by (rule viewer_ok_run)
  from step_commute [OF this assms(2), of rnd] show ?thesis by simp
qed

theorem independent_events_commute_witness:
  "viewer_ok (unmounted no_timers) \<and> independent (Elapse 2000) (Frame (16 / 1000))
   \<and> run (\<lambda>x. x) [Mount None, Elapse 2000, Frame (16 / 1000), UI AnimationButton] (unmounted no_timers)
     = run (\<lambda>x. x) [Mount None, Frame (16 / 1000), Elapse 2000, UI AnimationButton] (unmounted no_timers)"
proof -
  have i: "independent (Elapse 2000) (Frame (16 / 1000))" by simp
  from independent_events_commute [OF viewer_ok_start i, of "\<lambda>x. x" "[Mount None]" "[UI AnimationButton]"]
  have "run (\<lambda>x. x) [Mount None, Elapse 2000, Frame (16 / 1000), UI AnimationButton] (unmounted no_timers)
     = run (\<lambda>x. x) [Mount None, Frame (16 / 1000), Elapse 2000, UI AnimationButton] (unmounted no_timers)"
    by (simp only: append.simps)
  with viewer_ok_start i show ?thesis by (intro conjI)
qed

end
