(* ===== verification/Clock.thy ===== *)
theory Clock
  imports Viewer
begin

text \<open>
  One clock for the timers and the frames. The browser's interval and the render loop
  read the same clock: while \<open>ms\<close> milliseconds pass the interval fires as often as it is
  due, and the frame rendered at the end receives the delta \<open>ms / 1000\<close>, the time since
  the last frame in seconds.

  \<^item> \<open>happening\<close> is what the user sees: time passes up to the next frame, or a button is
    pressed. \<open>events_of\<close> and \<open>timeline\<close> give the events of the viewer that it stands for.
  \<^item> \<open>total_ms\<close> is the time of a timeline and \<open>animated_ms\<close> the part of it during which
    the animation flag was set.

  The lemmas give the rotation of the model and the animation flag after a timeline from
  any mounted state; the theorem gives the preset and the rotation as functions of the
  time since the mount.
\<close>

section \<open>Timelines\<close>

datatype happening = Wait nat | Press button

fun events_of :: "happening \<Rightarrow> event list" where
  "events_of (Wait ms) = [Elapse ms, Frame (real ms / 1000)]"
| "events_of (Press b) = [UI b]"

definition timeline :: "happening list \<Rightarrow> event list" where
  "timeline hs = concat (map events_of hs)"

fun total_ms :: "happening list \<Rightarrow> nat" where
  "total_ms [] = 0"
| "total_ms (Wait ms # hs) = ms + total_ms hs"
| "total_ms (Press b # hs) = total_ms hs"

fun animated_ms :: "bool \<Rightarrow> happening list \<Rightarrow> nat" where
  "animated_ms a [] = 0"
| "animated_ms a (Wait ms # hs) = (if a then ms else 0) + animated_ms a hs"
| "animated_ms a (Press b # hs) = animated_ms (if b = AnimationButton then \<not> a else a) hs"

lemma timeline_simps [simp]:
  "timeline [] = []"
  "timeline (h # hs) = events_of h @ timeline hs"
  by (simp_all add: timeline_def)

lemma no_lifecycle_timeline [simp]: "list_all no_lifecycle (timeline hs)"
  by (induction hs rule: total_ms.induct) simp_all

lemma total_elapsed_timeline [simp]: "total_elapsed (timeline hs) = total_ms hs"
  by (induction hs rule: total_ms.induct) simp_all

lemma animated_ms_no_toggle:
  "Press AnimationButton \<notin> set hs \<Longrightarrow> animated_ms True hs = total_ms hs"
  by (induction hs rule: total_ms.induct) auto

section \<open>The model along a timeline\<close>

lemma isAnimating_onClick_if:
  "isAnimating (onClick b u) = (if b = AnimationButton then \<not> isAnimating u else isAnimating u)"
  by (cases b) simp_all

lemma step_happening:
  assumes "mounted s" and "modelRef s = Some m"
  shows "mounted (run (\<lambda>x. x) (events_of h) s)"
    and "isAnimating (ui (run (\<lambda>x. x) (events_of h) s))
         = (if h = Press AnimationButton then \<not> isAnimating (ui s) else isAnimating (ui s))"
    and "modelRef (run (\<lambda>x. x) (events_of h) s)
         = Some (m\<lparr>rotation_y := rotation_y m + real (animated_ms (isAnimating (ui s)) [h]) / 2000\<rparr>)"
  using assms
  by (cases h; simp add: elapse_ms_def click_def rerender_def frame_def split_beta
      isAnimating_onClick_if)+

lemma animated_ms_Cons:
  "animated_ms a (h # hs)
   = animated_ms a [h] + animated_ms (if h = Press AnimationButton then \<not> a else a) hs"
  by (cases h) simp_all

lemma timeline_rotation:
  assumes "mounted s" and "modelRef s = Some m"
  shows "modelRef (run (\<lambda>x. x) (timeline hs) s)
       = Some (m\<lparr>rotation_y := rotation_y m + real (animated_ms (isAnimating (ui s)) hs) / 2000\<rparr>)"
  using assms
proof (induction hs arbitrary: s m)
  case Nil
  then show ?case by simp
next
  case (Cons h hs)
  note st = step_happening [OF Cons.prems, of h]
  from Cons.IH [OF st(1) st(3)]
  have "modelRef (run (\<lambda>x. x) (timeline hs) (run (\<lambda>x. x) (events_of h) s))
      = Some (m\<lparr>rotation_y := rotation_y m + real (animated_ms (isAnimating (ui s)) [h]) / 2000
          + real (animated_ms (if h = Press AnimationButton then \<not> isAnimating (ui s)
                               else isAnimating (ui s)) hs) / 2000\<rparr>)"
    by (simp add: st(2))
  then show ?case
    by (subst animated_ms_Cons) (simp add: add_divide_distrib add.assoc)
qed

section \<open>The view as a function of the time\<close>

lemma timeline_index:
  assumes "viewer_ok s" and "\<not> mounted s"
  shows "currentPresetIndex (ui (run rnd (Mount ref # ModelLoaded m # timeline hs) s))
       = int (total_ms hs div 2000) mod 10"
proof -
  let ?s1 = "mount ref s"
  from assms have wf: "timers_wf (browser s)" and c: "cycle_intervals (browser s) = []"
    by (simp_all add: viewer_ok_def)
  have s1: "mounted ?s1" "ui ?s1 = initial_state" "browser ?s1 = snd (useEffect_interval (browser s))"
    by (simp_all add: mount_def split_beta)
  then have ok: "preset_index_ok (ui ?s1)" by (simp add: preset_index_ok_def)
  have l: "list_all no_lifecycle (ModelLoaded m # timeline hs)" by simp
  from run_no_lifecycle [OF s1(1) l ok, of rnd] s1(2,3) assms(2)
  show ?thesis by (simp add: ticks_after_mount [OF wf c])
qed

text \<open>
  C12. The preset and the model follow one clock. When the component is mounted, the
  model arrives, and then time passes from frame to frame with any clicks in between,
  the preset index is the number of whole periods of 2000 ms since the mount, modulo ten,
  and, under exact arithmetic, the model has turned by one radian for every 2000 ms during
  which the animation flag was set.
\<close>

theorem view_follows_clock:
  assumes "viewer_ok s" and "\<not> mounted s"
  shows "currentPresetIndex (ui (run (\<lambda>x. x) (Mount ref # ModelLoaded m # timeline hs) s))
         = int (total_ms hs div 2000) mod 10
       \<and> modelRef (run (\<lambda>x. x) (Mount ref # ModelLoaded m # timeline hs) s)
         = Some (m\<lparr>rotation_y := rotation_y m + real (animated_ms True hs) / 2000\<rparr>)"
proof
  from assms show "currentPresetIndex (ui (run (\<lambda>x. x) (Mount ref # ModelLoaded m # timeline hs) s))
      = int (total_ms hs div 2000) mod 10"
    by (rule timeline_index)
  let ?s = "run (\<lambda>x. x) [Mount ref, ModelLoaded m] s"
  from assms(2) have s: "mounted ?s" "modelRef ?s = Some m" "isAnimating (ui ?s)"
    by (simp_all add: mount_def model_loaded_def split_beta initial_state_def)
  from timeline_rotation [OF s(1,2), of hs] s(3)
  show "modelRef (run (\<lambda>x. x) (Mount ref # ModelLoaded m # timeline hs) s)
      = Some (m\<lparr>rotation_y := rotation_y m + real (animated_ms True hs) / 2000\<rparr>)"
    by simp
qed

theorem view_follows_clock_witness:
  "viewer_ok (unmounted no_timers) \<and> \<not> mounted (unmounted no_timers)
   \<and> currentPresetIndex (ui (run (\<lambda>x. x)
        (Mount None # ModelLoaded \<lparr>rotation_x = 0, rotation_y = 0, rotation_z = 0, object_position = (0, - 1, 0)\<rparr>
          # timeline [Wait 1500, Press AnimationButton, Wait 1000, Press AnimationButton, Wait 2500])
        (unmounted no_timers))) = 2
   \<and> modelRef (run (\<lambda>x. x)
        (Mount None # ModelLoaded \<lparr>rotation_x = 0, rotation_y = 0, rotation_z = 0, object_position = (0, - 1, 0)\<rparr>
          # timeline [Wait 1500, Press AnimationButton, Wait 1000, Press AnimationButton, Wait 2500])
        (unmounted no_timers))
     = Some \<lparr>rotation_x = 0, rotation_y = 2, rotation_z = 0, object_position = (0, - 1, 0)\<rparr>"
proof -
  let ?m = "\<lparr>rotation_x = 0, rotation_y = 0, rotation_z = 0, object_position = (0, - 1, 0)\<rparr>"
  let ?hs = "[Wait 1500, Press AnimationButton, Wait 1000, Press AnimationButton, Wait 2500]"
  have s: "viewer_ok (unmounted no_timers)" "\<not> mounted (unmounted no_timers)"
    by (rule viewer_ok_start) (simp add: unmounted_def)
  have e: "int (total_ms ?hs div 2000) mod 10 = 2"
    "?m\<lparr>rotation_y := rotation_y ?m + real (animated_ms True ?hs) / 2000\<rparr>
      = \<lparr>rotation_x = 0, rotation_y = 2, rotation_z = 0, object_position = (0, - 1, 0)\<rparr>"
    by simp_all
  from view_follows_clock [OF s, of None ?m ?hs] s show ?thesis
    unfolding e by (intro conjI) blast+
qed

end
