(* ===== verification/Late_Timers.thy ===== *)
theory Late_Timers
  imports Timers "HOL-Library.Sublist"
begin

text \<open>
  Timers that are late. A browser runs the callback of an interval no sooner than the
  interval is due, and it may run it later (the event loop is busy), or not at all
  (the timers of a tab in the background are throttled and their firings coalesced). The
  theory \<open>Timers\<close> is the schedule without lateness; this theory adds the queue of
  firings that are due and have not run yet, and lets the browser choose.

  \<^item> \<open>'cb tasks\<close> is the queue: the handle and the callback of every firing that is due.
  \<^item> \<open>due_now\<close> lists the firings that become due in the current millisecond, and
    \<open>cancel\<close> is what \<^verbatim>\<open>clearInterval\<close> does to the queue: a firing of a cleared interval
    never runs. \<open>tasks_wf\<close> says that every queued firing belongs to an interval of the
    table (\<open>firings_of\<close>).
  \<^item> \<open>late_ms\<close> is one millisecond: the table advances as in \<open>tick_ms\<close>, the firings that
    are due join the queue, and the browser takes any prefix of the queue, runs any
    subsequence of it in order and drops the rest of the prefix. A browser that does not
    drop (\<open>drops\<close> is false) runs the whole prefix.
  \<^item> \<open>late_elapse\<close> is \<open>n\<close> such milliseconds.

  The lemmas: the schedule without lateness is one of the late schedules; the table does
  not depend on the choices of the browser; every callback that runs belongs to a queued
  firing or to an interval of the table; lateness never lets a callback run more often
  than it runs without lateness; and a browser that does not drop runs every firing of
  the exact schedule that is not in the queue.
\<close>

section \<open>The queue of firings\<close>

type_synonym 'cb tasks = "(nat \<times> 'cb) list"

definition due_now :: "'cb timers \<Rightarrow> 'cb tasks" where
  "due_now t = map (\<lambda>e. (fst e, callback (snd e))) (filter (fires_now \<circ> snd) (intervals t))"

definition cancel :: "nat \<Rightarrow> 'cb tasks \<Rightarrow> 'cb tasks" where
  "cancel h q = filter (\<lambda>e. fst e \<noteq> h) q"

definition firings_of :: "'cb timers \<Rightarrow> 'cb tasks" where
  "firings_of t = map (\<lambda>e. (fst e, callback (snd e))) (intervals t)"

definition tasks_wf :: "'cb timers \<Rightarrow> 'cb tasks \<Rightarrow> bool" where
  "tasks_wf t q \<longleftrightarrow> set q \<subseteq> set (firings_of t)"

section \<open>Time with a browser that chooses\<close>

inductive late_ms ::
    "bool \<Rightarrow> 'cb timers \<Rightarrow> 'cb tasks \<Rightarrow> 'cb list \<Rightarrow> 'cb timers \<Rightarrow> 'cb tasks \<Rightarrow> bool"
  for drops :: bool where
  late_msI:
    "q @ due_now t = taken @ rest \<Longrightarrow> subseq chosen taken \<Longrightarrow> drops \<or> chosen = taken
      \<Longrightarrow> late_ms drops t q (map snd chosen) (snd (tick_ms t)) rest"

inductive late_elapse ::
    "bool \<Rightarrow> nat \<Rightarrow> 'cb timers \<Rightarrow> 'cb tasks \<Rightarrow> 'cb list \<Rightarrow> 'cb timers \<Rightarrow> 'cb tasks \<Rightarrow> bool"
  for drops :: bool where
  late_elapse_0: "late_elapse drops 0 t q [] t q"
| late_elapse_Suc:
    "late_ms drops t q fired t' q' \<Longrightarrow> late_elapse drops n t' q' fired' t'' q''
      \<Longrightarrow> late_elapse drops (Suc n) t q (fired @ fired') t'' q''"

inductive_cases late_msE: "late_ms drops t q fired t' q'"
inductive_cases late_elapse_0E [elim!]: "late_elapse drops 0 t q fired t' q'"
inductive_cases late_elapse_SucE [elim!]: "late_elapse drops (Suc n) t q fired t' q'"

code_pred late_ms .
code_pred late_elapse .

section \<open>The schedule without lateness is a late schedule\<close>

lemma map_snd_due_now [simp]: "map snd (due_now t) = fst (tick_ms t)"
  by (simp add: due_now_def comp_def)

lemma map_fst_due_now: "set (map fst (due_now t)) \<subseteq> fst ` set (intervals t)"
  by (auto simp: due_now_def)

lemma exact_late_ms: "late_ms drops t [] (fst (tick_ms t)) (snd (tick_ms t)) []"
  using late_msI [of "[]" t "due_now t" "[]" "due_now t" drops] by simp

lemma exact_late_elapse: "late_elapse drops n t [] (fst (elapse n t)) (snd (elapse n t)) []"
proof (induction n arbitrary: t)
  case 0
  show ?case by (simp add: late_elapse_0)
next
  case (Suc n)
  from exact_late_ms Suc.IH show ?case
    unfolding elapse_Suc_simps by (rule late_elapse_Suc)
qed

text \<open>
  The other extreme: a browser that takes every firing off the queue and runs none, as
  for a tab that stays in the background.
\<close>

lemma dropped_late_ms: "late_ms True t q [] (snd (tick_ms t)) []"
  using late_msI [of q t "q @ due_now t" "[]" "[]" True] by simp

lemma dropped_late_elapse: "late_elapse True (Suc n) t q [] (snd (elapse (Suc n) t)) []"
proof (induction n arbitrary: t q)
  case 0
  from late_elapse_Suc [OF dropped_late_ms late_elapse_0] show ?case by simp
next
  case (Suc n)
  from late_elapse_Suc [OF dropped_late_ms Suc.IH] show ?case by simp
qed

text \<open>
  Between the two: a browser that runs nothing and drops nothing, so that every firing of
  the exact schedule waits in the queue (\<open>due_during\<close>).
\<close>

primrec due_during :: "nat \<Rightarrow> 'cb timers \<Rightarrow> 'cb tasks" where
  "due_during 0 t = []"
| "due_during (Suc n) t = due_now t @ due_during n (snd (tick_ms t))"

lemma map_snd_due_during: "map snd (due_during n t) = fst (elapse n t)"
  by (induction n arbitrary: t) simp_all

lemma held_late_ms: "late_ms drops t q [] (snd (tick_ms t)) (q @ due_now t)"
  using late_msI [of q t "[]" "q @ due_now t" "[]" drops] by simp

lemma held_late_elapse: "late_elapse drops n t q [] (snd (elapse n t)) (q @ due_during n t)"
proof (induction n arbitrary: t q)
  case 0
  show ?case by (simp add: late_elapse_0)
next
  case (Suc n)
  from late_elapse_Suc [OF held_late_ms Suc.IH] show ?case by simp
qed

section \<open>The table under lateness\<close>

lemma late_ms_table: "late_ms drops t q fired t' q' \<Longrightarrow> t' = snd (tick_ms t)"
  by (erule late_msE)

lemma late_elapse_table: "late_elapse drops n t q fired t' q' \<Longrightarrow> t' = snd (elapse n t)"
  by (induction rule: late_elapse.induct) (auto dest: late_ms_table)

section \<open>What runs was due\<close>

lemma subseq_set: "subseq xs ys \<Longrightarrow> set xs \<subseteq> set ys"
  by (auto elim: list_emb_set)

lemma subseq_count_list: "subseq xs ys \<Longrightarrow> count_list xs x \<le> count_list ys x"
  by (induction rule: list_emb.induct) simp_all

lemma count_list_map_append:
  "count_list (map f (xs @ ys)) x = count_list (map f xs) x + count_list (map f ys) x"
  by simp

lemma late_ms_count:
  assumes "late_ms drops t q fired t' q'"
  shows "count_list fired cb + count_list (map snd q') cb
       \<le> count_list (map snd q) cb + count_list (fst (tick_ms t)) cb"
  using assms
proof (cases rule: late_ms.cases)
  case (late_msI taken chosen)
  from late_msI(4) have "subseq (map snd chosen) (map snd taken)" by (rule subseq_map)
  then have "count_list (map snd chosen) cb \<le> count_list (map snd taken) cb"
    by (rule subseq_count_list)
  moreover have "count_list (map snd taken) cb + count_list (map snd q') cb
      = count_list (map snd q) cb + count_list (map snd (due_now t)) cb"
    using arg_cong [OF late_msI(3), of "\<lambda>xs. count_list (map snd xs) cb"]
    by (simp only: count_list_map_append)
  ultimately show ?thesis using late_msI(1) by simp
qed

lemma late_ms_count_eq:
  assumes "late_ms False t q fired t' q'"
  shows "count_list fired cb + count_list (map snd q') cb
       = count_list (map snd q) cb + count_list (fst (tick_ms t)) cb"
  using assms
proof (cases rule: late_ms.cases)
  case (late_msI taken chosen)
  from late_msI(5) have "chosen = taken" by simp
  moreover have "count_list (map snd taken) cb + count_list (map snd q') cb
      = count_list (map snd q) cb + count_list (map snd (due_now t)) cb"
    using arg_cong [OF late_msI(3), of "\<lambda>xs. count_list (map snd xs) cb"]
    by (simp only: count_list_map_append)
  ultimately show ?thesis using late_msI(1) by simp
qed

lemma late_elapse_count:
  assumes "late_elapse drops n t q fired t' q'"
  shows "count_list fired cb + count_list (map snd q') cb
       \<le> count_list (map snd q) cb + count_list (fst (elapse n t)) cb"
  using assms
proof (induction rule: late_elapse.induct)
  case (late_elapse_0 t q)
  show ?case by simp
next
  case (late_elapse_Suc t q fired t' q' n fired' t'' q'')
  from late_elapse_Suc.hyps(1) have t': "t' = snd (tick_ms t)" by (rule late_ms_table)
  from late_ms_count [OF late_elapse_Suc.hyps(1), of cb] late_elapse_Suc.IH
  show ?case by (simp add: t')
qed

section \<open>Queued firings belong to intervals of the table\<close>

lemma firings_of_tick_ms [simp]: "firings_of (snd (tick_ms t)) = firings_of t"
  by (simp add: firings_of_def comp_def)

lemma firings_of_elapse [simp]: "firings_of (snd (elapse n t)) = firings_of t"
  by (induction n arbitrary: t) simp_all

lemma firings_of_setInterval [simp]:
  "firings_of (snd (setInterval cb ms t)) = firings_of t @ [(next_handle t, cb)]"
  by (simp add: firings_of_def)

lemma firings_of_clearInterval [simp]:
  "firings_of (clearInterval h t) = cancel h (firings_of t)"
  by (simp add: firings_of_def cancel_def filter_map comp_def)

lemma due_now_firings: "set (due_now t) \<subseteq> set (firings_of t)"
  by (auto simp: due_now_def firings_of_def)

lemma tasks_wf_Nil [simp]: "tasks_wf t []"
  by (simp add: tasks_wf_def)

lemma tasks_wf_setInterval [viewer_inv]:
  "tasks_wf t q \<Longrightarrow> tasks_wf (snd (setInterval cb ms t)) q"
  by (auto simp: tasks_wf_def)

lemma tasks_wf_cancel [viewer_inv]: "tasks_wf t q \<Longrightarrow> tasks_wf (clearInterval h t) (cancel h q)"
  by (auto simp: tasks_wf_def cancel_def)

lemma late_ms_tasks_wf:
  assumes "late_ms drops t q fired t' q'" and "tasks_wf t q"
  shows "tasks_wf t' q'" and "set fired \<subseteq> snd ` set (firings_of t)"
proof -
  from assms(1) obtain taken chosen where t': "t' = snd (tick_ms t)"
    and q: "q @ due_now t = taken @ q'" and c: "subseq chosen taken" and f: "fired = map snd chosen"
    by (blast elim: late_msE)
  from assms(2) due_now_firings [of t] have "set (q @ due_now t) \<subseteq> set (firings_of t)"
    by (simp add: tasks_wf_def)
  with q have sub: "set taken \<subseteq> set (firings_of t)" "set q' \<subseteq> set (firings_of t)" by simp_all
  from sub(2) show "tasks_wf t' q'" by (simp add: tasks_wf_def t')
  from c have "set chosen \<subseteq> set taken" by (rule subseq_set)
  with sub(1) show "set fired \<subseteq> snd ` set (firings_of t)" by (auto simp: f)
qed

lemma late_elapse_tasks_wf:
  assumes "late_elapse drops n t q fired t' q'" and "tasks_wf t q"
  shows "tasks_wf t' q' \<and> set fired \<subseteq> snd ` set (firings_of t)"
  using assms
proof (induction rule: late_elapse.induct)
  case (late_elapse_0 t q)
  then show ?case by simp
next
  case (late_elapse_Suc t q fired t' q' n fired' t'' q'')
  note ms = late_ms_tasks_wf [OF late_elapse_Suc.hyps(1) late_elapse_Suc.prems]
  from late_elapse_Suc.hyps(1) have "firings_of t' = firings_of t"
    by (auto dest: late_ms_table)
  with late_elapse_Suc.IH [OF ms(1)] ms(2) show ?case by simp
qed

section \<open>A browser that does not drop\<close>

lemma late_ms_drops: "late_ms drops t q fired t' q' \<Longrightarrow> late_ms True t q fired t' q'"
  by (auto elim!: late_msE intro: late_msI)

lemma late_elapse_drops:
  "late_elapse drops n t q fired t' q' \<Longrightarrow> late_elapse True n t q fired t' q'"
  by (induction rule: late_elapse.induct) (auto intro: late_elapse.intros late_ms_drops)

lemma late_elapse_count_eq:
  assumes "late_elapse False n t q fired t' q'"
  shows "count_list fired cb + count_list (map snd q') cb
       = count_list (map snd q) cb + count_list (fst (elapse n t)) cb"
  using assms
proof (induction rule: late_elapse.induct)
  case (late_elapse_0 t q)
  show ?case by simp
next
  case (late_elapse_Suc t q fired t' q' n fired' t'' q'')
  from late_elapse_Suc.hyps(1) have t': "t' = snd (tick_ms t)" by (rule late_ms_table)
  from late_ms_count_eq [OF late_elapse_Suc.hyps(1), of cb] late_elapse_Suc.IH
  show ?case by (simp add: t')
qed

end
