(* ===== verification/Late_Viewer.thy ===== *)
theory Late_Viewer
  imports Viewer Late_Timers
begin

text \<open>
  The viewer with timers that are late. The events are those of \<open>Viewer\<close>; the
  difference is in the passing of time, where the browser chooses which of the firings
  that are due run (\<open>late_elapse\<close>), and in the unmount, whose cleanup also cancels the
  firings of the interval that are queued.

  \<^item> \<open>deliver\<close> runs the callbacks that the browser chose and renders, as \<open>elapse_ms\<close>
    does for the callbacks of the exact schedule.
  \<^item> \<open>late_step\<close> is one event and \<open>late_run\<close> a sequence of events, as relations between
    configurations: a viewer and the queue of firings.
  \<^item> \<open>late_ok\<close> is the invariant: \<open>viewer_ok\<close>, and every queued firing belongs to an
    interval of the table.

  The relations take the parameter \<open>drops\<close> of \<open>Late_Timers\<close>: whether the browser may
  drop firings or only delay them.

  The lemmas: every run of \<open>Viewer\<close> is a late run; every late step keeps the invariant,
  so the view renders in every configuration that late runs reach; the preset index
  after a mount is the number of callbacks that ran, which is at most the number of whole
  periods that have passed (\<open>late_progress\<close>, \<open>up_to\<close>); and when the browser does not
  drop, the index lags behind the exact schedule by the number of queued firings.
\<close>

section \<open>Configurations and steps\<close>

type_synonym late_viewer = "viewer \<times> timer_callback tasks"

definition deliver :: "timer_callback list \<Rightarrow> timer_callback timers \<Rightarrow> viewer \<Rightarrow> viewer" where
  "deliver fired b s =
     (if mounted s then rerender (run_callbacks fired (ui s)) (s\<lparr>browser := b\<rparr>)
      else s\<lparr>browser := b\<rparr>)"

definition cancel_interval :: "nat option \<Rightarrow> timer_callback tasks \<Rightarrow> timer_callback tasks" where
  "cancel_interval h q = (case h of None \<Rightarrow> q | Some h \<Rightarrow> cancel h q)"

inductive late_step ::
    "(number \<Rightarrow> number) \<Rightarrow> bool \<Rightarrow> late_viewer \<Rightarrow> event \<Rightarrow> late_viewer \<Rightarrow> bool"
  for rnd :: "number \<Rightarrow> number" and drops :: bool where
  late_Elapse:
    "late_elapse drops n (browser s) q fired b q' \<Longrightarrow> late_step rnd drops (s, q) (Elapse n) (deliver fired b s, q')"
| late_Unmount:
    "late_step rnd drops (s, q) Unmount
       (step rnd Unmount s, if mounted s then cancel_interval (interval s) q else q)"
| late_Mount: "late_step rnd drops (s, q) (Mount ref) (step rnd (Mount ref) s, q)"
| late_UI: "late_step rnd drops (s, q) (UI b) (step rnd (UI b) s, q)"
| late_Frame: "late_step rnd drops (s, q) (Frame d) (step rnd (Frame d) s, q)"
| late_ModelLoaded: "late_step rnd drops (s, q) (ModelLoaded m) (step rnd (ModelLoaded m) s, q)"

inductive late_run ::
    "(number \<Rightarrow> number) \<Rightarrow> bool \<Rightarrow> late_viewer \<Rightarrow> event list \<Rightarrow> late_viewer \<Rightarrow> bool"
  for rnd :: "number \<Rightarrow> number" and drops :: bool where
  late_run_Nil: "late_run rnd drops c [] c"
| late_run_Cons: "late_step rnd drops c e c' \<Longrightarrow> late_run rnd drops c' es c'' \<Longrightarrow> late_run rnd drops c (e # es) c''"

inductive_cases late_step_ElapseE: "late_step rnd drops (s, q) (Elapse n) c"
inductive_cases late_step_UnmountE: "late_step rnd drops (s, q) Unmount c"
inductive_cases late_step_MountE: "late_step rnd drops (s, q) (Mount ref) c"
inductive_cases late_step_UIE: "late_step rnd drops (s, q) (UI b) c"
inductive_cases late_step_FrameE: "late_step rnd drops (s, q) (Frame d) c"
inductive_cases late_step_ModelLoadedE: "late_step rnd drops (s, q) (ModelLoaded m) c"
inductive_cases late_run_NilE [elim!]: "late_run rnd drops c [] c'"
inductive_cases late_run_ConsE [elim!]: "late_run rnd drops c (e # es) c'"

lemmas late_stepE =
  late_step_ElapseE late_step_UnmountE late_step_MountE late_step_UIE late_step_FrameE
  late_step_ModelLoadedE

definition late_ok :: "late_viewer \<Rightarrow> bool" where
  "late_ok c \<longleftrightarrow> viewer_ok (fst c) \<and> tasks_wf (browser (fst c)) (snd c)"

section \<open>Every run of the viewer is a late run\<close>

lemma elapse_ms_deliver:
  "elapse_ms n s = deliver (fst (elapse n (browser s))) (snd (elapse n (browser s))) s"
  by (simp add: elapse_ms_def deliver_def split_beta)

lemma cancel_interval_simps [simp]:
  "cancel_interval None q = q"
  "cancel_interval (Some h) q = cancel h q"
  "cancel_interval i [] = []"
  by (simp_all add: cancel_interval_def cancel_def split: option.split)

lemma exact_late_step: "late_step rnd drops (s, []) e (step rnd e s, [])"
proof (cases e)
  case (Elapse n)
  from late_Elapse [where s = s and q = "[]" and n = n, OF exact_late_elapse] show ?thesis
    by (simp add: Elapse elapse_ms_deliver)
next
  case Unmount
  from late_Unmount [of rnd drops s "[]"] show ?thesis
    by (cases "mounted s") (simp_all add: Unmount)
qed (simp_all only: late_step.intros)

lemma exact_late_run: "late_run rnd drops (s, []) es (run rnd es s, [])"
proof (induction es arbitrary: s)
  case Nil
  show ?case by (simp add: late_run_Nil)
next
  case (Cons e es)
  from exact_late_step Cons.IH show ?case
    unfolding run_simps by (rule late_run_Cons)
qed

section \<open>Every late step keeps the invariant\<close>

lemma browser_deliver [simp]: "browser (deliver fired b s) = b"
  by (simp add: deliver_def rerender_def)

lemma mounted_deliver [simp]: "mounted (deliver fired b s) = mounted s"
  by (simp add: deliver_def rerender_def)

lemma viewer_ok_deliver:
  assumes "viewer_ok s"
  shows "viewer_ok (deliver fired (snd (elapse n (browser s))) s)"
proof -
  let ?b = "snd (elapse n (browser s))"
  from assms have "timers_wf ?b" by (simp add: viewer_ok_def timers_wf_elapse)
  with assms have ok: "viewer_ok (s\<lparr>browser := ?b\<rparr>)" by (intro viewer_ok_browser) simp_all
  show ?thesis
  proof (cases "mounted s")
    case True
    from assms have "experience_inv (run_callbacks fired (ui s))"
      by (simp add: viewer_ok_def viewer_inv)
    with ok True have "viewer_ok (rerender (run_callbacks fired (ui s)) (s\<lparr>browser := ?b\<rparr>))"
      by (intro viewer_ok_rerender) simp_all
    with True show ?thesis by (simp add: deliver_def)
  next
    case False
    with ok show ?thesis by (simp add: deliver_def)
  qed
qed

lemma late_ok_simps [simp]: "late_ok (s, q) \<longleftrightarrow> viewer_ok s \<and> tasks_wf (browser s) q"
  by (simp add: late_ok_def)

lemma tasks_wf_step:
  assumes "viewer_ok s" and "tasks_wf (browser s) q"
  shows "tasks_wf (browser (step rnd Unmount s)) (if mounted s then cancel_interval (interval s) q else q)"
    and "tasks_wf (browser (step rnd (Mount ref) s)) q"
    and "tasks_wf (browser (step rnd (UI b) s)) q"
    and "tasks_wf (browser (step rnd (Frame d) s)) q"
    and "tasks_wf (browser (step rnd (ModelLoaded m) s)) q"
  using assms
  by (auto simp: viewer_ok_def viewer_op_defs split_beta intro: tasks_wf_cancel tasks_wf_setInterval)

lemma late_ok_step:
  assumes "late_step rnd drops c e c'" and "late_ok c"
  shows "late_ok c'"
  using assms
proof (cases rule: late_step.cases)
  case (late_Elapse n s q fired b q')
  from late_Elapse(4) have b: "b = snd (elapse n (browser s))" by (rule late_elapse_table)
  from late_elapse_tasks_wf [OF late_Elapse(4)] assms(2) late_Elapse(1)
  have "tasks_wf b q'" by simp
  moreover from assms(2) late_Elapse(1) have "viewer_ok (deliver fired b s)"
    unfolding b by (intro viewer_ok_deliver) simp
  ultimately show ?thesis by (simp add: late_Elapse(3))
qed (use assms(2) in \<open>simp_all add: viewer_ok_step tasks_wf_step del: step.simps\<close>)

lemma late_ok_run:
  assumes "late_run rnd drops c es c'" and "late_ok c"
  shows "late_ok c'"
  using assms by (induction rule: late_run.induct) (auto intro: late_ok_step)

section \<open>The preset index under lateness\<close>

text \<open>
  The progress of a mounted viewer over \<open>n\<close> milliseconds: the table is the table of the
  exact schedule, and the preset index has advanced by the number \<open>d\<close> of callbacks that
  ran. Together with the firings still queued, \<open>d\<close> is at most what was queued before
  plus what the exact schedule fires, and equal to it when the browser does not drop
  (\<open>up_to\<close>).
\<close>

definition up_to :: "bool \<Rightarrow> nat \<Rightarrow> nat \<Rightarrow> bool" where
  "up_to drops a b \<longleftrightarrow> (if drops then a \<le> b else a = b)"

definition late_progress :: "bool \<Rightarrow> late_viewer \<Rightarrow> nat \<Rightarrow> late_viewer \<Rightarrow> bool" where
  "late_progress drops c n c' \<longleftrightarrow>
     mounted (fst c') \<and> preset_index_ok (ui (fst c'))
     \<and> browser (fst c') = snd (elapse n (browser (fst c)))
     \<and> (\<exists>d. currentPresetIndex (ui (fst c')) = (currentPresetIndex (ui (fst c)) + int d) mod 10
            \<and> up_to drops (d + count_list (map snd (snd c')) CyclePreset)
                 (count_list (map snd (snd c)) CyclePreset
                  + count_list (fst (elapse n (browser (fst c)))) CyclePreset))"

lemma up_to_refl [simp]: "up_to drops a a"
  by (simp add: up_to_def)

lemma up_to_le: "up_to drops a b \<Longrightarrow> a \<le> b"
  by (simp add: up_to_def split: if_splits)

lemma up_to_False [simp]: "up_to False a b \<longleftrightarrow> a = b"
  by (simp add: up_to_def)

lemma up_to_chain:
  assumes "up_to drops (d + p') (p + x)" and "up_to drops (d' + p'') (p' + x')"
  shows "up_to drops (d + d' + p'') (p + (x + x'))"
  using assms by (auto simp: up_to_def)

lemma late_elapse_up_to:
  assumes "late_elapse drops n t q fired t' q'"
  shows "up_to drops (count_list fired cb + count_list (map snd q') cb)
           (count_list (map snd q) cb + count_list (fst (elapse n t)) cb)"
proof (cases drops)
  case True
  with late_elapse_count [OF assms, of cb] show ?thesis by (simp add: up_to_def)
next
  case False
  with late_elapse_count_eq [of n t q fired t' q' cb] assms show ?thesis by simp
qed

lemma late_progress_refl:
  assumes "mounted (fst c)" and "preset_index_ok (ui (fst c))"
  shows "late_progress drops c 0 c"
proof -
  from assms(2) have "currentPresetIndex (ui (fst c)) = (currentPresetIndex (ui (fst c)) + int 0) mod 10"
    by (simp add: preset_index_ok_def)
  with assms show ?thesis unfolding late_progress_def by (intro conjI exI [of _ 0]) simp_all
qed

lemma late_progress_trans:
  assumes "late_progress drops c m c'" and "late_progress drops c' n c''"
  shows "late_progress drops c (m + n) c''"
proof -
  from assms(1) obtain d where b: "browser (fst c') = snd (elapse m (browser (fst c)))"
    and d: "currentPresetIndex (ui (fst c')) = (currentPresetIndex (ui (fst c)) + int d) mod 10"
      "up_to drops (d + count_list (map snd (snd c')) CyclePreset)
         (count_list (map snd (snd c)) CyclePreset
          + count_list (fst (elapse m (browser (fst c)))) CyclePreset)"
    by (auto simp: late_progress_def)
  from assms(2) obtain d' where ok: "mounted (fst c'')" "preset_index_ok (ui (fst c''))"
    and b': "browser (fst c'') = snd (elapse n (browser (fst c')))"
    and d': "currentPresetIndex (ui (fst c'')) = (currentPresetIndex (ui (fst c')) + int d') mod 10"
      "up_to drops (d' + count_list (map snd (snd c'')) CyclePreset)
         (count_list (map snd (snd c')) CyclePreset
          + count_list (fst (elapse n (browser (fst c')))) CyclePreset)"
    by (auto simp: late_progress_def)
  have "currentPresetIndex (ui (fst c'')) = (currentPresetIndex (ui (fst c)) + int (d + d')) mod 10"
    by (simp add: d(1) d'(1) mod_simps ac_simps)
  moreover from up_to_chain [OF d(2) d'(2)]
  have "up_to drops (d + d' + count_list (map snd (snd c'')) CyclePreset)
      (count_list (map snd (snd c)) CyclePreset
        + count_list (fst (elapse (m + n) (browser (fst c)))) CyclePreset)"
    by (simp add: elapse_add b)
  ultimately show ?thesis
    unfolding late_progress_def using ok b b' by (intro conjI exI [of _ "d + d'"]) (simp_all add: elapse_add)
qed

lemma late_progress_step:
  assumes "late_step rnd drops c e c'" and "mounted (fst c)" and "no_lifecycle e"
    and "preset_index_ok (ui (fst c))"
  shows "late_progress drops c (elapsed_of e) c'"
  using assms(1)
proof (cases rule: late_step.cases)
  case (late_Elapse n s q fired b q')
  from late_Elapse(4) have b: "b = snd (elapse n (browser s))" by (rule late_elapse_table)
  from assms(2,4) late_Elapse(1)
  have "currentPresetIndex (ui (deliver fired b s))
      = (currentPresetIndex (ui s) + int (count_list fired CyclePreset)) mod 10"
    and "preset_index_ok (ui (deliver fired b s))"
    by (simp_all add: deliver_def rerender_def index_after_callbacks preset_index_ok_run_callbacks)
  with late_elapse_up_to [OF late_Elapse(4), of CyclePreset] assms(2) late_Elapse(1) show ?thesis
    unfolding late_progress_def late_Elapse(2,3)
    by (intro conjI exI [of _ "count_list fired CyclePreset"]) (simp_all add: b)
next
  case (late_Unmount s q)
  with assms(3) show ?thesis by simp
next
  case (late_Mount s q ref)
  with assms(3) show ?thesis by simp
next
  case (late_UI s q b)
  with step_no_lifecycle [of s "UI b" rnd] assms(2,4) show ?thesis
    unfolding late_progress_def by (intro conjI exI [of _ 0]) (simp_all del: step.simps)
next
  case (late_Frame s q d)
  with step_no_lifecycle [of s "Frame d" rnd] assms(2,4) show ?thesis
    unfolding late_progress_def by (intro conjI exI [of _ 0]) (simp_all del: step.simps)
next
  case (late_ModelLoaded s q m)
  with step_no_lifecycle [of s "ModelLoaded m" rnd] assms(2,4) show ?thesis
    unfolding late_progress_def by (intro conjI exI [of _ 0]) (simp_all del: step.simps)
qed

lemma late_progress_run:
  assumes "late_run rnd drops c es c'" and "mounted (fst c)" and "list_all no_lifecycle es"
    and "preset_index_ok (ui (fst c))"
  shows "late_progress drops c (total_elapsed es) c'"
  using assms
proof (induction rule: late_run.induct)
  case (late_run_Nil c)
  then show ?case by (simp add: late_progress_refl)
next
  case (late_run_Cons c e c' es c'')
  from late_run_Cons.prems have e: "no_lifecycle e" and es: "list_all no_lifecycle es" by simp_all
  from late_run_Cons.hyps(1) late_run_Cons.prems(1) e late_run_Cons.prems(3)
  have p: "late_progress drops c (elapsed_of e) c'" by (rule late_progress_step)
  then have "mounted (fst c')" "preset_index_ok (ui (fst c'))" by (simp_all add: late_progress_def)
  then have "late_progress drops c' (total_elapsed es) c''" using es by (intro late_run_Cons.IH)
  with p show ?case unfolding total_elapsed_simps by (rule late_progress_trans)
qed

lemma no_cycle_task:
  assumes "tasks_wf t q" and "cycle_intervals t = []"
  shows "count_list (map snd q) CyclePreset = 0"
proof -
  from assms(2) have "CyclePreset \<notin> snd ` set (firings_of t)"
    by (auto simp: cycle_intervals_def firings_of_def filter_empty_conv)
  with assms(1) have "CyclePreset \<notin> set (map snd q)" by (auto simp: tasks_wf_def)
  then show ?thesis by (rule count_notin)
qed

text \<open>After a mount from a well-formed configuration.\<close>

lemma late_progress_mount:
  assumes "late_ok (s, q)" and "\<not> mounted s" and "list_all no_lifecycle es"
    and "late_run rnd drops (s, q) (Mount ref # es) c'"
  obtains d where "currentPresetIndex (ui (fst c')) = int d mod 10"
    and "up_to drops (d + count_list (map snd (snd c')) CyclePreset) (total_elapsed es div 2000)"
proof -
  let ?c1 = "(mount ref s, q)"
  from assms(4,2) have run: "late_run rnd drops ?c1 es c'"
    by (auto elim: late_step_MountE)
  from assms(1,2) have wf: "timers_wf (browser s)" and c: "cycle_intervals (browser s) = []"
    and t: "tasks_wf (browser s) q"
    by (simp_all add: viewer_ok_def)
  have s1: "mounted (mount ref s)" "ui (mount ref s) = initial_state"
    "browser (mount ref s) = snd (useEffect_interval (browser s))"
    by (simp_all add: mount_def split_beta)
  then have ok: "mounted (fst ?c1)" "preset_index_ok (ui (fst ?c1))"
    by (simp_all add: preset_index_ok_def)
  from late_progress_run [OF run ok(1) assms(3) ok(2)] obtain d
    where "currentPresetIndex (ui (fst c')) = (currentPresetIndex (ui (fst ?c1)) + int d) mod 10"
      and "up_to drops (d + count_list (map snd (snd c')) CyclePreset)
          (count_list (map snd q) CyclePreset
            + count_list (fst (elapse (total_elapsed es) (browser (fst ?c1)))) CyclePreset)"
    by (auto simp: late_progress_def)
  with no_cycle_task [OF t c] have "currentPresetIndex (ui (fst c')) = int d mod 10"
    and "up_to drops (d + count_list (map snd (snd c')) CyclePreset) (total_elapsed es div 2000)"
    by (simp_all add: s1(2,3) ticks_after_mount [OF wf c] initial_state_def)
  then show ?thesis by (rule that)
qed

section \<open>The properties of the viewer that do not need exact timers\<close>

lemma throttled_run:
  assumes "\<not> mounted s"
  shows "late_run rnd True (s, []) [Mount ref, Elapse (Suc n)]
           (deliver [] (snd (elapse (Suc n) (browser (mount ref s)))) (mount ref s), [])"
proof -
  from assms late_Mount [of rnd True s "[]" ref]
  have "late_step rnd True (s, []) (Mount ref) (mount ref s, [])" by simp
  moreover have "late_step rnd True (mount ref s, []) (Elapse (Suc n))
      (deliver [] (snd (elapse (Suc n) (browser (mount ref s)))) (mount ref s), [])"
    using dropped_late_elapse by (rule late_Elapse)
  then have "late_run rnd True (mount ref s, []) [Elapse (Suc n)]
      (deliver [] (snd (elapse (Suc n) (browser (mount ref s)))) (mount ref s), [])"
    using late_run_Nil by (rule late_run_Cons)
  ultimately show ?thesis by (rule late_run_Cons)
qed

lemma held_run:
  assumes "\<not> mounted s"
  shows "late_run rnd drops (s, []) [Mount ref, Elapse n]
           (deliver [] (snd (elapse n (browser (mount ref s)))) (mount ref s),
            due_during n (browser (mount ref s)))"
proof -
  from assms late_Mount [of rnd drops s "[]" ref]
  have "late_step rnd drops (s, []) (Mount ref) (mount ref s, [])" by simp
  moreover have "late_step rnd drops (mount ref s, []) (Elapse n)
      (deliver [] (snd (elapse n (browser (mount ref s)))) (mount ref s),
       due_during n (browser (mount ref s)))"
    using late_Elapse [where s = "mount ref s" and q = "[]" and n = n, OF held_late_elapse] by simp
  then have "late_run rnd drops (mount ref s, []) [Elapse n]
      (deliver [] (snd (elapse n (browser (mount ref s)))) (mount ref s),
       due_during n (browser (mount ref s)))"
    using late_run_Nil by (rule late_run_Cons)
  ultimately show ?thesis by (rule late_run_Cons)
qed



text \<open>
  C13. Lateness is safe. From a well-formed configuration, whatever the browser does with
  the firings that are due, every configuration that a late run reaches is well formed:
  the state cells satisfy their invariant, so the view renders; the table holds exactly
  one interval of the component while it is mounted and none otherwise; and once the
  component is unmounted no firing of its interval is left in the queue.
\<close>

theorem late_timers_are_safe:
  assumes "late_ok c" and "late_run rnd drops c es c'"
  shows "late_ok c'
       \<and> (\<exists>v. render (ui (fst c')) = Inr v)
       \<and> cycle_intervals (browser (fst c')) = expected_intervals (interval (fst c'))
       \<and> (mounted (fst c') \<or> count_list (map snd (snd c')) CyclePreset = 0)"
proof -
  from assms(2,1) have ok: "late_ok c'" by (rule late_ok_run)
  then have v: "viewer_ok (fst c')" and t: "tasks_wf (browser (fst c')) (snd c')"
    by (simp_all add: late_ok_def)
  from v have "preset_index_ok (ui (fst c'))" by (simp add: viewer_ok_def experience_inv_def)
  then obtain w where "render (ui (fst c')) = Inr w" by (rule render_ok)
  then have r: "\<exists>v. render (ui (fst c')) = Inr v" ..
  from v have c: "cycle_intervals (browser (fst c')) = expected_intervals (interval (fst c'))"
    and m: "mounted (fst c') = (interval (fst c') \<noteq> None)"
    by (simp_all add: viewer_ok_def)
  have q: "count_list (map snd (snd c')) CyclePreset = 0" if "\<not> mounted (fst c')"
    using that t c m by (intro no_cycle_task [of "browser (fst c')"]) simp_all
  have "mounted (fst c') \<or> count_list (map snd (snd c')) CyclePreset = 0"
    by (cases "mounted (fst c')") (simp_all add: q)
  with ok r c show ?thesis by (intro conjI)
qed

theorem late_timers_are_safe_witness:
  "late_ok (unmounted no_timers, [])
   \<and> late_run (\<lambda>x. x) True (unmounted no_timers, []) [Mount None, Elapse 2000]
        (deliver [] (snd (elapse 2000 (browser (mount None (unmounted no_timers)))))
           (mount None (unmounted no_timers)), [])
   \<and> (\<exists>v. render (ui (deliver [] (snd (elapse 2000 (browser (mount None (unmounted no_timers)))))
           (mount None (unmounted no_timers)))) = Inr v)"
proof -
  let ?c' = "(deliver [] (snd (elapse 2000 (browser (mount None (unmounted no_timers)))))
           (mount None (unmounted no_timers)), [] :: timer_callback tasks)"
  have ok: "late_ok (unmounted no_timers, [])" by (simp add: viewer_ok_start)
  have "\<not> mounted (unmounted no_timers)" by (simp add: unmounted_def)
  from throttled_run [OF this, of "\<lambda>x. x" None 1999]
  have r: "late_run (\<lambda>x. x) True (unmounted no_timers, []) [Mount None, Elapse 2000] ?c'" by simp
  from late_timers_are_safe [OF ok r] have "\<exists>v. render (ui (fst ?c')) = Inr v" by blast
  then have "\<exists>v. render (ui (deliver [] (snd (elapse 2000 (browser (mount None (unmounted no_timers)))))
           (mount None (unmounted no_timers)))) = Inr v"
    by (simp only: fst_conv)
  with ok r show ?thesis by (intro conjI)
qed

text \<open>
  C14. Lateness never speeds the cycle up. When the component is mounted in a well-formed
  configuration and clicks, frames and time follow, with a browser that runs the firings
  of the interval late or drops them, the preset index is the number of callbacks that
  ran, modulo ten, and that number is at most the number of whole periods of 2000 ms
  since the mount.
\<close>

theorem late_index_bound:
  assumes "late_ok (s, q)" and "\<not> mounted s" and "list_all no_lifecycle es"
    and "late_run rnd drops (s, q) (Mount ref # es) c'"
  shows "\<exists>k\<le>total_elapsed es div 2000. currentPresetIndex (ui (fst c')) = int k mod 10"
proof -
  from assms obtain d where "currentPresetIndex (ui (fst c')) = int d mod 10"
    and "up_to drops (d + count_list (map snd (snd c')) CyclePreset) (total_elapsed es div 2000)"
    by (rule late_progress_mount)
  from this(1) up_to_le [OF this(2)] show ?thesis by (intro exI [of _ d]) simp
qed

theorem late_index_bound_witness:
  "late_ok (unmounted no_timers, []) \<and> \<not> mounted (unmounted no_timers)
   \<and> list_all no_lifecycle [Elapse 2000]
   \<and> late_run (\<lambda>x. x) True (unmounted no_timers, []) [Mount None, Elapse 2000]
        (deliver [] (snd (elapse 2000 (browser (mount None (unmounted no_timers)))))
           (mount None (unmounted no_timers)), [])
   \<and> (\<exists>k\<le>1. currentPresetIndex (ui (deliver [] (snd (elapse 2000 (browser (mount None (unmounted no_timers)))))
           (mount None (unmounted no_timers)))) = int k mod 10)"
proof -
  let ?c' = "(deliver [] (snd (elapse 2000 (browser (mount None (unmounted no_timers)))))
           (mount None (unmounted no_timers)), [] :: timer_callback tasks)"
  have ok: "late_ok (unmounted no_timers, [])" by (simp add: viewer_ok_start)
  have m: "\<not> mounted (unmounted no_timers)" by (simp add: unmounted_def)
  have l: "list_all no_lifecycle [Elapse 2000]" by simp
  from throttled_run [OF m, of "\<lambda>x. x" None 1999]
  have r: "late_run (\<lambda>x. x) True (unmounted no_timers, []) [Mount None, Elapse 2000] ?c'" by simp
  have e: "total_elapsed [Elapse 2000] div 2000 = 1" by simp
  from late_index_bound [OF ok m l r]
  have "\<exists>k\<le>1. currentPresetIndex (ui (deliver [] (snd (elapse 2000 (browser (mount None (unmounted no_timers)))))
           (mount None (unmounted no_timers)))) = int k mod 10"
    unfolding e by (simp only: fst_conv)
  with ok m l r show ?thesis by (intro conjI)
qed

text \<open>
  C23. No firing is lost by a browser that does not drop. When the component is mounted
  in a well-formed configuration and clicks, frames and time follow, with a browser that
  may run the firings of the interval late and drops none, the firings of the interval
  that wait in the queue are at most the whole periods since the mount, and the preset
  index lags behind the exact schedule by exactly their number: once the queue is empty
  the preset is the preset of the exact schedule.
\<close>

theorem queued_firings_are_the_lag:
  assumes "late_ok (s, q)" and "\<not> mounted s" and "list_all no_lifecycle es"
    and "late_run rnd False (s, q) (Mount ref # es) c'"
  shows "count_list (map snd (snd c')) CyclePreset \<le> total_elapsed es div 2000
       \<and> currentPresetIndex (ui (fst c'))
         = int (total_elapsed es div 2000 - count_list (map snd (snd c')) CyclePreset) mod 10"
proof -
  from assms obtain d where i: "currentPresetIndex (ui (fst c')) = int d mod 10"
    and "up_to False (d + count_list (map snd (snd c')) CyclePreset) (total_elapsed es div 2000)"
    by (rule late_progress_mount)
  then have "d + count_list (map snd (snd c')) CyclePreset = total_elapsed es div 2000" by simp
  then have "count_list (map snd (snd c')) CyclePreset \<le> total_elapsed es div 2000"
    and "d = total_elapsed es div 2000 - count_list (map snd (snd c')) CyclePreset"
    by simp_all
  with i show ?thesis by simp
qed

theorem queued_firings_are_the_lag_witness:
  "late_ok (unmounted no_timers, []) \<and> \<not> mounted (unmounted no_timers)
   \<and> list_all no_lifecycle [Elapse 2000]
   \<and> late_run (\<lambda>x. x) False (unmounted no_timers, []) [Mount None, Elapse 2000]
        (deliver [] (snd (elapse 2000 (browser (mount None (unmounted no_timers)))))
           (mount None (unmounted no_timers)),
         due_during 2000 (browser (mount None (unmounted no_timers))))
   \<and> count_list (map snd (due_during 2000 (browser (mount None (unmounted no_timers))))) CyclePreset = 1
   \<and> currentPresetIndex (ui (deliver [] (snd (elapse 2000 (browser (mount None (unmounted no_timers)))))
           (mount None (unmounted no_timers)))) = 0"
proof -
  let ?b = "browser (mount None (unmounted no_timers))"
  let ?c' = "(deliver [] (snd (elapse 2000 ?b)) (mount None (unmounted no_timers)), due_during 2000 ?b)"
  have ok: "late_ok (unmounted no_timers, [])" by (simp add: viewer_ok_start)
  have m: "\<not> mounted (unmounted no_timers)" by (simp add: unmounted_def)
  have l: "list_all no_lifecycle [Elapse 2000]" by simp
  from m have r: "late_run (\<lambda>x. x) False (unmounted no_timers, []) [Mount None, Elapse 2000] ?c'"
    by (rule held_run)
  have b: "?b = snd (useEffect_interval no_timers)"
    by (simp add: mount_def unmounted_def split_beta)
  have n: "count_list (map snd (due_during 2000 ?b)) CyclePreset = 1"
    unfolding b map_snd_due_during by (simp add: ticks_after_mount)
  from queued_firings_are_the_lag [OF ok m l r]
  have "currentPresetIndex (ui (deliver [] (snd (elapse 2000 ?b)) (mount None (unmounted no_timers)))) = 0"
    unfolding snd_conv fst_conv n by simp
  with ok m l r n show ?thesis by (intro conjI)
qed

end
