(* ===== verification/Batching.thy ===== *)
theory Batching
  imports Experience
begin

text \<open>
  The queue of state updates and the scope of closures. A call of a setter does not
  change the cell: React puts the argument on a queue and processes the queue in order
  at the next render. The argument is an updater, which receives the value before it, or
  a value, which replaces it. A handler is created by a render and reads the values of
  the cells as that render saw them; the callback of the interval is created by the
  render of the mount, because its effect has no dependencies (line 35).

  \<^item> \<open>set_state_action\<close> and \<open>basic_state_reducer\<close> are the argument of a setter and what
    React does with it; \<open>update\<close> is a queued call of one of the four setters and
    \<open>process_update\<close> its effect on the cells.
  \<^item> \<open>handleAnimationToggle_calls\<close>, \<open>handleRotationToggle_calls\<close>, \<open>handleZoomIn_calls\<close>,
    \<open>handleZoomOut_calls\<close> and \<open>interval_callback_calls\<close> are the calls of setters that the
    handlers of lines 40 to 43 and the callback of line 31 make, as functions of the
    scope of their closure; \<open>source_calls\<close> dispatches an event to them.
  \<^item> \<open>component\<close> is the component between renders: the cells as the last render saw
    them, the scope of the mount, and the queue. \<open>dispatch\<close> runs a handler, \<open>rerender_cells\<close>
    processes the queue, \<open>committed\<close> is what the next render will see.

  The lemmas are stated for any handlers \<open>calls\<close> whose calls amount to \<open>ui_step\<close> whatever
  the scope, and then discharged for the handlers of the source, which pass updaters.
  Handlers that pass values computed from their scope do not satisfy it: with them the
  interval would stop at the second preset.
\<close>

section \<open>Setters and their arguments\<close>

datatype 'a set_state_action = Updater "'a \<Rightarrow> 'a" | Value 'a

fun basic_state_reducer :: "'a \<Rightarrow> 'a set_state_action \<Rightarrow> 'a" where
  "basic_state_reducer prev (Updater f) = f prev"
| "basic_state_reducer prev (Value v) = v"

datatype update =
    SetCurrentPresetIndex "int set_state_action"
  | SetIsAnimating "bool set_state_action"
  | SetIsRotating "bool set_state_action"
  | SetZoomLevel "number set_state_action"

fun process_update :: "update \<Rightarrow> experience_state \<Rightarrow> experience_state" where
  "process_update (SetCurrentPresetIndex a) = setCurrentPresetIndex (\<lambda>prev. basic_state_reducer prev a)"
| "process_update (SetIsAnimating a) = setIsAnimating (\<lambda>prev. basic_state_reducer prev a)"
| "process_update (SetIsRotating a) = setIsRotating (\<lambda>prev. basic_state_reducer prev a)"
| "process_update (SetZoomLevel a) = setZoomLevel (\<lambda>prev. basic_state_reducer prev a)"

definition process_queue :: "update list \<Rightarrow> experience_state \<Rightarrow> experience_state" where
  "process_queue = fold process_update"

section \<open>The handlers of the source as calls of setters\<close>

definition interval_callback_calls :: "experience_state \<Rightarrow> update list" where
  "interval_callback_calls scope =
     [SetCurrentPresetIndex
        (Updater (\<lambda>prevIndex. (prevIndex + 1) smod int (length environmentPresets)))]"

definition handleAnimationToggle_calls :: "experience_state \<Rightarrow> update list" where
  "handleAnimationToggle_calls scope = [SetIsAnimating (Updater (\<lambda>prev. \<not> prev))]"

definition handleRotationToggle_calls :: "experience_state \<Rightarrow> update list" where
  "handleRotationToggle_calls scope = [SetIsRotating (Updater (\<lambda>prev. \<not> prev))]"

definition handleZoomIn_calls :: "experience_state \<Rightarrow> update list" where
  "handleZoomIn_calls scope = [SetZoomLevel (Updater (\<lambda>prev. max (prev - 1) 2.5))]"

definition handleZoomOut_calls :: "experience_state \<Rightarrow> update list" where
  "handleZoomOut_calls scope = [SetZoomLevel (Updater (\<lambda>prev. min (prev + 1) 7))]"

fun source_calls :: "ui_event \<Rightarrow> experience_state \<Rightarrow> update list" where
  "source_calls (Click AnimationButton) = handleAnimationToggle_calls"
| "source_calls (Click RotationButton) = handleRotationToggle_calls"
| "source_calls (Click ZoomInButton) = handleZoomIn_calls"
| "source_calls (Click ZoomOutButton) = handleZoomOut_calls"
| "source_calls Tick = interval_callback_calls"

text \<open>
  For comparison, handlers that pass the new value, computed from the cells of their
  scope: \<^verbatim>\<open>setZoomLevel(Math.max(zoomLevel - 1, 2.5))\<close> and the like.
\<close>

fun value_calls :: "ui_event \<Rightarrow> experience_state \<Rightarrow> update list" where
  "value_calls (Click AnimationButton) scope = [SetIsAnimating (Value (\<not> isAnimating scope))]"
| "value_calls (Click RotationButton) scope = [SetIsRotating (Value (\<not> isRotating scope))]"
| "value_calls (Click ZoomInButton) scope = [SetZoomLevel (Value (max (zoomLevel scope - 1) 2.5))]"
| "value_calls (Click ZoomOutButton) scope = [SetZoomLevel (Value (min (zoomLevel scope + 1) 7))]"
| "value_calls Tick scope =
     [SetCurrentPresetIndex
        (Value ((currentPresetIndex scope + 1) smod int (length environmentPresets)))]"

section \<open>The component between renders\<close>

record component =
  rendered :: experience_state
  mount_scope :: experience_state
  queue :: "update list"

definition mounted_component :: component where
  "mounted_component = \<lparr>rendered = initial_state, mount_scope = initial_state, queue = []\<rparr>"

definition scope_of :: "ui_event \<Rightarrow> component \<Rightarrow> experience_state" where
  "scope_of e c = (case e of Click b \<Rightarrow> rendered c | Tick \<Rightarrow> mount_scope c)"

definition dispatch ::
    "(ui_event \<Rightarrow> experience_state \<Rightarrow> update list) \<Rightarrow> ui_event \<Rightarrow> component \<Rightarrow> component" where
  "dispatch calls e c = c\<lparr>queue := queue c @ calls e (scope_of e c)\<rparr>"

definition rerender_cells :: "component \<Rightarrow> component" where
  "rerender_cells c = c\<lparr>rendered := process_queue (queue c) (rendered c), queue := []\<rparr>"

definition committed :: "component \<Rightarrow> experience_state" where
  "committed c = process_queue (queue c) (rendered c)"

datatype batched_event = Event ui_event | Render

fun batched_step ::
    "(ui_event \<Rightarrow> experience_state \<Rightarrow> update list) \<Rightarrow> batched_event \<Rightarrow> component \<Rightarrow> component" where
  "batched_step calls (Event e) = dispatch calls e"
| "batched_step calls Render = rerender_cells"

definition batched_run ::
    "(ui_event \<Rightarrow> experience_state \<Rightarrow> update list) \<Rightarrow> batched_event list \<Rightarrow> component \<Rightarrow> component" where
  "batched_run calls = fold (batched_step calls)"

fun events_in :: "batched_event list \<Rightarrow> ui_event list" where
  "events_in [] = []"
| "events_in (Event e # evs) = e # events_in evs"
| "events_in (Render # evs) = events_in evs"

section \<open>Handlers whose calls do not depend on their scope\<close>

lemma process_queue_simps [simp]:
  "process_queue [] s = s"
  "process_queue (u # us) s = process_queue us (process_update u s)"
  "process_queue (us @ us') s = process_queue us' (process_queue us s)"
  by (simp_all add: process_queue_def)

lemma batched_run_simps [simp]:
  "batched_run calls [] c = c"
  "batched_run calls (ev # evs) c = batched_run calls evs (batched_step calls ev c)"
  "batched_run calls (evs @ evs') c = batched_run calls evs' (batched_run calls evs c)"
  by (simp_all add: batched_run_def)

lemma committed_rerender_cells [simp]: "committed (rerender_cells c) = committed c"
  by (simp add: committed_def rerender_cells_def)

lemma queue_rerender_cells [simp]:
  "queue (rerender_cells c) = []" "rendered (rerender_cells c) = committed c"
  by (simp_all add: committed_def rerender_cells_def)

lemma committed_dispatch:
  assumes "\<And>e scope s. process_queue (calls e scope) s = ui_step e s"
  shows "committed (dispatch calls e c) = ui_step e (committed c)"
  by (simp add: committed_def dispatch_def assms)

lemma committed_batched_run:
  assumes "\<And>e scope s. process_queue (calls e scope) s = ui_step e s"
  shows "committed (batched_run calls evs c) = ui_run (events_in evs) (committed c)"
proof (induction evs arbitrary: c rule: events_in.induct)
  case 1
  show ?case by (simp add: ui_run_def)
next
  case (2 e evs)
  then show ?case by (simp add: committed_dispatch [OF assms] ui_run_def)
next
  case (3 evs)
  then show ?case by simp
qed

section \<open>The handlers of the source\<close>

lemmas calls_defs =
  interval_callback_calls_def handleAnimationToggle_calls_def handleRotationToggle_calls_def
  handleZoomIn_calls_def handleZoomOut_calls_def

lemma source_calls_ui_step: "process_queue (source_calls e scope) s = ui_step e s"
  by (cases e rule: source_calls.cases) (simp_all add: calls_defs viewer_defs)

text \<open>
  C15. Batching cannot be observed. With the handlers of the source, which pass updaters
  to the setters, the cells that the next render sees after any sequence of clicks, ticks
  and renders are the cells after the same clicks and ticks applied one by one, wherever
  the renders fall and whichever render created the closures; and after a render the
  cells on the screen are these cells and the queue is empty.
\<close>

theorem batching_unobservable:
  "committed (batched_run source_calls evs c) = ui_run (events_in evs) (committed c)
   \<and> rendered (batched_run source_calls (evs @ [Render]) c) = ui_run (events_in evs) (committed c)
   \<and> queue (batched_run source_calls (evs @ [Render]) c) = []"
  by (simp add: committed_batched_run [of source_calls, OF source_calls_ui_step])

section \<open>Handlers that pass values\<close>

text \<open>
  With handlers that pass values the same is false. Two clicks on Zoom In before a render
  count once, and the callback of the interval, whose scope is the render of the mount,
  sets the index to 1 at every tick.
\<close>

lemma value_calls_lose_a_click:
  "zoomLevel (committed (batched_run value_calls
      [Event (Click ZoomInButton), Event (Click ZoomInButton)] mounted_component)) = 4"
  "zoomLevel (committed (batched_run source_calls
      [Event (Click ZoomInButton), Event (Click ZoomInButton)] mounted_component)) = 3"
  by (simp_all add: committed_def dispatch_def scope_of_def mounted_component_def calls_defs
      viewer_defs)

lemma value_calls_tick:
  assumes "mount_scope c = initial_state" and "queue c = []"
  shows "currentPresetIndex (rendered (batched_run value_calls [Event Tick, Render] c)) = 1"
    and "mount_scope (batched_run value_calls [Event Tick, Render] c) = initial_state"
    and "queue (batched_run value_calls [Event Tick, Render] c) = []"
  using assms
  by (simp_all add: dispatch_def rerender_cells_def scope_of_def viewer_defs)

lemma value_calls_interval_stuck:
  "currentPresetIndex (rendered (batched_run value_calls
      (concat (replicate (Suc k) [Event Tick, Render])) mounted_component)) = 1"
proof -
  have "currentPresetIndex (rendered (batched_run value_calls
          (concat (replicate (Suc k) [Event Tick, Render])) c)) = 1"
    if "mount_scope c = initial_state" and "queue c = []" for c
    using that
  proof (induction k arbitrary: c)
    case 0
    then show ?case using value_calls_tick(1) [of c] by simp
  next
    case (Suc k)
    note t = value_calls_tick [OF Suc.prems]
    from Suc.IH [OF t(2,3)] show ?case by simp
  qed
  then show ?thesis by (simp add: mounted_component_def)
qed

end
