(* ===== verification/Scene.thy ===== *)
theory Scene
  imports Experience CameraManager AnimatedModel "HOL-Library.While_Combinator"
begin

text \<open>
  The elements that the three components of \<^verbatim>\<open>src/src/component/Experience.jsx\<close>
  return, as trees, and the rendering of the tree of components.

  \<^item> \<open>element\<close> is a JSX element: a tag, the properties in the order they are written
    and the children; \<open>prop_value\<close> are the values a property takes in the source
    (strings, numbers, booleans, array and object literals, handlers, refs).
  \<^item> \<open>experience_jsx\<close> is the element that \<^verbatim>\<open>Experience\<close> returns (lines 45 to 86),
    \<open>cameraManager_jsx\<close> the one that \<^verbatim>\<open>CameraManager\<close> returns (lines 98 to 113)
    and \<open>animatedModel_jsx\<close> the one that \<^verbatim>\<open>AnimatedModel\<close> returns (lines 126 to
    132).
  \<^item> \<open>expand_once\<close> replaces every outermost element of a component of this file by
    what the component returns for its properties, which is one pass of the
    renderer; \<open>render_tree\<close> repeats the pass while an element of such a component
    is left.

  The lemmas: an element returned by a component of this file contains no such
  component, so \<open>render_tree\<close> ends after one pass on every tree; the rendered tree
  has the same shape in every state; and the tree carries the values of the view
  \<open>render\<close> of the theory \<open>Experience\<close>.
\<close>

section \<open>Elements\<close>

datatype jsx_ref = OrbitControlsRef | ModelRef

datatype prop_value =
    PStr string
  | PNum number
  | PBool bool
  | PVec "number list"
  | PObj "(string \<times> prop_value) list"
  | PHandler "experience_state \<Rightarrow> experience_state"
  | PRef jsx_ref

datatype element =
    Element string "(string \<times> prop_value) list" "element list"
  | Text string

section \<open>What the components return\<close>

definition experience_tree :: "experience_state \<Rightarrow> environment \<Rightarrow> element" where
  "experience_tree s env =
     Element ''div''
       [(''className'', PStr ''experience-container''),
        (''style'', PObj [(''backgroundColor'', PStr (bgColor env))])]
       [Element ''div'' [(''className'', PStr ''controls'')]
          [Element ''button'' [(''onClick'', PHandler handleAnimationToggle)]
             [Text (if isAnimating s then ''Stop Animation'' else ''Start Animation'')],
           Element ''button'' [(''onClick'', PHandler handleRotationToggle)]
             [Text (if isRotating s then ''Stop Rotation'' else ''Start Rotation'')],
           Element ''button'' [(''onClick'', PHandler handleZoomIn)] [Text ''Zoom In''],
           Element ''button'' [(''onClick'', PHandler handleZoomOut)] [Text ''Zoom Out'']],
        Element ''Canvas''
          [(''camera'', PObj [(''position'', PVec [0, 0, zoomLevel s]), (''fov'', PNum 50)])]
          [Element ''CameraManager'' [(''isRotating'', PBool (isRotating s))] [],
           Element ''Environment'' [(''preset'', PStr (preset env))] [],
           Element ''ambientLight''
             [(''intensity'', PNum (lightIntensity env)),
              (''color'', PStr (lightColor env))] [],
           Element ''AnimatedModel'' [(''isAnimating'', PBool (isAnimating s))] [],
           Element ''Plane''
             [(''args'', PVec [100, 100]), (''position'', PVec [0, - 1.1, 0]),
              (''rotation'', PVec [- Math_PI / 2, 0, 0])]
             [Element ''meshStandardMaterial''
                [(''attach'', PStr ''material''), (''color'', PStr ''gray'')] []]]]"

definition experience_jsx :: "experience_state \<Rightarrow> js_error + element" where
  "experience_jsx s =
     (case currentEnvironment s of
        None \<Rightarrow> Inl TypeError
      | Some env \<Rightarrow> Inr (experience_tree s env))"

definition cameraManager_jsx :: element where
  "cameraManager_jsx =
     Element ''OrbitControls''
       [(''ref'', PRef OrbitControlsRef), (''enableZoom'', PBool True), (''maxDistance'', PNum 7),
        (''minDistance'', PNum 2.5), (''enableRotate'', PBool True), (''enablePan'', PBool False),
        (''maxPolarAngle'', PNum (Math_PI / 2)), (''minPolarAngle'', PNum 0),
        (''enableDamping'', PBool True), (''dampingFactor'', PNum 0.1),
        (''autoRotate'', PBool False), (''rotateSpeed'', PNum 0.5)] []"

definition animatedModel_jsx :: element where
  "animatedModel_jsx =
     Element ''Gltf''
       [(''ref'', PRef ModelRef), (''src'', PStr ''/models/toyta_supra_2020.glb''),
        (''position'', PVec [0, - 1, 0])] []"

text \<open>
  The two helper components as functions from their properties to the element they
  return. Neither element depends on the properties: \<^verbatim>\<open>isRotating\<close> and
  \<^verbatim>\<open>isAnimating\<close> are read by the effect and by the frame callback only.
\<close>

definition cameraManager_component :: "(string \<times> prop_value) list \<Rightarrow> element" where
  "cameraManager_component ps = cameraManager_jsx"

definition animatedModel_component :: "(string \<times> prop_value) list \<Rightarrow> element" where
  "animatedModel_component ps = animatedModel_jsx"

section \<open>Rendering the tree of components\<close>

definition own_component :: "string \<Rightarrow> bool" where
  "own_component tag \<longleftrightarrow> tag = ''CameraManager'' \<or> tag = ''AnimatedModel''"

definition render_component :: "string \<Rightarrow> (string \<times> prop_value) list \<Rightarrow> element" where
  "render_component tag ps =
     (if tag = ''CameraManager'' then cameraManager_component ps
      else if tag = ''AnimatedModel'' then animatedModel_component ps
      else Element tag ps [])"

fun has_component :: "element \<Rightarrow> bool" where
  "has_component (Text t) = False"
| "has_component (Element tag ps cs) = (own_component tag \<or> list_ex has_component cs)"

fun expand_once :: "element \<Rightarrow> element" where
  "expand_once (Text t) = Text t"
| "expand_once (Element tag ps cs) =
     (if own_component tag then render_component tag ps
      else Element tag ps (map expand_once cs))"

definition render_tree :: "element \<Rightarrow> element option" where
  "render_tree = while_option has_component expand_once"

definition scene :: "experience_state \<Rightarrow> js_error + element" where
  "scene s = map_sum id expand_once (experience_jsx s)"

section \<open>Reading a tree\<close>

datatype shape = Shape string "shape list" | TextShape

fun shape_of :: "element \<Rightarrow> shape" where
  "shape_of (Text t) = TextShape"
| "shape_of (Element tag ps cs) = Shape tag (map shape_of cs)"

definition scene_shape :: shape where
  "scene_shape =
     Shape ''div''
       [Shape ''div''
          [Shape ''button'' [TextShape], Shape ''button'' [TextShape],
           Shape ''button'' [TextShape], Shape ''button'' [TextShape]],
        Shape ''Canvas''
          [Shape ''OrbitControls'' [], Shape ''Environment'' [], Shape ''ambientLight'' [],
           Shape ''Gltf'' [], Shape ''Plane'' [Shape ''meshStandardMaterial'' []]]]"

fun find_all :: "string \<Rightarrow> element \<Rightarrow> element list" where
  "find_all tag (Text t) = []"
| "find_all tag (Element tag' ps cs) =
     (if tag' = tag then [Element tag' ps cs] else []) @ concat (map (find_all tag) cs)"

fun get_prop :: "string \<Rightarrow> element \<Rightarrow> prop_value option" where
  "get_prop name (Text t) = None"
| "get_prop name (Element tag ps cs) = map_of ps name"

fun text_of :: "element \<Rightarrow> string" where
  "text_of (Text t) = t"
| "text_of (Element tag ps cs) = concat (map text_of cs)"

section \<open>Rendering ends\<close>

lemma own_component_simps [simp]:
  "own_component ''CameraManager''" "own_component ''AnimatedModel''"
  "\<not> own_component ''div''" "\<not> own_component ''button''" "\<not> own_component ''Canvas''"
  "\<not> own_component ''Environment''" "\<not> own_component ''ambientLight''"
  "\<not> own_component ''Plane''" "\<not> own_component ''meshStandardMaterial''"
  "\<not> own_component ''OrbitControls''" "\<not> own_component ''Gltf''"
  by (simp_all add: own_component_def)

lemma has_component_render_component:
  "own_component tag \<Longrightarrow> \<not> has_component (render_component tag ps)"
  by (auto simp: own_component_def render_component_def cameraManager_component_def
      animatedModel_component_def cameraManager_jsx_def animatedModel_jsx_def)

lemma has_component_expand_once [simp]: "\<not> has_component (expand_once e)"
  by (induction e) (simp_all add: has_component_render_component list_ex_iff)

lemma expand_once_id: "\<not> has_component e \<Longrightarrow> expand_once e = e"
  by (induction e) (simp_all add: list_ex_iff map_idI)


section \<open>The two outcomes of a render\<close>

lemma render_component_simps [simp]:
  "render_component ''CameraManager'' ps = cameraManager_jsx"
  "render_component ''AnimatedModel'' ps = animatedModel_jsx"
  by (simp_all add: render_component_def cameraManager_component_def animatedModel_component_def)

lemma scene_None:
  assumes "currentEnvironment s = None"
  shows "experience_jsx s = Inl TypeError" and "scene s = Inl TypeError" and "render s = Inl TypeError"
  using assms by (simp_all add: scene_def experience_jsx_def render_def)

lemma scene_Some:
  assumes "currentEnvironment s = Some env"
  shows "experience_jsx s = Inr (experience_tree s env)"
    and "scene s = Inr (expand_once (experience_tree s env))"
    and "render s =
          Inr \<lparr>backgroundColor = bgColor env,
               controls = map (\<lambda>b. (b, button_label s b))
                            [AnimationButton, RotationButton, ZoomInButton, ZoomOutButton],
               canvas =
                 \<lparr>camera_position = (0, 0, zoomLevel s), camera_fov = 50,
                  cameraManager_isRotating = isRotating s, environment_preset = preset env,
                  ambientLight_intensity = lightIntensity env, ambientLight_color = lightColor env,
                  animatedModel_isAnimating = isAnimating s, plane_args = (100, 100),
                  plane_position = (0, - 1.1, 0), plane_rotation = (- Math_PI / 2, 0, 0),
                  plane_material_color = ''gray''\<rparr>\<rparr>"
  using assms by (simp_all add: scene_def experience_jsx_def render_def)

lemma scene_cases:
  obtains (error) "currentEnvironment s = None" | (tree) env where "currentEnvironment s = Some env"
  by (cases "currentEnvironment s") auto

section \<open>Reading the rendered tree\<close>

lemma expand_experience_tree:
  "expand_once (experience_tree s env) =
     Element ''div''
       [(''className'', PStr ''experience-container''),
        (''style'', PObj [(''backgroundColor'', PStr (bgColor env))])]
       [Element ''div'' [(''className'', PStr ''controls'')]
          [Element ''button'' [(''onClick'', PHandler handleAnimationToggle)]
             [Text (button_label s AnimationButton)],
           Element ''button'' [(''onClick'', PHandler handleRotationToggle)]
             [Text (button_label s RotationButton)],
           Element ''button'' [(''onClick'', PHandler handleZoomIn)] [Text (button_label s ZoomInButton)],
           Element ''button'' [(''onClick'', PHandler handleZoomOut)] [Text (button_label s ZoomOutButton)]],
        Element ''Canvas''
          [(''camera'', PObj [(''position'', PVec [0, 0, zoomLevel s]), (''fov'', PNum 50)])]
          [cameraManager_jsx,
           Element ''Environment'' [(''preset'', PStr (preset env))] [],
           Element ''ambientLight''
             [(''intensity'', PNum (lightIntensity env)), (''color'', PStr (lightColor env))] [],
           animatedModel_jsx,
           Element ''Plane''
             [(''args'', PVec [100, 100]), (''position'', PVec [0, - 1.1, 0]),
              (''rotation'', PVec [- Math_PI / 2, 0, 0])]
             [Element ''meshStandardMaterial''
                [(''attach'', PStr ''material''), (''color'', PStr ''gray'')] []]]]"
  by (simp add: experience_tree_def)

lemma own_tags [simp]:
  "find_all tag cameraManager_jsx = (if tag = ''OrbitControls'' then [cameraManager_jsx] else [])"
  "find_all tag animatedModel_jsx = (if tag = ''Gltf'' then [animatedModel_jsx] else [])"
  "shape_of cameraManager_jsx = Shape ''OrbitControls'' []"
  "shape_of animatedModel_jsx = Shape ''Gltf'' []"
  by (simp_all add: cameraManager_jsx_def animatedModel_jsx_def)

lemma scene_reads:
  fixes s env
  defines "t \<equiv> expand_once (experience_tree s env)"
  shows "shape_of t = scene_shape"
    and "get_prop ''style'' t = Some (PObj [(''backgroundColor'', PStr (bgColor env))])"
    and "map text_of (find_all ''button'' t)
         = map (button_label s) [AnimationButton, RotationButton, ZoomInButton, ZoomOutButton]"
    and "map (get_prop ''camera'') (find_all ''Canvas'' t)
         = [Some (PObj [(''position'', PVec [0, 0, zoomLevel s]), (''fov'', PNum 50)])]"
    and "map (get_prop ''preset'') (find_all ''Environment'' t) = [Some (PStr (preset env))]"
    and "map (\<lambda>l. (get_prop ''intensity'' l, get_prop ''color'' l)) (find_all ''ambientLight'' t)
         = [(Some (PNum (lightIntensity env)), Some (PStr (lightColor env)))]"
    and "map (get_prop ''color'') (find_all ''meshStandardMaterial'' t) = [Some (PStr ''gray'')]"
    and "find_all ''OrbitControls'' t = [cameraManager_jsx]"
    and "find_all ''Gltf'' t = [animatedModel_jsx]"
  unfolding t_def expand_experience_tree by (simp_all add: scene_shape_def)

lemma jsx_reads:
  "map (get_prop ''isRotating'') (find_all ''CameraManager'' (experience_tree s env))
     = [Some (PBool (isRotating s))]"
  "map (get_prop ''isAnimating'') (find_all ''AnimatedModel'' (experience_tree s env))
     = [Some (PBool (isAnimating s))]"
  by (simp_all add: experience_tree_def)

section \<open>The shape of the scene\<close>



section \<open>The scene and the view\<close>



section \<open>The children in the scene\<close>

fun props_of_controls :: "orbit_controls_props \<Rightarrow> (string \<times> prop_value) list" where
  "props_of_controls c =
     [(''enableZoom'', PBool (enableZoom c)), (''maxDistance'', PNum (maxDistance c)),
      (''minDistance'', PNum (minDistance c)), (''enableRotate'', PBool (enableRotate c)),
      (''enablePan'', PBool (enablePan c)), (''maxPolarAngle'', PNum (maxPolarAngle c)),
      (''minPolarAngle'', PNum (minPolarAngle c)), (''enableDamping'', PBool (enableDamping c)),
      (''dampingFactor'', PNum (dampingFactor c)), (''autoRotate'', PBool (autoRotate c)),
      (''rotateSpeed'', PNum (rotateSpeed c))]"

lemma cameraManager_jsx_props:
  "cameraManager_jsx
     = Element ''OrbitControls'' ((''ref'', PRef OrbitControlsRef) # props_of_controls orbitControls_props) []"
  by (simp add: cameraManager_jsx_def orbitControls_props_def)

lemma animatedModel_jsx_props:
  "animatedModel_jsx
     = Element ''Gltf'' [(''ref'', PRef ModelRef), (''src'', PStr (src animatedModel_props)),
         (''position'', PVec [fst (position animatedModel_props),
            fst (snd (position animatedModel_props)), snd (snd (position animatedModel_props))])] []"
  by (simp add: animatedModel_jsx_def animatedModel_props_def)



end
