(* ===== verification/Abstract_Viewer.thy ===== *)
theory Abstract_Viewer
  imports Experience
begin

text \<open>
  An abstract specification of the state cells of \<^verbatim>\<open>Experience\<close> and the proof that
  the detailed model refines it.

  The abstract machine has finitely many states: a phase of the preset cycle
  (\<open>0\<close> to \<open>9\<close>), a zoom step (\<open>0\<close> to \<open>9\<close>, standing for the levels 2.5, 3, \<dots>, 7),
  and the two flags. A tick advances the phase cyclically; Zoom In and Zoom Out move
  the zoom step by two and saturate at the ends; the toggles flip their flag.
  \<open>abstraction\<close> maps a state of the detailed model to the abstract state it
  represents. The lemmas: the abstraction commutes with every event on states that
  satisfy the invariant (the detailed model refines the abstract machine), it loses no
  information there, the abstract machine stays within its finite range, and
  \<open>concretization\<close> inverts the abstraction, so that the states of the invariant can
  be counted.
\<close>

section \<open>The abstract machine\<close>

record abstract_state =
  phase :: nat
  zoom_step :: nat
  animating :: bool
  rotating :: bool

definition abstract_initial :: abstract_state where
  "abstract_initial = \<lparr>phase = 0, zoom_step = 5, animating = True, rotating = True\<rparr>"

fun abstract_step :: "ui_event \<Rightarrow> abstract_state \<Rightarrow> abstract_state" where
  "abstract_step Tick a = a\<lparr>phase := (phase a + 1) mod 10\<rparr>"
| "abstract_step (Click AnimationButton) a = a\<lparr>animating := \<not> animating a\<rparr>"
| "abstract_step (Click RotationButton) a = a\<lparr>rotating := \<not> rotating a\<rparr>"
| "abstract_step (Click ZoomInButton) a = a\<lparr>zoom_step := zoom_step a - 2\<rparr>"
| "abstract_step (Click ZoomOutButton) a = a\<lparr>zoom_step := min (zoom_step a + 2) 9\<rparr>"

definition abstract_ok :: "abstract_state \<Rightarrow> bool" where
  "abstract_ok a \<longleftrightarrow> phase a < 10 \<and> zoom_step a < 10"

section \<open>The abstraction\<close>

definition abstraction :: "experience_state \<Rightarrow> abstract_state" where
  "abstraction s =
     \<lparr>phase = nat (currentPresetIndex s), zoom_step = nat \<lfloor>2 * zoomLevel s - 5\<rfloor>,
      animating = isAnimating s, rotating = isRotating s\<rparr>"

definition zoom_of_step :: "nat \<Rightarrow> number" where
  "zoom_of_step k = (real k + 5) / 2"

text \<open>The state of the detailed model that an abstract state stands for.\<close>

definition concretization :: "abstract_state \<Rightarrow> experience_state" where
  "concretization a =
     \<lparr>currentPresetIndex = int (phase a), isAnimating = animating a, isRotating = rotating a,
      zoomLevel = zoom_of_step (zoom_step a)\<rparr>"

lemma abstraction_initial: "abstraction initial_state = abstract_initial"
  by (simp add: abstraction_def abstract_initial_def)

lemma two_zoom_of_step: "2 * zoom_of_step k = of_int (int k + 5)"
  by (simp add: zoom_of_step_def)

lemma floor_zoom_of_step [simp]: "\<lfloor>2 * zoom_of_step k\<rfloor> = int k + 5"
  by (simp only: two_zoom_of_step floor_of_int)

lemma zoom_of_step_inj [simp]: "zoom_of_step k = zoom_of_step l \<longleftrightarrow> k = l"
  by (simp add: zoom_of_step_def)

lemma zoom_of_step_in: "max (zoom_of_step k - 1) (5 / 2) = zoom_of_step (k - 2)"
  by (cases "2 \<le> k") (simp_all add: zoom_of_step_def max_def of_nat_diff field_simps)

lemma zoom_of_step_out: "k < 10 \<Longrightarrow> min (zoom_of_step k + 1) 7 = zoom_of_step (min (k + 2) 9)"
  by (cases "k + 2 \<le> 9") (simp_all add: zoom_of_step_def min_def field_simps)

lemma zoom_ok_step:
  assumes "zoom_ok s"
  obtains k :: nat where "k < 10" and "zoomLevel s = zoom_of_step k"
proof -
  from assms have "half_integer (zoomLevel s)" "of_int 5 / 2 \<le> zoomLevel s" "zoomLevel s \<le> of_int 14 / 2"
    by (simp_all add: zoom_ok_def)
  then obtain j :: int where j: "5 \<le> j" "j \<le> 14" "zoomLevel s = of_int j / 2"
    using half_integer_between by blast
  from j(1,2) have "nat (j - 5) < 10" by simp
  moreover from j(1) have "zoomLevel s = zoom_of_step (nat (j - 5))"
    by (simp add: j(3) zoom_of_step_def)
  ultimately show ?thesis by (rule that)
qed

lemma zoom_step_abstraction:
  assumes "zoomLevel s = zoom_of_step k"
  shows "zoom_step (abstraction s) = k"
  using assms by (simp add: abstraction_def)

lemma phase_abstraction:
  assumes "preset_index_ok s"
  shows "phase (abstraction s) < 10" and "int (phase (abstraction s)) = currentPresetIndex s"
  using assms by (simp_all add: abstraction_def preset_index_ok_def nat_less_iff)

lemma abstract_ok_abstraction: "experience_inv s \<Longrightarrow> abstract_ok (abstraction s)"
proof -
  assume inv: "experience_inv s"
  then obtain k :: nat where "k < 10" "zoomLevel s = zoom_of_step k"
    by (auto simp: experience_inv_def elim: zoom_ok_step)
  then have "zoom_step (abstraction s) < 10" by (simp add: zoom_step_abstraction)
  moreover from inv have "phase (abstraction s) < 10"
    by (simp add: phase_abstraction experience_inv_def)
  ultimately show ?thesis by (simp add: abstract_ok_def)
qed

lemma abstraction_ui_step:
  assumes "experience_inv s"
  shows "abstraction (ui_step e s) = abstract_step e (abstraction s)"
proof -
  from assms obtain k :: nat where k: "k < 10" "zoomLevel s = zoom_of_step k"
    by (auto simp: experience_inv_def elim: zoom_ok_step)
  from assms have i: "0 \<le> currentPresetIndex s" "currentPresetIndex s < 10"
    by (simp_all add: experience_inv_def preset_index_ok_def)
  show ?thesis
  proof (cases e)
    case (Click b)
    with k show ?thesis
      by (cases b) (simp_all add: abstraction_def zoom_of_step_in zoom_of_step_out)
  next
    case Tick
    from i have "(currentPresetIndex s + 1) smod 10 = (currentPresetIndex s + 1) mod 10"
      by (intro smod_succ_eq_mod) simp_all
    with Tick i show ?thesis
      by (simp add: abstraction_def nat_mod_distrib nat_add_distrib)
  qed
qed

lemma abstraction_ui_run:
  assumes "experience_inv s"
  shows "abstraction (ui_run es s) = fold abstract_step es (abstraction s)"
  using assms
proof (induction es arbitrary: s)
  case Nil
  then show ?case by simp
next
  case (Cons e es)
  from Cons.prems have "experience_inv (ui_step e s)" by (rule experience_inv_ui_step)
  from Cons.IH [OF this] Cons.prems show ?case by (simp add: abstraction_ui_step)
qed

lemma abstract_ok_step: "abstract_ok a \<Longrightarrow> abstract_ok (abstract_step e a)"
  by (cases "(e, a)" rule: abstract_step.cases) (auto simp: abstract_ok_def)

text \<open>
  C21. The detailed model refines the abstract machine: from every state that
  satisfies the invariant, running any events in the detailed model and then
  abstracting gives the same abstract state as abstracting first and running the
  events in the abstract machine, and that abstract state is within the finite range.
\<close>

theorem refines_abstract_machine:
  assumes "experience_inv s"
  shows "abstraction (ui_run es s) = fold abstract_step es (abstraction s)
       \<and> abstract_ok (fold abstract_step es (abstraction s))"
proof -
  from assms have "abstract_ok (abstraction (ui_run es s))"
    by (intro abstract_ok_abstraction experience_inv_ui_run)
  with assms show ?thesis by (simp add: abstraction_ui_run)
qed

theorem refines_abstract_machine_witness:
  "experience_inv initial_state
   \<and> abstraction (ui_run [Click ZoomOutButton, Tick, Click ZoomOutButton, Click ZoomOutButton,
        Click RotationButton] initial_state)
     = \<lparr>phase = 1, zoom_step = 9, animating = True, rotating = False\<rparr>
   \<and> abstract_ok \<lparr>phase = 1, zoom_step = 9, animating = True, rotating = False\<rparr>"
  using experience_inv_initial
    refines_abstract_machine [OF experience_inv_initial,
      of "[Click ZoomOutButton, Tick, Click ZoomOutButton, Click ZoomOutButton, Click RotationButton]"]
  by (simp add: abstraction_initial abstract_initial_def)



section \<open>The abstraction is a bijection\<close>

text \<open>
  \<open>concretization\<close> is the inverse of \<open>abstraction\<close> between the states of the
  invariant and the states in the range of the abstract machine, of which there are
  four hundred: ten phases, ten zoom steps and two flags.
\<close>

lemma half_integer_zoom_of_step: "half_integer (zoom_of_step k)"
proof -
  have "zoom_of_step k = of_int (int k + 5) / 2" by (simp add: zoom_of_step_def)
  then show ?thesis by (simp only: half_integer_of_int_div2)
qed

lemma zoom_ok_zoom_of_step: "k < 10 \<Longrightarrow> zoom_ok (s\<lparr>zoomLevel := zoom_of_step k\<rparr>)"
  by (simp add: zoom_ok_def half_integer_zoom_of_step) (simp add: zoom_of_step_def)

lemma experience_inv_concretization:
  assumes "abstract_ok a"
  shows "experience_inv (concretization a)" and "abstraction (concretization a) = a"
proof -
  from assms have "zoom_step a < 10" by (simp add: abstract_ok_def)
  then have "zoom_ok (\<lparr>currentPresetIndex = int (phase a), isAnimating = animating a,
      isRotating = rotating a, zoomLevel = 0\<rparr>\<lparr>zoomLevel := zoom_of_step (zoom_step a)\<rparr>)"
    by (rule zoom_ok_zoom_of_step)
  with assms show "experience_inv (concretization a)"
    by (simp add: experience_inv_def preset_index_ok_def concretization_def abstract_ok_def)
  show "abstraction (concretization a) = a"
    by (simp add: abstraction_def concretization_def)
qed

lemma concretization_abstraction:
  assumes "experience_inv s"
  shows "concretization (abstraction s) = s"
proof -
  from assms obtain k :: nat where k: "k < 10" "zoomLevel s = zoom_of_step k"
    by (auto simp: experience_inv_def elim: zoom_ok_step)
  from assms have "0 \<le> currentPresetIndex s" by (simp add: experience_inv_def preset_index_ok_def)
  with k show ?thesis by (simp add: concretization_def abstraction_def)
qed

lemma abstract_states:
  "{a. abstract_ok a} =
     (\<lambda>(p, z, x, y). \<lparr>phase = p, zoom_step = z, animating = x, rotating = y\<rparr>)
       ` ({..<10} \<times> {..<10} \<times> UNIV \<times> UNIV)"
proof (intro set_eqI iffI)
  fix a assume "a \<in> {a. abstract_ok a}"
  then have "(phase a, zoom_step a, animating a, rotating a) \<in> {..<10} \<times> {..<10} \<times> UNIV \<times> UNIV"
    by (simp add: abstract_ok_def)
  moreover have "a = (\<lambda>(p, z, x, y). \<lparr>phase = p, zoom_step = z, animating = x, rotating = y\<rparr>)
      (phase a, zoom_step a, animating a, rotating a)"
    by simp
  ultimately show "a \<in> (\<lambda>(p, z, x, y). \<lparr>phase = p, zoom_step = z, animating = x, rotating = y\<rparr>)
       ` ({..<10} \<times> {..<10} \<times> UNIV \<times> UNIV)"
    by (rule rev_image_eqI)
next
  fix a assume "a \<in> (\<lambda>(p, z, x, y). \<lparr>phase = p, zoom_step = z, animating = x, rotating = y\<rparr>)
       ` ({..<10} \<times> {..<10} \<times> UNIV \<times> UNIV)"
  then show "a \<in> {a. abstract_ok a}" by (auto simp: abstract_ok_def)
qed

lemma card_abstract_states: "card {a. abstract_ok a} = 400"
proof -
  have "inj_on (\<lambda>(p, z, x, y). \<lparr>phase = p, zoom_step = z, animating = x, rotating = y\<rparr>)
      ({..<10} \<times> {..<10} \<times> UNIV \<times> UNIV)"
    by (auto simp: inj_on_def)
  moreover have "card (UNIV :: (bool \<times> bool) set) = 4"
    by (simp only: UNIV_Times_UNIV [symmetric] card_cartesian_product card_UNIV_bool)
  ultimately show ?thesis
    by (simp add: abstract_states card_image card_cartesian_product)
qed

end
