(* ===== verification/Reachable_States.thy ===== *)
theory Reachable_States
  imports Experience
begin

text \<open>
  The invariant of \<^verbatim>\<open>Experience\<close> is exact: the states that clicks and firings of
  the interval reach from the initial state are precisely the states that satisfy
  \<open>experience_inv\<close>, so no stronger invariant of the four state cells exists.

  \<open>path_to s\<close> is a list of events that leads from the initial state to \<open>s\<close>: as many
  firings as the preset index, the zoom clicks of \<open>zoom_path\<close>, and a click on each
  toggle whose flag is cleared in \<open>s\<close>. The lemmas count the events of each kind on
  the path and show that the three groups do not disturb each other.
\<close>

definition path_to :: "experience_state \<Rightarrow> ui_event list" where
  "path_to s =
     replicate (nat (currentPresetIndex s)) Tick @ zoom_path (zoomLevel s)
     @ (if isAnimating s then [] else [Click AnimationButton])
     @ (if isRotating s then [] else [Click RotationButton])"

lemma zoom_path_events: "set (zoom_path z) \<subseteq> {Click ZoomInButton, Click ZoomOutButton}"
  by (auto simp: zoom_path_def Let_def)

lemma count_zoom_path [simp]:
  "count_list (zoom_path z) Tick = 0"
  "count_list (zoom_path z) (Click AnimationButton) = 0"
  "count_list (zoom_path z) (Click RotationButton) = 0"
  using zoom_path_events [of z] by (auto intro!: count_notin)

lemma count_replicate_other [simp]: "x \<noteq> y \<Longrightarrow> count_list (replicate n x) y = 0"
  by (rule count_notin) simp

lemma count_replicate_same [simp]: "count_list (replicate n x) x = n"
  by (induction n) simp_all

lemma count_path_to:
  "count_list (path_to s) Tick = nat (currentPresetIndex s)"
  "count_list (path_to s) (Click AnimationButton) = (if isAnimating s then 0 else 1)"
  "count_list (path_to s) (Click RotationButton) = (if isRotating s then 0 else 1)"
  by (simp_all add: path_to_def)

lemma zoomLevel_ui_run_other:
  assumes "list_all (\<lambda>e. \<not> is_zoom_click e) es"
  shows "zoomLevel (ui_run es s) = zoomLevel s"
  using assms by (induction es arbitrary: s) (simp_all add: zoomLevel_ui_step_other)

lemma zoomLevel_ui_run_cong:
  assumes "zoomLevel s = zoomLevel t"
  shows "zoomLevel (ui_run es s) = zoomLevel (ui_run es t)"
  using assms
proof (induction es arbitrary: s t)
  case Nil
  then show ?case by simp
next
  case (Cons e es)
  from Cons.prems have "zoomLevel (ui_step e s) = zoomLevel (ui_step e t)"
    by (rule zoomLevel_ui_step_cong)
  then have "zoomLevel (ui_run es (ui_step e s)) = zoomLevel (ui_run es (ui_step e t))"
    by (rule Cons.IH)
  then show ?case by simp
qed

lemma zoomLevel_path_to:
  assumes "zoom_ok s"
  shows "zoomLevel (ui_run (path_to s) initial_state) = zoomLevel s"
proof -
  let ?ticks = "replicate (nat (currentPresetIndex s)) Tick"
  let ?toggles = "(if isAnimating s then [] else [Click AnimationButton])
     @ (if isRotating s then [] else [Click RotationButton])"
  have "zoomLevel (ui_run ?ticks initial_state) = zoomLevel initial_state"
    by (rule zoomLevel_ui_run_other) (simp add: list_all_length)
  then have "zoomLevel (ui_run (zoom_path (zoomLevel s)) (ui_run ?ticks initial_state))
      = zoomLevel (ui_run (zoom_path (zoomLevel s)) initial_state)"
    by (rule zoomLevel_ui_run_cong)
  also from assms have "\<dots> = zoomLevel s"
    by (intro zoom_path_reaches) (simp add: zoom_ok_iff)
  finally have "zoomLevel (ui_run (?ticks @ zoom_path (zoomLevel s)) initial_state) = zoomLevel s"
    by simp
  moreover have "zoomLevel (ui_run ?toggles t) = zoomLevel t" for t
    by (rule zoomLevel_ui_run_other) simp
  ultimately show ?thesis by (simp add: path_to_def)
qed

lemma path_to_reaches:
  assumes "experience_inv s"
  shows "ui_run (path_to s) initial_state = s"
proof -
  from assms have i: "0 \<le> currentPresetIndex s" "currentPresetIndex s < 10" and z: "zoom_ok s"
    by (simp_all add: experience_inv_def preset_index_ok_def)
  have "preset_index_ok initial_state"
    using experience_inv_initial by (simp add: experience_inv_def)
  then have "currentPresetIndex (ui_run (path_to s) initial_state) = currentPresetIndex s"
    using i by (simp add: index_after_run count_path_to)
  moreover have "isAnimating (ui_run (path_to s) initial_state) = isAnimating s"
    by (simp add: isAnimating_after_run count_path_to)
  moreover have "isRotating (ui_run (path_to s) initial_state) = isRotating s"
    by (simp add: isRotating_after_run count_path_to)
  moreover note zoomLevel_path_to [OF z]
  ultimately show ?thesis by (simp only: experience_state_eq_iff simp_thms)
qed

text \<open>
  C10. The invariant is exact. A state of the four cells is reached from the initial
  state by some clicks and firings of the interval if and only if its preset index is
  an index of the table and its zoom level is a half-integer between 2.5 and 7; the
  two flags are free. The component has exactly these states and no others.
\<close>

theorem reachable_iff_invariant:
  "(\<exists>es. ui_run es initial_state = s) \<longleftrightarrow> experience_inv s"
proof
  assume "\<exists>es. ui_run es initial_state = s"
  then obtain es where "ui_run es initial_state = s" ..
  moreover have "experience_inv (ui_run es initial_state)"
    using experience_inv_initial by (rule experience_inv_ui_run)
  ultimately show "experience_inv s" by simp
next
  assume "experience_inv s"
  then have "ui_run (path_to s) initial_state = s" by (rule path_to_reaches)
  then show "\<exists>es. ui_run es initial_state = s" ..
qed

end
