(* ===== verification/Doubles.thy ===== *)
theory Doubles
  imports Experience
begin

text \<open>
  The state cells of \<^verbatim>\<open>Experience\<close> under floating point arithmetic.

  A JavaScript Number is an IEEE 754 double, and the other theories read the zoom
  level as a real and the preset index as an integer. This theory justifies that
  reading. \<open>is_double\<close> says which reals are finite doubles (an integer mantissa below
  \<open>2\<^sup>5\<^sup>3\<close> times a power of two with an exponent from \<open>-1074\<close> to \<open>971\<close>);
  \<open>fp_exact\<close> is the one property of the rounding of an arithmetic operation that is
  used: a result that is a double is returned as it is, which holds in every rounding
  mode. \<open>handleZoomIn_fp\<close> and \<open>handleZoomOut_fp\<close> are the handlers of lines 42 and
  43 with the rounding of \<^verbatim>\<open>prev - 1\<close> and \<^verbatim>\<open>prev + 1\<close> written out
  (\<^verbatim>\<open>Math.max\<close> and \<^verbatim>\<open>Math.min\<close> return one of their arguments and round nothing), and
  \<open>ui_run_fp\<close> runs events with them. \<open>next_index_fp\<close> is the updater of line 31
  on Numbers: the rounded sum \<^verbatim>\<open>prevIndex + 1\<close> and the remainder \<^verbatim>\<open>%\<close> of two Numbers
  (\<open>js_rem\<close>, which truncates the quotient towards zero and rounds nothing, the
  remainder of two doubles being a double).

  The lemmas: every zoom level of the invariant, its predecessor and its successor are
  doubles, and so are the preset index and its successor; hence the handlers with
  rounding compute what the handlers over the reals compute, in every state that
  satisfies the invariant and so along every run; and the updater on Numbers computes
  the Number of the index that \<open>interval_callback\<close> computes on integers.
\<close>

section \<open>Doubles\<close>

definition double_of :: "int \<Rightarrow> int \<Rightarrow> number" where
  "double_of m e = of_int m * 2 powi e"

definition is_double :: "number \<Rightarrow> bool" where
  "is_double x \<longleftrightarrow> (\<exists>m e. \<bar>m\<bar> < 2 ^ 53 \<and> - 1074 \<le> e \<and> e \<le> 971 \<and> x = double_of m e)"

definition fp_exact :: "(number \<Rightarrow> number) \<Rightarrow> bool" where
  "fp_exact rnd \<longleftrightarrow> (\<forall>x. is_double x \<longrightarrow> rnd x = x)"

section \<open>The zoom handlers with rounding\<close>

definition handleZoomIn_fp :: "(number \<Rightarrow> number) \<Rightarrow> experience_state \<Rightarrow> experience_state" where
  "handleZoomIn_fp rnd = setZoomLevel (\<lambda>prev. max (rnd (prev - 1)) 2.5)"

definition handleZoomOut_fp :: "(number \<Rightarrow> number) \<Rightarrow> experience_state \<Rightarrow> experience_state" where
  "handleZoomOut_fp rnd = setZoomLevel (\<lambda>prev. min (rnd (prev + 1)) 7)"

fun onClick_fp :: "(number \<Rightarrow> number) \<Rightarrow> button \<Rightarrow> experience_state \<Rightarrow> experience_state" where
  "onClick_fp rnd AnimationButton = handleAnimationToggle"
| "onClick_fp rnd RotationButton = handleRotationToggle"
| "onClick_fp rnd ZoomInButton = handleZoomIn_fp rnd"
| "onClick_fp rnd ZoomOutButton = handleZoomOut_fp rnd"

fun ui_step_fp :: "(number \<Rightarrow> number) \<Rightarrow> ui_event \<Rightarrow> experience_state \<Rightarrow> experience_state" where
  "ui_step_fp rnd (Click b) = onClick_fp rnd b"
| "ui_step_fp rnd Tick = interval_callback"

definition ui_run_fp :: "(number \<Rightarrow> number) \<Rightarrow> ui_event list \<Rightarrow> experience_state \<Rightarrow> experience_state" where
  "ui_run_fp rnd = fold (ui_step_fp rnd)"

section \<open>The index updater on Numbers\<close>

definition js_trunc :: "number \<Rightarrow> int" where
  "js_trunc x = (if 0 \<le> x then \<lfloor>x\<rfloor> else \<lceil>x\<rceil>)"

definition js_rem :: "number \<Rightarrow> number \<Rightarrow> number" where
  "js_rem a b = a - b * of_int (js_trunc (a / b))"

definition next_index_fp :: "(number \<Rightarrow> number) \<Rightarrow> number \<Rightarrow> number" where
  "next_index_fp rnd prevIndex = js_rem (rnd (prevIndex + 1)) (of_nat (length environmentPresets))"

section \<open>Which values are doubles\<close>

lemma is_doubleI:
  assumes "\<bar>m\<bar> < 2 ^ 53" and "- 1074 \<le> e" and "e \<le> 971"
  shows "is_double (double_of m e)"
  using assms unfolding is_double_def by blast

lemma is_double_of_int: "\<bar>k\<bar> < 2 ^ 53 \<Longrightarrow> is_double (of_int k)"
  using is_doubleI [of k 0] by (simp add: double_of_def)

lemma is_double_half: "\<bar>k\<bar> < 2 ^ 53 \<Longrightarrow> is_double (of_int k / 2)"
  using is_doubleI [of k "- 1"] by (simp add: double_of_def power_int_minus field_simps)

lemma fp_exact_id [simp]: "fp_exact (\<lambda>x. x)"
  by (simp add: fp_exact_def)

lemma fp_exactD: "fp_exact rnd \<Longrightarrow> is_double x \<Longrightarrow> rnd x = x"
  by (simp add: fp_exact_def)

lemma is_double_zoom:
  assumes "zoom_ok s"
  shows "is_double (zoomLevel s)" and "is_double (zoomLevel s - 1)" and "is_double (zoomLevel s + 1)"
proof -
  from assms have "half_integer (zoomLevel s)" "of_int 5 / 2 \<le> zoomLevel s" "zoomLevel s \<le> of_int 14 / 2"
    by (simp_all add: zoom_ok_def)
  then obtain j :: int where j: "5 \<le> j" "j \<le> 14" "zoomLevel s = of_int j / 2"
    using half_integer_between by blast
  have "zoomLevel s - 1 = of_int (j - 2) / 2" "zoomLevel s + 1 = of_int (j + 2) / 2"
    by (simp_all add: j(3))
  moreover from j(1,2) have "\<bar>j\<bar> < 2 ^ 53" "\<bar>j - 2\<bar> < 2 ^ 53" "\<bar>j + 2\<bar> < 2 ^ 53" by simp_all
  ultimately show "is_double (zoomLevel s)" "is_double (zoomLevel s - 1)" "is_double (zoomLevel s + 1)"
    by (simp_all only: j(3) is_double_half)
qed

lemma is_double_index:
  assumes "preset_index_ok s"
  shows "is_double (of_int (currentPresetIndex s))" and "is_double (of_int (currentPresetIndex s + 1))"
  using assms by (simp_all add: preset_index_ok_def is_double_of_int del: of_int_add)

section \<open>The handlers with rounding compute what the handlers over the reals compute\<close>

lemma handleZoomIn_fp_eq:
  assumes "fp_exact rnd" and "zoom_ok s"
  shows "handleZoomIn_fp rnd s = handleZoomIn s"
  using fp_exactD [OF assms(1) is_double_zoom(2) [OF assms(2)]]
  by (simp add: handleZoomIn_fp_def handleZoomIn_def setZoomLevel_def)

lemma handleZoomOut_fp_eq:
  assumes "fp_exact rnd" and "zoom_ok s"
  shows "handleZoomOut_fp rnd s = handleZoomOut s"
  using fp_exactD [OF assms(1) is_double_zoom(3) [OF assms(2)]]
  by (simp add: handleZoomOut_fp_def handleZoomOut_def setZoomLevel_def)

lemma ui_step_fp_eq:
  assumes "fp_exact rnd" and "experience_inv s"
  shows "ui_step_fp rnd e s = ui_step e s"
proof (cases e)
  case (Click b)
  from assms(2) have "zoom_ok s" by (simp add: experience_inv_def)
  with assms(1) Click show ?thesis
    by (cases b) (simp_all add: handleZoomIn_fp_eq handleZoomOut_fp_eq)
qed simp

lemma ui_run_fp_simps [simp]:
  "ui_run_fp rnd [] s = s"
  "ui_run_fp rnd (e # es) s = ui_run_fp rnd es (ui_step_fp rnd e s)"
  by (simp_all add: ui_run_fp_def)

lemma ui_run_fp_eq:
  assumes "fp_exact rnd" and "experience_inv s"
  shows "ui_run_fp rnd es s = ui_run es s"
  using assms(2)
proof (induction es arbitrary: s)
  case Nil
  show ?case by simp
next
  case (Cons e es)
  from Cons.prems have "experience_inv (ui_step e s)" by (rule experience_inv_ui_step)
  from Cons.IH [OF this] Cons.prems assms(1) show ?case by (simp add: ui_step_fp_eq)
qed

text \<open>
  C9. The real-valued model is the program. Under every rounding of the arithmetic
  that returns a representable result exactly, a run of clicks and interval firings
  with the rounded zoom handlers, from a state that satisfies the invariant, ends in
  the state that the handlers over the reals compute, and the zoom level of that state
  and the preset index are doubles.
\<close>

theorem rounded_run_is_exact:
  assumes "fp_exact rnd" and "experience_inv s"
  shows "ui_run_fp rnd es s = ui_run es s
       \<and> is_double (zoomLevel (ui_run es s))
       \<and> is_double (of_int (currentPresetIndex (ui_run es s)))"
proof -
  from assms(2) have "experience_inv (ui_run es s)" by (rule experience_inv_ui_run)
  then have "zoom_ok (ui_run es s)" "preset_index_ok (ui_run es s)"
    by (simp_all add: experience_inv_def)
  with assms show ?thesis by (simp add: ui_run_fp_eq is_double_zoom(1) is_double_index(1))
qed

theorem rounded_run_is_exact_witness:
  "fp_exact (\<lambda>x. x) \<and> experience_inv initial_state
   \<and> ui_run_fp (\<lambda>x. x) [Click ZoomInButton, Click ZoomInButton, Click ZoomInButton, Tick] initial_state
     = \<lparr>currentPresetIndex = 1, isAnimating = True, isRotating = True, zoomLevel = 2.5\<rparr>
   \<and> is_double 2.5"
proof -
  let ?es = "[Click ZoomInButton, Click ZoomInButton, Click ZoomInButton, Tick]"
  have r: "ui_run ?es initial_state
      = \<lparr>currentPresetIndex = 1, isAnimating = True, isRotating = True, zoomLevel = 2.5\<rparr>"
    by (simp add: viewer_defs initial_state_def)
  from rounded_run_is_exact [OF fp_exact_id experience_inv_initial, of ?es]
  show ?thesis by (simp add: r experience_inv_initial)
qed

section \<open>The remainder on Numbers\<close>

text \<open>
  On integers that are not negative the remainder of Numbers is the remainder of
  integers; the sign of a negative dividend is the subject of \<open>smod\<close> in the prelude.
\<close>

lemma js_rem_of_int:
  "js_rem (of_int k) (of_int l) = of_int (k smod l)" if "0 \<le> k" "0 < l"
proof -
  from that have "js_trunc (of_int k / of_int l) = k div l"
    by (simp add: js_trunc_def floor_divide_of_int_eq)
  moreover from that have "k smod l = k mod l"
    by (simp add: signed_modulo_int_def sgn_if)
  moreover have "(of_int (k mod l) :: real) = of_int (k - l * (k div l))"
    by (simp only: minus_mult_div_eq_mod)
  ultimately show ?thesis by (simp add: js_rem_def)
qed

lemma next_index_fp_eq:
  assumes "fp_exact rnd" and "0 \<le> i" and "i < 10"
  shows "next_index_fp rnd (of_int i) = of_int ((i + 1) smod int (length environmentPresets))"
proof -
  from assms(2,3) have "is_double (of_int (i + 1))" by (intro is_double_of_int) simp
  with assms(1) have "rnd (of_int i + 1) = of_int (i + 1)" by (simp add: fp_exactD)
  moreover have "js_rem (of_int (i + 1)) (of_int 10) = of_int ((i + 1) smod 10)"
    using assms(2) by (intro js_rem_of_int) simp_all
  ultimately show ?thesis by (simp add: next_index_fp_def)
qed

lemma next_index_fp_step:
  assumes "fp_exact rnd" and "preset_index_ok s"
  shows "next_index_fp rnd (of_int (currentPresetIndex s))
       = of_int (currentPresetIndex (interval_callback s))"
  using assms by (simp add: next_index_fp_eq preset_index_ok_def)

text \<open>
  C29. The integer index is the program's Number. Under every rounding that returns a
  representable result exactly, any number of runs of the updater of the interval
  callback on Numbers, started at the Number of an index in range, yields the Number of
  the index that as many runs of \<open>interval_callback\<close> compute with the remainder of
  integers: the cell of Numbers and the cell of integers stay in step.
\<close>

theorem index_update_on_doubles:
  assumes "fp_exact rnd" and "preset_index_ok s"
  shows "(next_index_fp rnd ^^ k) (of_int (currentPresetIndex s))
       = of_int (currentPresetIndex ((interval_callback ^^ k) s))"
  using assms(2)
proof (induction k arbitrary: s)
  case 0
  show ?case by simp
next
  case (Suc k)
  from Suc.prems have "preset_index_ok (interval_callback s)"
    by (rule preset_index_ok_interval_callback)
  from Suc.IH [OF this] next_index_fp_step [OF assms(1) Suc.prems]
  show ?case by (simp only: funpow_Suc_right comp_apply)
qed

theorem index_update_on_doubles_witness:
  "fp_exact (\<lambda>x. x) \<and> preset_index_ok (ui_run (replicate 9 Tick) initial_state)
   \<and> (next_index_fp (\<lambda>x. x) ^^ 12) 9 = 1"
proof -
  let ?s = "ui_run (replicate 9 Tick) initial_state"
  have ok: "preset_index_ok ?s" and i: "currentPresetIndex ?s = 9"
    and j: "currentPresetIndex ((interval_callback ^^ 12) ?s) = 1"
    by (simp_all add: preset_index_ok_def ui_run_replicate_Tick funpow_interval_callback_index
        initial_state_def eval_nat_numeral flip: funpow_add)
  from index_update_on_doubles [OF fp_exact_id ok, of 12] ok show ?thesis
    by (simp only: i j fp_exact_id simp_thms of_int_numeral of_int_1)
qed

end
