(* ===== verification/Spec2Isabelle.thy ===== *)
theory Spec2Isabelle
  imports Viewer Strict_Mode Interleaving Clock Late_Viewer Batching Scene Module Abstract_Viewer
    Reachable_States Doubles
begin

text \<open>
  \<^bold>\<open>A verification development for the 3D car viewer\<close>
  (\<^verbatim>\<open>src/src/component/Experience.jsx\<close>, the only source file of the repository).

  \<^bold>\<open>The program.\<close> One React component, \<^verbatim>\<open>Experience\<close>, and two helper components,
  \<^verbatim>\<open>CameraManager\<close> and \<^verbatim>\<open>AnimatedModel\<close>. \<^verbatim>\<open>Experience\<close> keeps four state cells (the
  index of the current environment preset, two flags and a zoom level), registers an
  interval that advances the index every 2000 ms and clears it when it is unmounted,
  offers four buttons, and renders a canvas whose background, environment map and
  ambient light come from the table entry at the current index. \<^verbatim>\<open>CameraManager\<close>
  configures the orbit controls and, in an effect that depends on the rotation flag,
  writes the flag to their \<^verbatim>\<open>enabled\<close> field. \<^verbatim>\<open>AnimatedModel\<close> turns the model by
  \<^verbatim>\<open>delta * 0.5\<close> per frame while the animation flag is set and the model is loaded.

  \<^bold>\<open>The theories\<close>, in the order of their imports.

  \<^item> \<open>Prelude\<close>: the values of the model (\<open>number\<close>, \<open>vec3\<close>, \<open>js_error\<close>, the double
    \<open>Math_PI\<close>); array reads that may miss (\<open>js_index\<close>); the comparison of effect
    dependencies (\<open>deps_changed\<close>); what is assumed of floating point rounding
    (\<open>rounding\<close>); the lemmas on the truncating remainder \<open>smod\<close> along a cyclic
    counter, on half-integers and on folds; the collections \<open>viewer_defs\<close> and
    \<open>viewer_inv\<close>.
  \<^item> \<open>Presets\<close>: the table \<open>environmentPresets\<close> (lines 10 to 21) and a read of it
    (\<open>preset_at\<close>, line 37). Lemmas: the length of the table, the distinctness of its
    names, the well-formedness of every entry.
  \<^item> \<open>Timers\<close>: the browser's table of intervals, which the source only calls
    (\<open>setInterval\<close>, \<open>clearInterval\<close>) and which is therefore modelled from the
    behaviour the specification relies on: fresh handles, firing once per period,
    silence after clearing. Time passes by \<open>elapse\<close>, one millisecond at a time.
    Lemmas: well-formedness (\<open>timers_wf\<close>) is preserved; the number of firings of an
    interval in \<open>n\<close> ms has the closed form \<open>fires\<close>.
  \<^item> \<open>Experience\<close>: the state cells (\<open>experience_state\<close>, lines 23 to 26), the
    setters, the interval effect and its cleanup (\<open>useEffect_interval\<close>,
    \<open>useEffect_cleanup\<close>, \<open>interval_callback\<close>, lines 28 to 35), the handlers
    (lines 40 to 43), the view (\<open>render\<close>, lines 45 to 86) and the dispatch of
    clicks and ticks (\<open>ui_step\<close>, \<open>ui_run\<close>). Lemmas: the invariant
    \<open>experience_inv\<close> and its preservation; the closed forms of repeated ticks and
    zooms; the set of reachable zoom levels; the independence of the four cells;
    \<open>render\<close> fails exactly when the index is outside the table, which no reachable
    state has.
  \<^item> \<open>Batching\<close>: React's queue of state updates and the scope of closures. A call of
    a setter queues an updater or a value (\<open>set_state_action\<close>, \<open>update\<close>); a render
    processes the queue (\<open>rerender_cells\<close>); a handler reads the cells of the render that
    created it and the interval callback those of the mount (\<open>scope_of\<close>). The handlers
    of lines 31 and 40 to 43 as calls of setters (\<open>source_calls\<close>). Lemmas: for handlers
    whose calls do not depend on their scope, and so for those of the source, the cells do
    not depend on where the renders fall; handlers that pass values lose clicks and stop
    the cycle at the second preset.
  \<^item> \<open>CameraManager\<close>: the constants passed to the orbit controls (lines 99 to 112),
    the effect that writes \<^verbatim>\<open>enabled\<close> (lines 92 to 96) and React's rule for running
    it (\<open>cameraManager_commit\<close>). Lemmas: the effect is idempotent; running it only
    when the flag changed is equivalent to running it at every commit.
  \<^item> \<open>AnimatedModel\<close>: the frame callback (lines 119 to 124) and the constants of the
    model (lines 127 to 131). The rounding of the two floating point operations is the
    parameter \<open>rnd\<close>. Lemmas: the guard; the rotation after a list of frames under
    exact arithmetic; monotonicity under every \<open>rounding\<close>.
  \<^item> \<open>Viewer\<close>: the three components and the browser's timers as one event system
    (\<open>viewer\<close>, \<open>event\<close>, \<open>step\<close>, \<open>run\<close>, \<open>reachable\<close>). Lemmas: the invariant
    \<open>viewer_ok\<close> (exactly one interval of the component while mounted, none
    otherwise; the controls agree with the flag) holds in every reachable state; the
    preset index as a function of the elapsed time; the intervals of other scripts are
    left alone; the controls keep their configuration; the model turns by half the
    elapsed time while the animation runs and a stopped animation leaves it where it is.
  \<^item> \<open>Strict_Mode\<close>: a mount under React's strict mode, which runs the effects of
    lines 28 to 35 and 92 to 96, calls their cleanups and runs them again
    (\<open>effects_cleanup\<close>, \<open>effects_setup\<close>, \<open>strict_mount\<close>), and what can be observed of
    a viewer (\<open>observation\<close>: all but the handles of the intervals). Lemmas: time and
    the cleanup act on the intervals, not on their handles; every event respects the
    observation; a strict mount cannot be told from a plain mount.
  \<^item> \<open>Interleaving\<close>: the pairs of events that act on different cells
    (\<open>independent\<close>). Lemmas: the operations of \<open>Viewer\<close> commute pairwise on these
    pairs, time adds up, and adjacent independent events of a run may be swapped; Zoom In
    and Zoom Out at a limit may not.
  \<^item> \<open>Clock\<close>: the interval and the render loop on one clock. A \<open>timeline\<close> is a list
    of waits up to the next frame and of clicks; a wait of \<open>ms\<close> milliseconds is the
    passing of the time and a frame with the delta \<open>ms / 1000\<close>. Lemmas: the rotation
    of the model after a timeline from any mounted state; the preset and the rotation as
    functions of the time since the mount.
  \<^item> \<open>Late_Timers\<close>: timers that are late. The table of \<open>Timers\<close> with the queue of
    firings that are due and have not run (\<open>tasks\<close>); in every millisecond the browser
    takes a prefix of the queue, runs a subsequence of it and drops the rest (\<open>late_ms\<close>,
    \<open>late_elapse\<close>, inductive relations); \<open>cancel\<close> is \<^verbatim>\<open>clearInterval\<close> on the queue.
    Lemmas: the exact schedule is a late schedule; lateness never lets a callback run
    more often; a browser that does not drop runs every firing that is not queued;
    queued firings belong to intervals of the table.
  \<^item> \<open>Late_Viewer\<close>: the events of \<open>Viewer\<close> over late timers (\<open>late_step\<close>,
    \<open>late_run\<close>) with the invariant \<open>late_ok\<close>. Lemmas: every run of \<open>Viewer\<close> is a
    late run; every late step keeps the invariant; the preset index after a mount is
    at most the number of whole periods that have passed, and lags behind it by the
    number of queued firings when the browser does not drop.
  \<^item> \<open>Scene\<close>: the elements that the three components return, as trees
    (\<open>experience_jsx\<close>, lines 45 to 86; \<open>cameraManager_jsx\<close>, lines 98 to 113;
    \<open>animatedModel_jsx\<close>, lines 126 to 132), and the renderer's expansion of the
    helper components (\<open>expand_once\<close>, \<open>render_tree\<close>). Lemmas: rendering ends after
    one pass; the rendered tree has one shape in all states; it carries the values of
    the view \<open>render\<close> and the configuration of \<open>CameraManager\<close>.
  \<^item> \<open>Module\<close>: the top-level statements of the file (the directive of line 1, the
    imports of lines 3 to 6, the declarations of lines 8, 89 and 116) with the free
    identifiers of the three bodies, the bindings that hold a value after \<open>k\<close>
    statements (\<open>initialised\<close>) and a call of a component at that point (\<open>call\<close>).
    Lemmas: every identifier resolves exactly when the module is loaded; one export; no
    unused import.
  \<^item> \<open>Abstract_Viewer\<close>: a finite abstract machine for the four state cells, the
    functional refinement \<open>abstraction (ui_step e s) = abstract_step e (abstraction s)\<close>,
    and the inverse \<open>concretization\<close> of the abstraction on the states of the invariant.
  \<^item> \<open>Reachable_States\<close>: a path of events to every state of the invariant
    (\<open>path_to\<close>), hence the reachable states of the four cells are exactly the states
    that satisfy \<open>experience_inv\<close>.
  \<^item> \<open>Doubles\<close>: which reals are IEEE 754 doubles (\<open>is_double\<close>), the zoom handlers
    and the index updater with the rounding of their arithmetic written out
    (\<open>handleZoomIn_fp\<close>, \<open>handleZoomOut_fp\<close>, \<open>next_index_fp\<close>, lines 42, 43 and
    31), and the proof that they compute what the handlers over the reals and the
    integers compute on every state of the invariant, over runs of any length.
  \<^item> \<open>Spec2Isabelle\<close> (this theory): the projection of a run of the whole system to
    the clicks and ticks it performs on the state cells (\<open>ui_events\<close>), and the
    properties that span components: the whole system refines the abstract machine, the
    camera stays within the range of the orbit controls, and the reachable states of the
    four cells number four hundred.

  \<^bold>\<open>How the model reads the code.\<close> A \<^verbatim>\<open>useState\<close> cell is a record field; a setter
  called with an updater is the updater applied to the field, which is what React
  computes for any batch of queued updaters, in their order (the theory \<open>Batching\<close>
  proves it from a model of the queue). The preset index is an
  \<open>int\<close> and \<^verbatim>\<open>%\<close> is the truncating \<open>smod\<close>, so that the index staying in range is a
  theorem and not a typing artefact. A read of the table outside its range is
  \<open>None\<close> (\<^verbatim>\<open>undefined\<close>) and the dereference of it in \<open>render\<close> is \<open>Inl TypeError\<close>.
  Zoom levels are reals; \<open>zoom_ok\<close> shows that they stay on the ten half-integers
  from 2.5 to 7, and the theory \<open>Doubles\<close> shows that the arithmetic of IEEE doubles
  is exact there, so the real-valued model and the program compute the same zoom
  levels. The rotation of the model is
  not on such a grid, so its arithmetic is rounded by \<open>rnd\<close>, of which the theorems
  assume only \<open>rounding\<close> (monotone, exact at zero, idempotent) or, where they state
  a closed form, exactness. A ref is an \<open>option\<close>; an effect with dependencies
  records the dependencies of its last run (\<open>effect_deps\<close>).

  \<^bold>\<open>Bounds and fuel.\<close> No definition needs fuel: every loop of the model is a
  structural recursion (\<open>elapse\<close> on the number of milliseconds, the runs on the list
  of events and the timelines, the passes over a tree of elements; the late timers and
  the late runs are inductive relations), except the renderer's loop
  \<open>render_tree\<close>, which is \<open>while_option\<close> of \<open>HOL-Library.While_Combinator\<close> and
  is proved to return on every tree. The only bounds are those of the program: ten presets, a zoom level
  between 2.5 and 7, a period of 2000 ms. Time is discrete at one millisecond, the
  resolution of the delay of \<^verbatim>\<open>setInterval\<close>.

  \<^bold>\<open>Plan.\<close> The components were modelled in the order of their weight in the
  program: the preset table; the state cells, handlers and view of \<^verbatim>\<open>Experience\<close>;
  the browser's timers and the interval effect; \<^verbatim>\<open>CameraManager\<close>; \<^verbatim>\<open>AnimatedModel\<close>;
  their composition; then the abstract machine, the exactness of the invariant and the
  arithmetic on doubles. The kinds of property stated: invariants and their
  preservation, safety of the view, functional closed forms, bounds, round trips,
  equivalences, refinement of the abstract machine, liveness of the preset cycle.
  Then the element trees and the renderer's pass over them (termination), the
  second run of the effects in strict mode, and the interleaving of events.
  The cell of Numbers for the index is related to the integer cell over any number of
  runs of the updater (\<open>Doubles\<close>), and the frames and the timers are driven by one
  clock (\<open>Clock\<close>). Last came what surrounds the components: the timers of a browser
  that is late (\<open>Late_Timers\<close>, \<open>Late_Viewer\<close>), React's queue of updates
  (\<open>Batching\<close>) and the scope of the module (\<open>Module\<close>).
  The plan has nothing left that the source determines; what remains is in the
  libraries the source calls.

  \<^bold>\<open>Not modelled.\<close> The rendering engine, the orbit-control helper's own behaviour
  (damping, clamping of angles and of the camera distance), the loading of the model
  file and the style sheet: the source only calls them and the specification excludes
  them as external collaborators. Their inputs, as the source computes them, are the
  fields of the view, the element trees of \<open>Scene\<close> and the constants of
  \<open>CameraManager\<close> and \<open>AnimatedModel\<close>. Of React, the order of a commit, the rule
  for running effects, the second run of effects in strict mode and the queue of state
  updates are modelled; its scheduler (priorities, concurrent rendering) is not. The
  theory \<open>Viewer\<close> renders after every state update, which by \<open>Batching\<close> shows the
  cells that any other placement of the renders ends with. Of the browser's timers, \<^verbatim>\<open>setInterval\<close> and \<^verbatim>\<open>clearInterval\<close> are modelled,
  with exact periods in \<open>Timers\<close> and with any lateness and any dropping of firings in
  \<open>Late_Timers\<close>; \<^verbatim>\<open>setTimeout\<close> and the other timers of the browser, which the source
  does not call, are not.
\<close>

section \<open>The state cells over a run of the whole system\<close>

definition callback_events :: "timer_callback list \<Rightarrow> ui_event list" where
  "callback_events cbs = map (\<lambda>cb. Tick) (filter (\<lambda>cb. cb = CyclePreset) cbs)"

fun ui_events :: "event \<Rightarrow> viewer \<Rightarrow> ui_event list" where
  "ui_events (UI b) s = (if mounted s then [Click b] else [])"
| "ui_events (Elapse n) s =
     (if mounted s then callback_events (fst (elapse n (browser s))) else [])"
| "ui_events e s = []"

fun resets_cells :: "event \<Rightarrow> viewer \<Rightarrow> bool" where
  "resets_cells (Mount ref) s = (\<not> mounted s)"
| "resets_cells e s = False"

lemma run_callbacks_ui_run: "run_callbacks cbs u = ui_run (callback_events cbs) u"
proof (induction cbs arbitrary: u)
  case Nil
  show ?case by (simp add: callback_events_def)
next
  case (Cons cb cbs)
  then show ?case by (cases cb) (simp_all add: callback_events_def)
qed

lemma ui_step_events:
  "ui (step rnd e s) = (if resets_cells e s then initial_state else ui_run (ui_events e s) (ui s))"
  by (cases e) (simp_all add: viewer_op_defs split_beta run_callbacks_ui_run)

lemma reachable_ui_trace:
  assumes "reachable rnd b0 s"
  shows "\<exists>evs. ui s = ui_run evs initial_state"
  using assms
proof (induction rule: reachable.induct)
  case init
  have "ui (unmounted b0) = ui_run [] initial_state" by (simp add: unmounted_def)
  then show ?case ..
next
  case (step s e)
  from step.IH obtain evs where evs: "ui s = ui_run evs initial_state" ..
  show ?case
  proof (cases "resets_cells e s")
    case True
    then have "ui (step rnd e s) = ui_run [] initial_state" by (simp add: ui_step_events)
    then show ?thesis ..
  next
    case False
    with evs have "ui (step rnd e s) = ui_run (evs @ ui_events e s) initial_state"
      by (simp add: ui_step_events)
    then show ?thesis ..
  qed
qed

lemma reachable_experience_inv:
  assumes "reachable rnd b0 s"
  shows "experience_inv (ui s)"
proof -
  from assms obtain evs where evs: "ui s = ui_run evs initial_state"
    by (auto dest: reachable_ui_trace)
  have "experience_inv (ui_run evs initial_state)"
    using experience_inv_initial by (rule experience_inv_ui_run)
  with evs show ?thesis by simp
qed

lemma reachable_start: "reachable rnd b0 (run rnd es (unmounted b0))"
  by (rule reachable_run) (rule reachable.init)

section \<open>Properties that span the components\<close>



text \<open>
  C7. The camera stays where the orbit controls allow it. In every reachable state of
  the whole system the view renders without an error, the camera is on the z axis at
  the zoom level, and its distance from the origin lies between \<^verbatim>\<open>minDistance\<close> and
  \<^verbatim>\<open>maxDistance\<close> of the controls that \<^verbatim>\<open>CameraManager\<close> configures, so the
  controls never have to move a camera that the buttons placed.
\<close>

theorem camera_within_orbit_range:
  assumes "reachable rnd b0 s"
  shows "\<exists>v. render (ui s) = Inr v
           \<and> camera_position (canvas v) = (0, 0, zoomLevel (ui s))
           \<and> minDistance orbitControls_props \<le> zoomLevel (ui s)
           \<and> zoomLevel (ui s) \<le> maxDistance orbitControls_props"
proof -
  from assms have inv: "experience_inv (ui s)" by (rule reachable_experience_inv)
  then have "preset_index_ok (ui s)" by (simp add: experience_inv_def)
  then obtain v where "render (ui s) = Inr v" "camera_position (canvas v) = (0, 0, zoomLevel (ui s))"
    by (rule render_ok)
  with experience_invD(3,4) [OF inv] show ?thesis
    by (simp add: orbitControls_props_def)
qed

theorem camera_within_orbit_range_witness:
  "reachable (\<lambda>x. x) no_timers
     (run (\<lambda>x. x) [Mount None, UI ZoomOutButton, UI ZoomOutButton, UI ZoomOutButton]
        (unmounted no_timers))
   \<and> (\<exists>v. render (ui (run (\<lambda>x. x) [Mount None, UI ZoomOutButton, UI ZoomOutButton, UI ZoomOutButton]
                (unmounted no_timers))) = Inr v
         \<and> camera_position (canvas v) = (0, 0, 7))
   \<and> maxDistance orbitControls_props = 7"
proof -
  let ?s = "run (\<lambda>x. x) [Mount None, UI ZoomOutButton, UI ZoomOutButton, UI ZoomOutButton]
              (unmounted no_timers)"
  have r: "reachable (\<lambda>x. x) no_timers ?s" by (rule reachable_start)
  have z: "zoomLevel (ui ?s) = 7"
    by (simp add: viewer_op_defs unmounted_def no_timers_def setInterval_def)
  from camera_within_orbit_range [OF r] obtain v
    where "render (ui ?s) = Inr v" "camera_position (canvas v) = (0, 0, zoomLevel (ui ?s))"
    by blast
  then have "render (ui ?s) = Inr v \<and> camera_position (canvas v) = (0, 0, 7)"
    by (simp only: z simp_thms)
  then have ex: "\<exists>v. render (ui ?s) = Inr v \<and> camera_position (canvas v) = (0, 0, 7)" ..
  have "maxDistance orbitControls_props = 7" by (simp add: orbitControls_props_def)
  with r ex show ?thesis by (simp only: simp_thms)
qed

lemma reachable_states: "{s. \<exists>es. ui_run es initial_state = s} = {s. experience_inv s}"
  using experience_inv_ui_run [OF experience_inv_initial] by (auto intro: path_to_reaches)

text \<open>
  C19. The component has exactly four hundred states: the states of the four cells that
  clicks and firings of the interval reach from the initial state are ten preset
  indices times ten zoom levels times the two values of each flag, no more and no
  fewer.
\<close>

theorem state_space_size: "card {s. \<exists>es. ui_run es initial_state = s} = 400"
proof -
  have "bij_betw abstraction {s. experience_inv s} {a. abstract_ok a}"
    by (rule bij_betw_byWitness [where f' = concretization])
      (auto simp: concretization_abstraction experience_inv_concretization abstract_ok_abstraction)
  then have "card {s. experience_inv s} = card {a. abstract_ok a}" by (rule bij_betw_same_card)
  then show ?thesis by (simp only: reachable_states card_abstract_states)
qed

end
